theory Spec2Isabelle
  imports Complex_Main "HOL-Library.Sublist"
begin

section \<open>JavaScript strings and numbers\<close>

text \<open>
  A JavaScript string is a sequence of UTF-16 code units; \<open>length\<close>, \<open>slice\<close>,
  \<open>split\<close> and \<open>trim\<close> all count code units. The texts of the application are
  Kurdish (Arabic script, all in the Basic Multilingual Plane), so every literal of
  \<open>app.ts\<close> is given here as the list of its code units; runs of printable ASCII are
  written as \<open>js ''...''\<close>.
\<close>

type_synonym jsstring = "nat list"

definition js :: "string \<Rightarrow> jsstring" where
  "js s = map of_char s"

text \<open>Decimal digits of a natural number, as \<open>String(n)\<close> prints an integer.\<close>

fun nat_digits :: "nat \<Rightarrow> jsstring" where
  "nat_digits n = (if n < 10 then [48 + n] else nat_digits (n div 10) @ [48 + n mod 10])"

declare nat_digits.simps [simp del]

text \<open>
  The fractional digits of \<open>x\<close> with \<open>0 \<le> x < 1\<close>, at most \<open>k\<close> of them.
\<close>

fun frac_digits :: "nat \<Rightarrow> rat \<Rightarrow> jsstring" where
  "frac_digits 0 x = []"
| "frac_digits (Suc k) x =
     (if x = 0 then []
      else let d = nat \<lfloor>10 * x\<rfloor> in (48 + d) # frac_digits k (10 * x - of_nat d))"

text \<open>
  \<open>Number::toString\<close> on the numbers of the form (\<open>pages\<close>, \<open>temperature\<close>, the
  token counts), which are decimal numbers typed into a number input: sign, integer part,
  and the decimal fraction when there is one. It is exact for integers below \<open>10^21\<close> and
  for decimal fractions of at most twenty digits that are at least \<open>10^-6\<close>; JavaScript
  switches to exponent notation outside that range, which no claim here depends on.
\<close>

definition Number_toString :: "rat \<Rightarrow> jsstring" where
  "Number_toString r =
     (let a = \<bar>r\<bar>; ip = \<lfloor>a\<rfloor>; fr = a - of_int ip
      in (if r < 0 then [45] else []) @ nat_digits (nat ip) @
         (if fr = 0 then [] else 46 # frac_digits 20 fr))"

text \<open>
  \<open>String.prototype.trim\<close> removes white space and line terminators (ECMAScript
  WhiteSpace and LineTerminator) from both ends.
\<close>

definition is_js_space :: "nat \<Rightarrow> bool" where
  "is_js_space c \<longleftrightarrow>
     c \<in> {9, 10, 11, 12, 13, 32, 160, 5760, 8232, 8233, 8239, 8287, 12288, 65279}
     \<or> (8192 \<le> c \<and> c \<le> 8202)"

definition trim :: "jsstring \<Rightarrow> jsstring" where
  "trim s = rev (dropWhile is_js_space (rev (dropWhile is_js_space s)))"

text \<open>
  \<open>s.split(sep)\<close> for a one-unit separator: the pieces between the separators, so
  the empty string splits into one empty piece.
\<close>

fun js_split :: "nat \<Rightarrow> jsstring \<Rightarrow> jsstring list" where
  "js_split sep [] = [[]]"
| "js_split sep (c # cs) =
     (if c = sep then [] # js_split sep cs
      else (case js_split sep cs of
              [] \<Rightarrow> [[c]]
            | l # ls \<Rightarrow> (c # l) # ls))"

text \<open>\<open>s.slice(-n)\<close>: the last \<open>n\<close> code units (all of \<open>s\<close> when it is shorter).\<close>

definition slice_last :: "nat \<Rightarrow> jsstring \<Rightarrow> jsstring" where
  "slice_last n s = drop (length s - n) s"

text \<open>
  \<open>line.replace(/^\d+[.-]/, '')\<close>: a leading run of one or more ASCII digits followed
  by a dot or a hyphen is removed; any other line is left as it is.
\<close>

definition is_digit :: "nat \<Rightarrow> bool" where
  "is_digit c \<longleftrightarrow> 48 \<le> c \<and> c \<le> 57"

definition strip_numbering :: "jsstring \<Rightarrow> jsstring" where
  "strip_numbering line =
     (case dropWhile is_digit line of
        [] \<Rightarrow> line
      | c # rest \<Rightarrow>
          if takeWhile is_digit line \<noteq> [] \<and> (c = 46 \<or> c = 45) then rest else line)"

text \<open>\<open>keys.join(sep)\<close>.\<close>

fun join :: "jsstring \<Rightarrow> jsstring list \<Rightarrow> jsstring" where
  "join sep [] = []"
| "join sep [x] = x"
| "join sep (x # y # ys) = x @ sep @ join sep (y # ys)"

section \<open>Data model\<close>

text \<open>
  \<open>BookSection\<close> (app.ts, lines 27--32). The field \<open>id\<close> of the source is \<open>sid\<close>
  here. Section identifiers are the integers the application assigns (\<open>index + 1\<close>,
  \<open>max + 1\<close>); they are modelled as unbounded integers, which agrees with JavaScript
  numbers below \<open>2^53\<close>.
\<close>

datatype Status = Pending | Generating | Done | Humanizing

record BookSection =
  sid :: int
  title :: jsstring
  content :: jsstring
  status :: Status

text \<open>
  The value of the reactive form (app.ts, lines 99--219): the text and number controls as
  fields, the check boxes as one function from the control's name to its value.
\<close>

record AdvancedForm =
  form_title :: jsstring
  topic :: jsstring
  writing_type :: jsstring
  level :: jsstring
  pages :: rat
  styleText :: jsstring
  compareText1 :: jsstring
  compareText2 :: jsstring
  compareBasis :: jsstring
  temperature :: rat
  thinkingTokens :: rat
  writingTokens :: rat
  citationStyle :: jsstring
  referenceType :: jsstring
  customOutline :: jsstring
  customSources :: jsstring
  flag :: "string \<Rightarrow> bool"

text \<open>
  The record a save inserts (\<open>documentData\<close>, lines 863--870) and the row the record
  store returns for it (\<open>SavedDocument\<close>, lines 34--42), which adds the row's identifier.
\<close>

record DocumentData =
  doc_title :: jsstring
  doc_topic :: jsstring
  doc_type :: jsstring
  doc_level :: jsstring
  doc_content :: jsstring
  created_at :: jsstring

record SavedDocument = DocumentData +
  doc_id :: int

datatype AppView = Landing | Writing | Library | Seminar | Settings

text \<open>
  What the application sends out: a prompt to the generative text endpoint, or an insert,
  a select or a delete to the record store. The list of requests sent so far is part of
  the state, so that a theorem can say which calls an operation makes.
\<close>

datatype request =
    Generate jsstring
  | Insert DocumentData
  | Select
  | Delete int

text \<open>
  The item \<open>mamlibrary_autosave\<close> of the local cache. The source stores the JSON text
  of \<open>{sections, form}\<close> and, reading it back, also accepts a bare array of sections;
  the item is represented by the value its text denotes.
\<close>

datatype autosave =
    Snapshot "BookSection list" AdvancedForm
  | SectionArray "BookSection list"

text \<open>
  The component's signals and form (lines 58--74), followed by the two parts of the
  environment the component acts on: the local cache and the requests sent.
\<close>

record App =
  currentView :: AppView
  writingWindow :: nat
  advancedForm :: AdvancedForm
  sections :: "BookSection list"
  activeSectionId :: "int option"
  isGeneratingGlobal :: bool
  globalError :: jsstring
  isAutoSelecting :: "string option"
  savedDocuments :: "SavedDocument list"
  isLoadingDocs :: bool
  localStorage :: "autosave option"
  requests :: "request list"

text \<open>
  The answers of the environment. A streamed generation delivers chunks of text and then
  either ends or fails (a call that is refused outright fails with no chunk); a plain
  generation returns a response whose text may be missing, or fails.
\<close>

datatype stream_reply = Completed "jsstring list" | Failed "jsstring list"

datatype content_reply = Response "jsstring option" | Rejected

section \<open>The texts of the application\<close>

text \<open>
  Every string literal and every literal piece of a template literal that the modelled
  functions use, with the line of \<open>app.ts\<close> it stands on. The comment before each
  definition shows its ASCII characters, with \<open>?\<close> for a character outside ASCII
  and \<open>/\<close> for a line break.
\<close>

(* app.ts line 101  |??????| *)
definition default_topic :: jsstring where
  "default_topic = [1586, 1575, 1606, 1587, 1578, 1740]"

(* app.ts line 102  |????| *)
definition default_type :: jsstring where
  "default_type = [1705, 1578, 1742, 1576]"

(* app.ts line 103  |????????| *)
definition default_level :: jsstring where
  "default_level = [1662, 1685, 1734, 1601, 1740, 1587, 1734, 1585]"

(* app.ts line 115  |Harvard| *)
definition default_citationStyle :: jsstring where
  "default_citationStyle = js ''Harvard''"

(* app.ts line 116  |Primary Sources (?????????? ???????)| *)
definition default_referenceType :: jsstring where
  "default_referenceType = js ''Primary Sources ('' @ [1578, 1608, 1742, 1688, 1740, 1606, 1749,
     1608, 1749, 1740, 32, 1576, 1606, 1749, 1685, 1749, 1578, 1740, 41]"

(* app.ts line 240  |????? ?????? ????????? ???????? ??????.| *)
definition msg_autoSelect_noTitle :: jsstring where
  "msg_autoSelect_noTitle = [1578, 1705, 1575, 1740, 1749, 32, 1587, 1749, 1585, 1749, 1578,
     1575, 32, 1606, 1575, 1608, 1606, 1740, 1588, 1575, 1606, 1740, 32, 1576, 1575, 1576, 1749,
     1578, 1749, 1705, 1749, 32, 1576, 1606, 1608, 1608, 1587, 1749, 46]"

(* app.ts line 283  |??????? ?????? ?? ???? ?????????? ??????????.| *)
definition msg_autoSelect_error :: jsstring where
  "msg_autoSelect_error = [1607, 1749, 1717, 1749, 1740, 1749, 1705, 32, 1685, 1608, 1608, 1740,
     1583, 1575, 32, 1604, 1749, 32, 1705, 1575, 1578, 1740, 32, 1607, 1749, 1717, 1576, 1688,
     1575, 1585, 1583, 1606, 1740, 32, 1574, 1734, 1578, 1734, 1605, 1575, 1578, 1740, 1705,
     1740, 46]"

(* app.ts line 342  |??????? ?????? ?? ????????? ???????????? ?? ????? ????.| *)
definition msg_loadDocuments_error :: jsstring where
  "msg_loadDocuments_error = [1607, 1749, 1717, 1749, 1740, 1749, 1705, 32, 1685, 1608, 1608,
     1740, 1583, 1575, 32, 1604, 1749, 32, 1607, 1742, 1606, 1575, 1606, 1749, 1608, 1749, 1740,
     32, 1578, 1608, 1742, 1688, 1740, 1606, 1749, 1608, 1749, 1705, 1575, 1606, 32, 1604, 1749,
     32, 1576, 1606, 1705, 1749, 1740, 32, 1583, 1575, 1578, 1575, 46]"

(* app.ts line 362  |??????? ?????? ?? ?????????? ???????? ???????????.| *)
definition msg_readDocument_error :: jsstring where
  "msg_readDocument_error = [1607, 1749, 1717, 1749, 1740, 1749, 1705, 32, 1685, 1608, 1608,
     1740, 1583, 1575, 32, 1604, 1749, 32, 1582, 1608, 1742, 1606, 1583, 1606, 1749, 1608, 1749,
     1740, 32, 1606, 1575, 1608, 1749, 1685, 1734, 1705, 1740, 32, 1578, 1608, 1742, 1688, 1740,
     1606, 1749, 1608, 1749, 1705, 1749, 46]"

(* app.ts line 379  |??????? ?????? ?? ???????? ???????????.| *)
definition msg_deleteDocument_error :: jsstring where
  "msg_deleteDocument_error = [1607, 1749, 1717, 1749, 1740, 1749, 1705, 32, 1685, 1608, 1608,
     1740, 1583, 1575, 32, 1604, 1749, 32, 1587, 1685, 1740, 1606, 1749, 1608, 1749, 1740, 32,
     1578, 1608, 1742, 1688, 1740, 1606, 1749, 1608, 1749, 1705, 1749, 46]"

(* app.ts line 386  |????? ????? ????????? ???????????? ?????????.| *)
definition msg_form_invalid :: jsstring where
  "msg_form_invalid = [1578, 1705, 1575, 1740, 1749, 32, 1607, 1749, 1605, 1608, 1608, 32, 1586,
     1575, 1606, 1740, 1575, 1585, 1740, 1740, 1749, 32, 1583, 1575, 1608, 1575, 1705, 1585,
     1575, 1608, 1749, 1705, 1575, 1606, 32, 1662, 1685, 1576, 1705, 1749, 1585, 1749, 1608,
     1749, 46]"

(* app.ts line 457  |??????? ?????? ?? ??????? ?????????.| *)
definition msg_outline_error :: jsstring where
  "msg_outline_error = [1607, 1749, 1717, 1749, 1740, 1749, 1705, 32, 1685, 1608, 1608, 1740,
     1583, 1575, 32, 1604, 1749, 32, 1583, 1575, 1685, 1588, 1578, 1606, 1740, 32, 1662, 1742,
     1705, 1607, 1575, 1578, 1749, 1705, 1749, 46]"

(* app.ts line 470  |???? ???| *)
definition new_section_title :: jsstring where
  "new_section_title = [1576, 1749, 1588, 1740, 32, 1606, 1608, 1742]"

(* app.ts line 805  |???? ?? ???????????? ??????????.| *)
definition msg_review_error :: jsstring where
  "msg_review_error = [1607, 1749, 1717, 1749, 32, 1604, 1749, 32, 1662, 1742, 1583, 1575, 1670,
     1608, 1608, 1606, 1749, 1608, 1749, 1740, 32, 1574, 1749, 1705, 1575, 1583, 1740, 1605,
     1740, 1583, 1575, 46]"

(* app.ts line 887  |????????| *)
definition msg_save_unknown :: jsstring where
  "msg_save_unknown = [1606, 1749, 1586, 1575, 1606, 1585, 1575, 1608]"

(* app.ts line 888  |??????? ?????? ?? ???? ???????????? ?? ????? ????: | *)
definition msg_save_error :: jsstring where
  "msg_save_error = [1607, 1749, 1717, 1749, 1740, 1749, 1705, 32, 1685, 1608, 1608, 1740, 1583,
     1575, 32, 1604, 1749, 32, 1705, 1575, 1578, 1740, 32, 1662, 1575, 1588, 1749, 1705, 1749,
     1608, 1578, 1705, 1585, 1583, 1606, 32, 1604, 1749, 32, 1576, 1606, 1705, 1749, 1740, 32,
     1583, 1575, 1578, 1575, 58, 32]"

(* app.ts line 249  |/      You are an expert academic advisor at Harvard University./  ...| *)
definition autoSelect_text_1 :: jsstring where
  "autoSelect_text_1 = [10]
     @ js ''      You are an expert academic advisor at Harvard University.'' @ [10]
     @ js ''      I am writing a ''"

(* app.ts line 249  | level | *)
definition autoSelect_text_2 :: jsstring where
  "autoSelect_text_2 = js '' level ''"

(* app.ts line 249  | titled "| *)
definition autoSelect_text_3 :: jsstring where
  "autoSelect_text_3 = js '' titled '' @ [34]"

(* app.ts line 249  |"./      /      I have a group of advanced academic features: | *)
definition autoSelect_text_4 :: jsstring where
  "autoSelect_text_4 = [34, 46, 10] @ js ''      '' @ [10]
     @ js ''      I have a group of advanced academic features: ''"

(* app.ts line 249  |./      /      Based on the title, type, and level, select the MOST...| *)
definition autoSelect_text_5 :: jsstring where
  "autoSelect_text_5 = [46, 10] @ js ''      '' @ [10]
     @ js ''      Based on the title, type, and level, select the MOST RELEVANT features from this list that would genuinely improve the quality of this specific work. Return ONLY a valid JSON array of strings containing the exact keys of the selected features. Do not include any markdown formatting, just the raw JSON array. For example: [''
     @ [34] @ js ''feature1'' @ [34, 44, 32, 34] @ js ''feature2'' @ [34, 93, 10]
     @ js ''      ''"

(* app.ts line 417  |/      ?? ???????????? ????? ???????? ?????? ??????? (Harvard Unive...| *)
definition outline_text_1 :: jsstring where
  "outline_text_1 = [10] @ js ''      '' @ [1578, 1734, 32, 1587, 1749, 1585, 1606, 1608, 1608,
     1587, 1749, 1585, 1742, 1705, 1740, 32, 1576, 1575, 1717, 1575, 1740, 32, 1670, 1575, 1662,
     1582, 1575, 1606, 1749, 1740, 32, 1586, 1575, 1606, 1705, 1734, 1740, 32, 1607, 1575, 1585,
     1700, 1575, 1585, 1583] @ js '' (Harvard University Press)'' @ [1740, 1578, 46, 10]
     @ js ''      '' @ [1578, 1705, 1575, 1740, 1749, 32, 1662, 1742, 1705, 1607, 1575, 1578,
     1749, 32, 1608, 32, 1606, 1575, 1608, 1606, 1740, 1588, 1575, 1606, 1740, 32, 1576, 1749,
     1588, 1749, 1705, 1575, 1606, 1740, 32, 1574, 1749, 1605, 32, 1576, 1749, 1585, 1607, 1749,
     1605, 1749, 32, 1583, 1575, 1576, 1685, 1742, 1688, 1749, 32, 1576, 1749, 32, 1587, 1578,
     1575, 1606, 1583, 1575, 1585, 1583, 1740, 32, 1578, 1608, 1606, 1583, 1740, 32, 1574, 1749,
     1705, 1575, 1583, 1740, 1605, 1740, 32, 1607, 1575, 1585, 1700, 1575, 1585, 1583, 58, 10]
     @ js ''      '' @ [1606, 1575, 1608, 1606, 1740, 1588, 1575, 1606, 58, 32]"

(* app.ts line 417  |/      ?????: | *)
definition outline_text_2 :: jsstring where
  "outline_text_2 = [10] @ js ''      '' @ [1576, 1575, 1576, 1749, 1578, 58, 32]"

(* app.ts line 417  |/      ???: | *)
definition outline_text_3 :: jsstring where
  "outline_text_3 = [10] @ js ''      '' @ [1580, 1734, 1585, 58, 32]"

(* app.ts line 417  |/      ????: | *)
definition outline_text_4 :: jsstring where
  "outline_text_4 = [10] @ js ''      '' @ [1574, 1575, 1587, 1578, 58, 32]"

(* app.ts line 417  |/      ??????: | *)
definition outline_text_5 :: jsstring where
  "outline_text_5 = [10] @ js ''      '' @ [1602, 1749, 1576, 1575, 1585, 1749, 58, 32]"

(* app.ts line 417  | ??????/      /      ????? ????????? ???????? ????? ?? ????? ??????...| *)
definition outline_text_6 :: jsstring where
  "outline_text_6 = [32, 1604, 1575, 1662, 1749, 1685, 1749, 10] @ js ''      '' @ [10]
     @ js ''      '' @ [1578, 1749, 1606, 1607, 1575, 32, 1606, 1575, 1608, 1606, 1740, 1588,
     1575, 1606, 1740, 32, 1576, 1749, 1588, 1749, 1705, 1575, 1606, 1605, 32, 1576, 1583, 1749,
     1585, 1742, 32, 1576, 1749, 32, 1588, 1742, 1608, 1749, 1740, 32, 1604, 1740, 1587, 1578,
     1742, 1705, 1740, 32, 1688, 1605, 1575, 1585, 1749, 1740, 1740, 1548, 32, 1576, 1742, 32,
     1607, 1740, 1670, 32, 1602, 1587, 1749, 1740, 1749, 1705, 1740, 32, 1586, 1740, 1575, 1583,
     1749, 46, 32, 1576, 1575, 32, 1688, 1605, 1575, 1585, 1749, 1740, 32, 1576, 1749, 1588,
     1749, 1705, 1575, 1606, 32, 1711, 1608, 1606, 1580, 1575, 1608, 32, 1576, 1742, 1578, 32,
     1576, 1734, 32, 1574, 1749, 1605, 32, 1602, 1749, 1576, 1575, 1585, 1749, 1740, 1749, 46,
     10] @ js ''      ''"

(* app.ts line 448  |???? | *)
definition placeholder_text_1 :: jsstring where
  "placeholder_text_1 = [1576, 1749, 1588, 1740, 32]"

(* app.ts line 512  |//??????? ??? ???? (CRITICAL): ?? ????? ????? ? ????? ??? ?????????...| *)
definition sources_autoWrite_text_1 :: jsstring where
  "sources_autoWrite_text_1 = [10, 10, 1685, 1742, 1606, 1605, 1575, 1740, 1740, 32, 1586, 1734,
     1585, 32, 1711, 1585, 1606, 1711] @ js '' (CRITICAL): '' @ [1578, 1734, 32, 1583, 1749,
     1576, 1742, 1578, 32, 1578, 1749, 1606, 1607, 1575, 32, 1608, 32, 1578, 1749, 1606, 1607,
     1575, 32, 1574, 1749, 1605, 32, 1587, 1749, 1585, 1670, 1575, 1608, 1575, 1606, 1749, 1740,
     32, 1582, 1608, 1575, 1585, 1749, 1608, 1749, 32, 1576, 1749, 1705, 1575, 1585, 1576, 1607,
     1742, 1606, 1740, 1578, 32, 1576, 1734, 32, 1608, 1749, 1585, 1711, 1585, 1578, 1606, 1740,
     32, 1586, 1575, 1606, 1740, 1575, 1585, 1740, 46, 32, 1576, 1749, 32, 1607, 1740, 1670, 32,
     1588, 1742, 1608, 1749, 1740, 1749, 1705, 32, 1586, 1575, 1606, 1740, 1575, 1585, 1740, 32,
     1604, 1749, 32, 1583, 1749, 1585, 1749, 1608, 1749, 1740, 32, 1574, 1749, 1605, 32, 1587,
     1749, 1585, 1670, 1575, 1608, 1575, 1606, 1749, 32, 1605, 1749, 1607, 1742, 1606, 1749, 46,
     32, 1574, 1749, 1711, 1749, 1585, 32, 1586, 1575, 1606, 1740, 1575, 1585, 1740, 1740, 1749,
     1705, 1749, 32, 1604, 1749, 1605, 32, 1587, 1749, 1585, 1670, 1575, 1608, 1575, 1606, 1749,
     1583, 1575, 32, 1606, 1749, 1576, 1608, 1608, 1548, 32, 1576, 1717, 1742, 32, 1705, 1749,
     32, 1576, 1749, 1585, 1583, 1749, 1587, 1578, 32, 1606, 1740, 1740, 1749, 46, 10, 1587,
     1749, 1585, 1670, 1575, 1608, 1749, 1705, 1575, 1606, 58, 10]"

(* app.ts line 512  |/| *)
definition sources_autoWrite_text_2 :: jsstring where
  "sources_autoWrite_text_2 = [10]"

(* app.ts line 670  |???? ?? ??????? ???? | *)
definition msg_autoWrite_error_1 :: jsstring where
  "msg_autoWrite_error_1 = [1607, 1749, 1717, 1749, 32, 1604, 1749, 32, 1606, 1608, 1608, 1587,
     1740, 1606, 1740, 32, 1576, 1749, 1588, 1740, 32]"

(* app.ts line 691  |//??????? ??? ???? (CRITICAL): ?? ????? ????? ? ????? ??? ?????????...| *)
definition sources_autoHumanize_text_1 :: jsstring where
  "sources_autoHumanize_text_1 = [10, 10, 1685, 1742, 1606, 1605, 1575, 1740, 1740, 32, 1586,
     1734, 1585, 32, 1711, 1585, 1606, 1711] @ js '' (CRITICAL): '' @ [1578, 1734, 32, 1583,
     1749, 1576, 1742, 1578, 32, 1578, 1749, 1606, 1607, 1575, 32, 1608, 32, 1578, 1749, 1606,
     1607, 1575, 32, 1574, 1749, 1605, 32, 1587, 1749, 1585, 1670, 1575, 1608, 1575, 1606, 1749,
     1740, 32, 1582, 1608, 1575, 1585, 1749, 1608, 1749, 32, 1576, 1749, 1705, 1575, 1585, 1576,
     1607, 1742, 1606, 1740, 1578, 32, 1576, 1734, 32, 1608, 1749, 1585, 1711, 1585, 1578, 1606,
     1740, 32, 1586, 1575, 1606, 1740, 1575, 1585, 1740, 46, 32, 1576, 1749, 32, 1607, 1740,
     1670, 32, 1588, 1742, 1608, 1749, 1740, 1749, 1705, 32, 1586, 1575, 1606, 1740, 1575, 1585,
     1740, 32, 1604, 1749, 32, 1583, 1749, 1585, 1749, 1608, 1749, 1740, 32, 1574, 1749, 1605,
     32, 1587, 1749, 1585, 1670, 1575, 1608, 1575, 1606, 1749, 32, 1605, 1749, 1607, 1742, 1606,
     1749, 46, 10, 1587, 1749, 1585, 1670, 1575, 1608, 1749, 1705, 1575, 1606, 58, 10]"

(* app.ts line 691  |/| *)
definition sources_autoHumanize_text_2 :: jsstring where
  "sources_autoHumanize_text_2 = [10]"

(* app.ts line 705  |/      ?? ??????????? ???? ? ?????????? ???????? ?????? ??????? (Ha...| *)
definition autoHumanize_text_1 :: jsstring where
  "autoHumanize_text_1 = [10] @ js ''      '' @ [1578, 1734, 32, 1662, 1685, 1734, 1601, 1740,
     1587, 1734, 1585, 1742, 1705, 1740, 32, 1576, 1575, 1717, 1575, 32, 1608, 32, 1587, 1749,
     1585, 1606, 1608, 1608, 1587, 1749, 1585, 1740, 32, 1670, 1575, 1662, 1582, 1575, 1606,
     1749, 1740, 32, 1586, 1575, 1606, 1705, 1734, 1740, 32, 1607, 1575, 1585, 1700, 1575, 1585,
     1583] @ js '' (Harvard University Press)'' @ [1740, 1578, 46, 10] @ js ''      '' @ [1578,
     1705, 1575, 1740, 1749, 32, 1574, 1749, 1605, 32, 1583, 1749, 1602, 1749, 32, 1583, 1575,
     1576, 1685, 1742, 1688, 1749, 1608, 1749] @ js '' (Humanize) '' @ [1576, 1734, 32, 1574,
     1749, 1608, 1749, 1740, 32, 1607, 1749, 1587, 1578, 1740, 32, 1605, 1585, 1734, 1700, 1575,
     1606, 1749, 1740, 32, 1662, 1742, 1608, 1749, 32, 1583, 1740, 1575, 1585, 32, 1576, 1742,
     1578, 1548, 32, 1576, 1749, 1717, 1575, 1605, 32, 1604, 1749, 32, 1607, 1749, 1605, 1575,
     1606, 32, 1705, 1575, 1578, 1583, 1575, 32, 1662, 1575, 1585, 1742, 1586, 1711, 1575, 1585,
     1740, 32, 1604, 1749, 32, 1587, 1578, 1575, 1606, 1583, 1575, 1585, 1583, 1740, 32, 1578,
     1608, 1606, 1583, 1740, 32, 1574, 1749, 1705, 1575, 1583, 1740, 1605, 1740, 32, 1607, 1575,
     1585, 1700, 1575, 1585, 1583, 32, 1576, 1705, 1749, 46, 10] @ js ''      '' @ [1608, 1588,
     1749, 32, 1574, 1575, 1717, 1734, 1586, 1749, 1705, 1575, 1606, 1740, 32, 1574, 1575, 1605,
     1742, 1585, 1749, 1705, 1575, 1606, 32, 1604, 1575, 1576, 1576, 1749, 1548, 32, 1607, 1749,
     1587, 1578, 1740, 32, 1605, 1585, 1734, 1700, 1575, 1606, 1749, 32, 1608, 32, 1685, 1587,
     1578, 1749, 1587, 1575, 1586, 1740, 32, 1587, 1585, 1608, 1588, 1578, 1740, 32, 1576, 1749,
     1705, 1575, 1585, 1576, 1607, 1742, 1606, 1749, 1548, 32, 1576, 1749, 1717, 1575, 1605, 32,
     1576, 1575, 32, 1586, 1605, 1575, 1606, 1749, 1705, 1749, 32, 1576, 1742, 1604, 1575, 1740,
     1749, 1606, 32, 1608, 32, 1586, 1575, 1606, 1587, 1578, 1740, 32, 1576, 1605, 1742, 1606,
     1742, 1578, 1749, 1608, 1749, 58, 10] @ js ''      ''"

(* app.ts line 705  |/      /      | *)
definition autoHumanize_text_2 :: jsstring where
  "autoHumanize_text_2 = [10] @ js ''      '' @ [10] @ js ''      ''"

(* app.ts line 705  |/      | *)
definition autoHumanize_text_3 :: jsstring where
  "autoHumanize_text_3 = [10] @ js ''      ''"

(* app.ts line 738  |???? ?? ????????????? ???? | *)
definition msg_autoHumanize_error_1 :: jsstring where
  "msg_autoHumanize_error_1 = [1607, 1749, 1717, 1749, 32, 1604, 1749, 32, 1607, 1740, 1608,
     1605, 1575, 1606, 1740, 1586, 1705, 1585, 1583, 1606, 1740, 32, 1576, 1749, 1588, 1740, 32]"

(* app.ts line 767  |//??????? ??? ???? (CRITICAL): ?? ???? ??????????? ? ???????????? ?...| *)
definition sources_review_text_1 :: jsstring where
  "sources_review_text_1 = [10, 10, 1685, 1742, 1606, 1605, 1575, 1740, 1740, 32, 1586, 1734,
     1585, 32, 1711, 1585, 1606, 1711] @ js '' (CRITICAL): '' @ [1604, 1749, 32, 1705, 1575,
     1578, 1740, 32, 1662, 1742, 1583, 1575, 1670, 1608, 1608, 1606, 1749, 1608, 1749, 32, 1608,
     32, 1685, 1575, 1587, 1578, 1705, 1585, 1583, 1606, 1749, 1608, 1749, 1740, 32, 1586, 1575,
     1606, 1740, 1575, 1585, 1740, 1740, 1749, 1705, 1575, 1606, 1548, 32, 1578, 1749, 1606,
     1607, 1575, 32, 1662, 1588, 1578, 32, 1576, 1749, 1605, 32, 1587, 1749, 1585, 1670, 1575,
     1608, 1575, 1606, 1749, 32, 1576, 1576, 1749, 1587, 1578, 1749, 46, 32, 1576, 1749, 32,
     1607, 1740, 1670, 32, 1588, 1742, 1608, 1749, 1740, 1749, 1705, 32, 1586, 1575, 1606, 1740,
     1575, 1585, 1740, 32, 1604, 1749, 32, 1583, 1749, 1585, 1749, 1608, 1749, 1740, 32, 1574,
     1749, 1605, 32, 1587, 1749, 1585, 1670, 1575, 1608, 1575, 1606, 1749, 32, 1605, 1749, 1607,
     1742, 1606, 1749, 46, 10, 1587, 1749, 1585, 1670, 1575, 1608, 1749, 1705, 1575, 1606, 58,
     10]"

(* app.ts line 767  |/| *)
definition sources_review_text_2 :: jsstring where
  "sources_review_text_2 = [10]"

(* app.ts line 770  |/    ?? ?????? ????? ???????????? ???????? ?????? ??????? (Harvard ...| *)
definition review_text_1 :: jsstring where
  "review_text_1 = [10] @ js ''    '' @ [1578, 1734, 32, 1604, 1740, 1688, 1606, 1749, 1740, 32,
     1576, 1575, 1717, 1575, 1740, 32, 1607, 1749, 1717, 1587, 1749, 1606, 1711, 1575, 1606,
     1583, 1606, 1740, 32, 1670, 1575, 1662, 1582, 1575, 1606, 1749, 1740, 32, 1586, 1575, 1606,
     1705, 1734, 1740, 32, 1607, 1575, 1585, 1700, 1575, 1585, 1583]
     @ js '' (Harvard University Press)'' @ [1740, 1578, 46, 10] @ js ''    '' @ [1578, 1705,
     1575, 1740, 1749, 32, 1662, 1742, 1583, 1575, 1670, 1608, 1608, 1606, 1749, 1608, 1749,
     1740, 1749, 1705, 1740, 32, 1685, 1749, 1582, 1606, 1749, 1711, 1585, 1575, 1606, 1749,
     1740, 32, 1586, 1734, 1585, 32, 1578, 1608, 1606, 1583] @ js '' (Rigorous Peer Review) ''
     @ [1576, 1734, 32, 1574, 1749, 1605, 32, 1583, 1749, 1602, 1749, 32, 1576, 1705, 1749, 46,
     10] @ js ''    ''"

(* app.ts line 770  |/    ?????????? ???????????? ???????????? ? ???????????? ??? ???./ ...| *)
definition review_text_2 :: jsstring where
  "review_text_2 = [10] @ js ''    '' @ [1705, 1749, 1605, 1608, 1705, 1608, 1685, 1740, 1740,
     1749, 32, 1586, 1575, 1606, 1587, 1578, 1740, 1740, 1749, 1705, 1575, 1606, 1548, 32, 1604,
     1734, 1688, 1740, 1705, 1740, 1740, 1749, 1705, 1575, 1606, 1548, 32, 1608, 32, 1685, 1742,
     1586, 1605, 1575, 1606, 1740, 1740, 1749, 1705, 1575, 1606, 32, 1670, 1575, 1705, 32, 1576,
     1705, 1749, 46, 10] @ js ''    '' @ [1711, 1585, 1606, 1711, 1578, 1585, 1740, 1606, 32,
     1582, 1575, 1717, 58, 32, 1662, 1742, 1583, 1575, 1670, 1608, 1608, 1606, 1749, 1608, 1749,
     1740, 1749, 1705, 1740, 32, 1608, 1585, 1583, 32, 1576, 1734, 32, 1587, 1749, 1585, 1670,
     1575, 1608, 1749, 1705, 1575, 1606, 32, 1576, 1705, 1749, 46, 32, 1574, 1575, 1740, 1575,
     32, 1587, 1749, 1585, 1670, 1575, 1608, 1749, 1705, 1575, 1606, 32, 1576, 1575, 1608, 1749,
     1685, 1662, 1742, 1705, 1585, 1575, 1608, 1606, 1567, 32, 1574, 1575, 1740, 1575, 32, 1587,
     1578, 1575, 1740, 1604, 1740, 32]"

(* app.ts line 770  | ?? ?????? ????????????/    ?????? ???? ??????? ?? ????? ??????????...| *)
definition review_text_3 :: jsstring where
  "review_text_3 = [32, 1576, 1749, 32, 1583, 1585, 1608, 1587, 1578, 1740, 32, 1576, 1749,
     1705, 1575, 1585, 1607, 1575, 1578, 1608, 1608, 1749, 1567, 10] @ js ''    '' @ [1583,
     1749, 1602, 1749, 1705, 1749, 32, 1576, 1749, 1585, 1586, 32, 1576, 1705, 1749, 1585, 1749,
     1608, 1749, 32, 1576, 1734, 32, 1574, 1575, 1587, 1578, 1740, 32, 1576, 1717, 1575, 1608,
     1705, 1585, 1583, 1606, 1749, 1608, 1749, 1740, 32, 1574, 1749, 1705, 1575, 1583, 1740,
     1605, 1740, 32, 1604, 1749, 32, 1670, 1575, 1662, 1582, 1575, 1606, 1749, 1740, 32, 1607,
     1575, 1585, 1700, 1575, 1585, 1583] @ js '' (Q1 Journal Standard):'' @ [10] @ js ''    ''"

(* app.ts line 770  |/    /    | *)
definition review_text_4 :: jsstring where
  "review_text_4 = [10] @ js ''    '' @ [10] @ js ''    ''"

(* app.ts line 770  |/    | *)
definition review_text_5 :: jsstring where
  "review_text_5 = [10] @ js ''    ''"

(* app.ts line 813  |\documentclass{article}/\usepackage[utf8]{inputenc}/\title{| *)
definition latex_head_1 :: jsstring where
  "latex_head_1 = [92] @ js ''documentclass{article}'' @ [10, 92]
     @ js ''usepackage[utf8]{inputenc}'' @ [10, 92] @ js ''title{''"

(* app.ts line 813  |}/\author{????????? ???}/\begin{document}/\maketitle//| *)
definition latex_head_2 :: jsstring where
  "latex_head_2 = [125, 10, 92] @ js ''author{'' @ [1705, 1578, 1742, 1576, 1582, 1575, 1606,
     1749, 1740, 32, 1605, 1575, 1605, 125, 10, 92] @ js ''begin{document}'' @ [10, 92]
     @ js ''maketitle'' @ [10, 10]"

(* app.ts line 816  |\section{| *)
definition latex_section_1 :: jsstring where
  "latex_section_1 = [92] @ js ''section{''"

(* app.ts line 816  |}/| *)
definition latex_section_2 :: jsstring where
  "latex_section_2 = [125, 10]"

(* app.ts line 816  |//| *)
definition latex_section_3 :: jsstring where
  "latex_section_3 = [10, 10]"

(* app.ts line 818  |\end{document}| *)
definition latex_end_1 :: jsstring where
  "latex_end_1 = [92] @ js ''end{document}''"

(* app.ts line 834  |<h1>| *)
definition doc_head_1 :: jsstring where
  "doc_head_1 = js ''<h1>''"

(* app.ts line 834  |</h1>//| *)
definition doc_head_2 :: jsstring where
  "doc_head_2 = js ''</h1>'' @ [10, 10]"

(* app.ts line 837  |<h2>| *)
definition doc_section_1 :: jsstring where
  "doc_section_1 = js ''<h2>''"

(* app.ts line 837  |</h2>/| *)
definition doc_section_2 :: jsstring where
  "doc_section_2 = js ''</h2>'' @ [10]"

(* app.ts line 837  |//| *)
definition doc_section_3 :: jsstring where
  "doc_section_3 = [10, 10]"

(* app.ts line 840  |/      <html xmlns:o='urn:schemas-microsoft-com:office:office' xmln...| *)
definition doc_html_1 :: jsstring where
  "doc_html_1 = [10] @ js ''      <html xmlns:o='' @ [39]
     @ js ''urn:schemas-microsoft-com:office:office'' @ [39] @ js '' xmlns:w='' @ [39]
     @ js ''urn:schemas-microsoft-com:office:word'' @ [39] @ js '' xmlns='' @ [39]
     @ js ''http://www.w3.org/TR/REC-html40'' @ [39, 62, 10] @ js ''      <head><meta charset=''
     @ [39] @ js ''utf-8'' @ [39] @ js ''><title>''"

(* app.ts line 840  |</title></head><body>| *)
definition doc_html_2 :: jsstring where
  "doc_html_2 = js ''</title></head><body>''"

(* app.ts line 840  |</body></html>/    | *)
definition doc_html_3 :: jsstring where
  "doc_html_3 = js ''</body></html>'' @ [10] @ js ''    ''"

(* app.ts line 773  |???? ??????????????? ????????? (Double-Blind Peer Review). ????? ??...| *)
definition fragment_blindPeerReview :: jsstring where
  "fragment_blindPeerReview = [1574, 1749, 1605, 1749, 32, 1662, 1742, 1583, 1575, 1670, 1608,
     1608, 1606, 1749, 1608, 1749, 1740, 1749, 1705, 1740, 32, 1705, 1608, 1742, 1585, 1575,
     1606, 1749, 1740, 1749] @ js '' (Double-Blind Peer Review). '' @ [1578, 1705, 1575, 1740,
     1749, 32, 1586, 1734, 1585, 32, 1576, 1742, 1576, 1749, 1586, 1749, 1740, 1740, 1575, 1606,
     1749, 32, 1608, 32, 1578, 1608, 1606, 1583, 32, 1576, 1749, 32, 1604, 1749, 1587, 1749,
     1585, 32, 1607, 1749, 1717, 1749, 32, 1586, 1575, 1606, 1587, 1578, 1740, 1740, 1749, 1705,
     1575, 1606, 32, 1608, 32, 1607, 1740, 1670, 32, 1587, 1575, 1586, 1588, 1742, 1705, 32,
     1605, 1749, 1705, 1749, 46]"

(* app.ts line 545-635: the line break and indentation between two holes  |/      | *)
definition line_break :: jsstring where
  "line_break = [10] @ js ''      ''"

(* app.ts line 528-531  |/      ?? ??????????? ???? ? ?????????? ???????? ?????? ??????? (Ha...| *)
definition autoWrite_text_1 :: jsstring where
  "autoWrite_text_1 = [10] @ js ''      '' @ [1578, 1734, 32, 1662, 1685, 1734, 1601, 1740,
     1587, 1734, 1585, 1742, 1705, 1740, 32, 1576, 1575, 1717, 1575, 32, 1608, 32, 1587, 1749,
     1585, 1606, 1608, 1608, 1587, 1749, 1585, 1740, 32, 1670, 1575, 1662, 1582, 1575, 1606,
     1749, 1740, 32, 1586, 1575, 1606, 1705, 1734, 1740, 32, 1607, 1575, 1585, 1700, 1575, 1585,
     1583] @ js '' (Harvard University Press)'' @ [1740, 1578, 46, 10] @ js ''      '' @ [1578,
     1734, 32, 1582, 1749, 1585, 1740, 1705, 1740, 32, 1606, 1608, 1608, 1587, 1740, 1606, 1740,
     32, 1574, 1749, 1605, 32, 1576, 1749, 1585, 1607, 1749, 1605, 1749, 1740, 1578, 32, 1576,
     1749, 1662, 1742, 1740, 32, 1587, 1578, 1575, 1606, 1583, 1575, 1585, 1583, 1749, 32, 1578,
     1608, 1606, 1583, 1749, 1705, 1575, 1606, 1740, 32, 1607, 1575, 1585, 1700, 1575, 1585,
     1583, 58, 10] @ js ''      '' @ [1606, 1575, 1608, 1606, 1740, 1588, 1575, 1606, 1740, 32,
     1711, 1588, 1578, 1740, 58, 32]"

(* app.ts line 531-532  |/      ?????: | *)
definition autoWrite_text_2 :: jsstring where
  "autoWrite_text_2 = [10] @ js ''      '' @ [1576, 1575, 1576, 1749, 1578, 58, 32]"

(* app.ts line 532-533  |/      ???: | *)
definition autoWrite_text_3 :: jsstring where
  "autoWrite_text_3 = [10] @ js ''      '' @ [1580, 1734, 1585, 58, 32]"

(* app.ts line 533-534  |/      ????: | *)
definition autoWrite_text_4 :: jsstring where
  "autoWrite_text_4 = [10] @ js ''      '' @ [1574, 1575, 1587, 1578, 58, 32]"

(* app.ts line 534-535  |/      ???? ????? (???????): | *)
definition autoWrite_text_5 :: jsstring where
  "autoWrite_text_5 = [10] @ js ''      '' @ [1662, 1604, 1749, 1740, 32, 1711, 1749, 1585,
     1605, 1740, 32, 40, 1583, 1575, 1607, 1742, 1606, 1575, 1606] @ js ''): ''"

(* app.ts line 535-545  |/      /      ???????? ??? ???????? ?? ???????? ????? ????? (ZERO A...| *)
definition autoWrite_text_6 :: jsstring where
  "autoWrite_text_6 = [10] @ js ''      '' @ [10] @ js ''      '' @ [1685, 1742, 1606, 1605,
     1575, 1740, 1740, 1749, 32, 1586, 1734, 1585, 32, 1578, 1608, 1606, 1583, 1749, 1705, 1575,
     1606, 32, 1576, 1734, 32, 1587, 1685, 1740, 1606, 1749, 1608, 1749, 1740, 32, 1605, 1734,
     1585, 1705, 1740, 32, 1574, 1575, 1605, 1742, 1585] @ js '' (ZERO AI FOOTPRINT) - ''
     @ [1574, 1749, 1711, 1749, 1585, 32, 1574, 1749, 1605, 1749, 32, 1580, 1742, 1576, 1749,
     1580, 1742, 32, 1606, 1749, 1705, 1749, 1740, 1578, 32, 1583, 1749, 1602, 1749, 1705, 1749,
     32, 1685, 1749, 1578, 1583, 1749, 1705, 1585, 1742, 1578, 1749, 1608, 1749, 58, 10]
     @ js ''      '' @ [1633, 46, 32, 1576, 1749, 32, 1607, 1740, 1670, 32, 1588, 1742, 1608,
     1749, 1740, 1749, 1705, 32, 1606, 1575, 1576, 1742, 1578, 32, 1607, 1749, 1587, 1578, 32,
     1576, 1705, 1585, 1742, 1578, 32, 1705, 1749, 32, 1586, 1740, 1585, 1749, 1705, 1740, 32,
     1583, 1749, 1587, 1578, 1705, 1585, 1583, 32, 1574, 1749, 1605, 1749, 1740, 32, 1606, 1608,
     1608, 1587, 1740, 1608, 1749, 46, 32, 1583, 1749, 1576, 1742, 1578, 32, 1587, 1749, 1583,
     1575, 32, 1587, 1749, 1583, 32, 1605, 1585, 1734, 1700, 1575, 1606, 1749, 32, 1608, 32,
     1604, 1749, 32, 1574, 1575, 1587, 1578, 1740, 32, 1662, 1685, 1734, 1601, 1740, 1587, 1734,
     1585, 1742, 1705, 1740, 32, 1583, 1742, 1585, 1740, 1606, 1740, 32, 1607, 1575, 1585, 1700,
     1575, 1585, 1583, 32, 1576, 1742, 1578, 46, 10] @ js ''      '' @ [1634, 46, 32, 1602,
     1749, 1583, 1749, 1594, 1749, 1705, 1585, 1583, 1606, 1740, 32, 1608, 1588, 1749, 32, 1587,
     1608, 1575, 1608, 1749, 1705, 1575, 1606, 1740] @ js '' AI: '' @ [1607, 1749, 1585, 1711,
     1740, 1586, 32, 1574, 1749, 1605, 32, 1583, 1749, 1587, 1578, 1749, 1608, 1575, 1688, 1575,
     1606, 1749, 32, 1576, 1749, 1705, 1575, 1585, 1605, 1749, 1607, 1742, 1606, 1749]
     @ js '': ('' @ [1604, 1749, 32, 1705, 1734, 1578, 1575, 1740, 1740, 1583, 1575, 1548, 32,
     1711, 1585, 1606, 1711, 1749, 32, 1576, 1586, 1575, 1606, 1740, 1606, 1548, 32, 1580, 1742,
     1711, 1575, 1740, 32, 1587, 1749, 1585, 1606, 1580, 1749, 1548, 32, 1576, 1749, 32, 1705,
     1608, 1585, 1578, 1740, 1548, 32, 1583, 1749, 1578, 1608, 1575, 1606, 1740, 1606, 32, 1576,
     1717, 1742, 1740, 1606, 1548, 32, 1604, 1749, 1605, 32, 1685, 1608, 1575, 1606, 1711, 1749,
     1740, 1749, 1608, 1749, 1548, 32, 1662, 1742, 1608, 1740, 1587, 1578, 1749, 32, 1574, 1575,
     1605, 1575, 1688, 1749, 32, 1576, 1749, 1608, 1749, 32, 1576, 1705, 1749, 1740, 1606, 1548,
     32, 1576, 1749, 32, 1583, 1717, 1606, 1740, 1575, 1740, 1740, 1749, 1608, 1749, 1548, 32,
     1576, 1742, 1711, 1608, 1605, 1575, 1606, 41, 46, 10] @ js ''      '' @ [1635, 46, 32,
     1588, 1742, 1608, 1575, 1586, 1740, 32, 1583, 1575, 1685, 1588, 1578, 1606, 58, 32, 1685,
     1587, 1578, 1749, 1705, 1575, 1606, 1578, 32, 1576, 1575, 32, 1583, 1585, 1742, 1688, 1740,
     32, 1608, 32, 1705, 1608, 1585, 1578, 1740, 1740, 1575, 1606, 32, 1580, 1740, 1575, 1608,
     1575, 1586, 32, 1576, 1742, 1578, 32, 1576, 1734, 32, 1574, 1749, 1608, 1749, 1740, 32,
     1685, 1740, 1578, 1605, 1742, 1705, 1740, 32, 1587, 1585, 1608, 1588, 1578, 1740, 32, 1605,
     1585, 1734, 1700, 1575, 1606, 1749, 1740, 32, 1607, 1749, 1576, 1742, 1578, 46, 32, 1582,
     1734, 1578, 32, 1576, 1662, 1575, 1585, 1742, 1586, 1749, 32, 1604, 1749, 32, 1685, 1740,
     1586, 1576, 1749, 1606, 1583, 1740, 1740, 1749, 32, 1740, 1749, 1705, 1587, 1575, 1606,
     1749, 32, 1576, 1742, 1586, 1575, 1585, 1705, 1749, 1585, 1749, 1705, 1575, 1606, 32, 40,
     1576, 1734, 32, 1606, 1605, 1608, 1608, 1606, 1749, 32, 1607, 1749, 1605, 1740, 1588, 1749,
     32, 1635, 32, 1582, 1575, 1717, 32, 1740, 1575, 1606, 32, 1635, 32, 1662, 1749, 1585, 1749,
     1711, 1585, 1575, 1601, 41, 46, 10] @ js ''      '' @ [1636, 46, 32, 1578, 1734, 1606,
     1740, 32, 1606, 1608, 1608, 1587, 1740, 1606, 58, 32, 1586, 1734, 1585, 32, 1608, 1588,
     1705, 1548, 32, 1586, 1575, 1606, 1587, 1578, 1740, 1548, 32, 1576, 1742, 1604, 1575, 1740,
     1749, 1606, 1548, 32, 1608, 32, 1576, 1742, 32, 1587, 1734, 1586, 46, 32, 1607, 1740, 1670,
     32, 1608, 1588, 1749, 1740, 1749, 1705, 1740, 32, 1605, 1608, 1576, 1575, 1604, 1749, 1594,
     1749, 32, 40, 1608, 1749, 1705, 58, 32, 1586, 1734, 1585, 32, 1711, 1585, 1606, 1711, 1749,
     1548, 32, 1587, 1749, 1585, 1587, 1608, 1685, 1607, 1742, 1606, 1749, 1585, 1749, 1548, 32,
     1576, 1742, 1608, 1742, 1606, 1749, 1740, 1749, 41, 32, 1576, 1749, 1705, 1575, 1585, 1605,
     1749, 1607, 1742, 1606, 1749, 46, 10] @ js ''      '' @ [1637, 46, 32, 1670, 1685, 1740,
     1740, 32, 1608, 1575, 1578, 1575, 1740, 1740, 58, 32, 1604, 1749, 1576, 1585, 1740, 32,
     1574, 1749, 1608, 1749, 1740, 32, 1602, 1587, 1749, 32, 1583, 1585, 1742, 1688, 32, 1576,
     1705, 1749, 1740, 1578, 1749, 1608, 1749, 1548, 32, 1586, 1575, 1606, 1740, 1575, 1585,
     1740, 1740, 1749, 1705, 1575, 1606, 32, 1586, 1734, 1585, 32, 1576, 1749, 32, 1670, 1685,
     1740, 32, 1608, 32, 1576, 1749, 1705, 1575, 1585, 1607, 1742, 1606, 1575, 1740, 32, 1586,
     1575, 1585, 1575, 1608, 1749, 1740, 32, 1602, 1608, 1585, 1587, 1740, 32, 1574, 1749, 1705,
     1575, 1583, 1740, 1605, 1740, 32, 1583, 1575, 1576, 1685, 1742, 1688, 1749, 46, 10]
     @ js ''      '' @ [10] @ js ''      '' @ [1685, 1742, 1587, 1575, 1705, 1575, 1606, 1740,
     32, 1607, 1575, 1585, 1700, 1575, 1585, 1583, 32, 1705, 1749, 32, 1583, 1749, 1576, 1742,
     1578, 32, 1662, 1749, 1740, 1685, 1749, 1608, 1740, 1575, 1606, 32, 1576, 1705, 1749, 1740,
     1578, 58, 10] @ js ''      ''"

(* app.ts line 545: form.superRole  |?. (??? ????): ?? ?? ??? ????? ????????? ??????? ?????????? ??? ???...| *)
definition fragment_superRole :: jsstring where
  "fragment_superRole = [1632] @ js ''. ('' @ [1586, 1734, 1585, 32, 1711, 1585, 1606, 1711]
     @ js ''): '' @ [1578, 1734, 32, 1604, 1749, 32, 1740, 1749, 1705, 32, 1705, 1575, 1578,
     1583, 1575, 32, 1606, 1608, 1608, 1587, 1749, 1585, 1742, 1705, 1740, 32, 1576, 1604, 1740,
     1605, 1749, 1578, 1548, 32, 1685, 1749, 1582, 1606, 1749, 1711, 1585, 1742, 1705, 1740, 32,
     1586, 1734, 1585, 32, 1578, 1608, 1606, 1583, 1548, 32, 1608, 32, 1662, 1742, 1583, 1575,
     1670, 1608, 1608, 1606, 1749, 1608, 1749, 1705, 1575, 1585, 1742, 1705, 1740, 32, 1608,
     1585, 1583, 1576, 1740, 1606, 1740, 46, 32, 1583, 1749, 1576, 1742, 1578, 32, 1574, 1749,
     1605, 32, 1583, 1749, 1602, 1749, 32, 1576, 1749, 32, 1588, 1742, 1608, 1749, 1740, 1749,
     1705, 32, 1576, 1606, 1608, 1608, 1587, 1740, 1578, 32, 1705, 1749, 32, 1662, 1742, 1588,
     1578, 1585, 32, 1606, 1608, 1608, 1587, 1585, 1575, 1576, 1742, 1578, 1548, 32, 1685, 1749,
     1582, 1606, 1749, 1740, 32, 1578, 1608, 1606, 1583, 1740, 32, 1604, 1742, 1711, 1740, 1585,
     1575, 1576, 1742, 1578, 1548, 32, 1608, 32, 1576, 1749, 32, 1578, 1749, 1608, 1575, 1608,
     1740, 32, 1662, 1575, 1717, 1601, 1578, 1749, 32, 1705, 1585, 1575, 1576, 1742, 1578, 32,
     1608, 32, 1607, 1740, 1670, 32, 1705, 1749, 1604, 1742, 1606, 1742, 1705, 1740, 32, 1578,
     1742, 1583, 1575, 32, 1606, 1749, 1605, 1575, 1576, 1742, 1578, 46]"

(* app.ts line 545-550  |/      ?. ????? ?????? ????? ??? ?????? ????????? ? ??????? ???./  ...| *)
definition autoWrite_text_7 :: jsstring where
  "autoWrite_text_7 = [10] @ js ''      '' @ [1633, 46, 32, 1586, 1605, 1575, 1606, 1740, 32,
     1606, 1608, 1608, 1587, 1740, 1606, 32, 1583, 1749, 1576, 1742, 1578, 32, 1586, 1734, 1585,
     32, 1601, 1749, 1585, 1605, 1740, 1548, 32, 1574, 1749, 1705, 1575, 1583, 1740, 1605, 1740,
     1548, 32, 1608, 32, 1576, 1742, 1604, 1575, 1740, 1749, 1606, 32, 1576, 1742, 1578, 46, 10]
     @ js ''      '' @ [1634, 46, 32, 1583, 1608, 1608, 1585, 1705, 1749, 1608, 1578, 1606,
     1749, 1608, 1749, 32, 1604, 1749, 32, 1608, 1588, 1749, 1740, 32, 1587, 1734, 1586, 1583,
     1575, 1585, 1740, 32, 1608, 32, 1583, 1749, 1585, 1576, 1685, 1740, 1606, 1740, 32, 1705,
     1749, 1587, 1740, 46, 10] @ js ''      '' @ [1635, 46, 32, 1607, 1749, 1605, 1608, 1608,
     32, 1574, 1740, 1583, 1740, 1593, 1575, 1740, 1749, 1705, 32, 1583, 1749, 1576, 1742, 1578,
     32, 1576, 1749, 32, 1576, 1749, 1717, 1711, 1749, 32, 1608, 32, 1604, 1734, 1688, 1740,
     1705, 32, 1576, 1587, 1749, 1604, 1605, 1742, 1606, 1585, 1742, 1578, 46, 10]
     @ js ''      '' @ [10] @ js ''      ''"

(* app.ts line 550: form.dialectic  |?. ????? ?????? (???? ??????? ??????) ?????????? ?? ??????????????.| *)
definition fragment_dialectic :: jsstring where
  "fragment_dialectic = [1636, 46, 32, 1578, 1705, 1575, 1740, 1749, 32, 1588, 1742, 1608, 1575,
     1586, 1740, 32, 40, 1578, 1742, 1586, 1548, 32, 1583, 1688, 1749, 1578, 1742, 1586, 1548,
     32, 1587, 1742, 1606, 1578, 1742, 1586, 41, 32, 1576, 1749, 1705, 1575, 1585, 1576, 1607,
     1742, 1606, 1749, 32, 1604, 1749, 32, 1588, 1740, 1705, 1575, 1585, 1740, 1740, 1749, 1705,
     1575, 1606, 1578, 1583, 1575, 46]"

(* app.ts line 551: form.includeReferences, before form.citationStyle  |?. ??????? ?????????? ??????????? ?? ?????? | *)
definition fragment_includeReferences_citationStyle_pre :: jsstring where
  "fragment_includeReferences_citationStyle_pre = [1637, 46, 32, 1662, 1742, 1608, 1740, 1587,
     1578, 1749, 32, 1587, 1749, 1585, 1670, 1575, 1608, 1749, 1705, 1575, 1606, 32, 1576, 1749,
     1705, 1575, 1585, 1576, 1607, 1742, 1606, 1740, 1578, 32, 1576, 1749, 32, 1588, 1742, 1608,
     1575, 1586, 1740, 32]"

(* app.ts line 551: form.includeReferences, after form.citationStyle  |.| *)
definition fragment_includeReferences_citationStyle_post :: jsstring where
  "fragment_includeReferences_citationStyle_post = [46]"

(* app.ts line 552: form.includeReferences, before form.referenceType  |?. ????? ??? ??? ???? ????????? ??????: | *)
definition fragment_includeReferences_referenceType_pre :: jsstring where
  "fragment_includeReferences_referenceType_pre = [1638, 46, 32, 1578, 1749, 1606, 1607, 1575,
     32, 1662, 1588, 1578, 32, 1576, 1749, 1605, 32, 1580, 1734, 1585, 1749, 32, 1587, 1749,
     1585, 1670, 1575, 1608, 1575, 1606, 1749, 32, 1576, 1576, 1749, 1587, 1578, 1749, 58, 32]"

(* app.ts line 552: form.includeReferences, after form.referenceType  |.| *)
definition fragment_includeReferences_referenceType_post :: jsstring where
  "fragment_includeReferences_referenceType_post = [46]"

(* app.ts line 553: form.dataFocus  |?. ????? ??? ?? ????? ? ????? ?????? ? ????????? ??????.| *)
definition fragment_dataFocus :: jsstring where
  "fragment_dataFocus = [1639, 46, 32, 1578, 1705, 1575, 1740, 1749, 32, 1662, 1588, 1578, 32,
     1576, 1749, 32, 1574, 1575, 1605, 1575, 1585, 32, 1608, 32, 1583, 1575, 1578, 1575, 1740,
     32, 1586, 1575, 1606, 1587, 1578, 1740, 32, 1608, 32, 1685, 1575, 1587, 1578, 1749, 1602,
     1740, 1606, 1749, 32, 1576, 1576, 1749, 1587, 1578, 1749, 46]"

(* app.ts line 554: form.doiLinking  |?. ?? ??? ?????????? ?? ?????????????? ????? ????? DOI (Digital Obj...| *)
definition fragment_doiLinking :: jsstring where
  "fragment_doiLinking = [1640, 46, 32, 1576, 1734, 32, 1607, 1749, 1585, 32, 1587, 1749, 1585,
     1670, 1575, 1608, 1749, 1740, 1749, 1705, 32, 1705, 1749, 32, 1576, 1749, 1705, 1575, 1585,
     1740, 1583, 1749, 1607, 1742, 1606, 1740, 1578, 1548, 32, 1578, 1705, 1575, 1740, 1749, 32,
     1604, 1740, 1606, 1705, 1740] @ js '' DOI (Digital Object Identifier) '' @ [1740, 1575,
     1606] @ js '' URL '' @ [1740, 32, 1601, 1749, 1585, 1605, 1740, 32, 1583, 1575, 1576, 1606,
     1742, 32, 1574, 1749, 1711, 1749, 1585, 32, 1576, 1749, 1585, 1583, 1749, 1587, 1578, 32,
     1576, 1608, 1608, 46]"

(* app.ts line 554-557  |/      /      ????????????? VIP ? ????????????? ?? ????? ???????? ?...| *)
definition autoWrite_text_8 :: jsstring where
  "autoWrite_text_8 = [10] @ js ''      '' @ [10] @ js ''      '' @ [1578, 1575, 1740, 1576,
     1749, 1578, 1605, 1749, 1606, 1583, 1740, 1740, 1749] @ js '' VIP '' @ [1608, 32, 1662,
     1742, 1588, 1705, 1749, 1608, 1578, 1608, 1608, 1749, 1705, 1575, 1606, 32, 1705, 1749, 32,
     1583, 1749, 1576, 1742, 1578, 32, 1685, 1749, 1670, 1575, 1608, 1740, 1575, 1606, 32, 1576,
     1705, 1749, 1740, 1578, 58, 10] @ js ''      ''"

(* app.ts line 557: form.counterArgument  |- ?? ??? ????????????? ??????? ???-????????????? (Counter-argument)...| *)
definition fragment_counterArgument :: jsstring where
  "fragment_counterArgument = [45, 32, 1576, 1734, 32, 1607, 1749, 1585, 32, 1574, 1575, 1585,
     1711, 1740, 1608, 1605, 1742, 1606, 1578, 1742, 1705, 1740, 32, 1587, 1749, 1585, 1749,
     1705, 1740, 1548, 32, 1583, 1688, 1749, 45, 1574, 1575, 1585, 1711, 1740, 1608, 1605, 1742,
     1606, 1578, 1742, 1705, 1740] @ js '' (Counter-argument) '' @ [1576, 1749, 1607, 1742,
     1586, 32, 1576, 1607, 1742, 1606, 1749, 1608, 1749, 32, 1608, 32, 1662, 1575, 1588, 1575,
     1606, 32, 1576, 1749, 32, 1604, 1734, 1688, 1740, 1705, 1742, 1705, 1740, 32, 1662, 1734,
     1717, 1575, 1740, 1606, 32, 1662, 1608, 1608, 1670, 1749, 1717, 1740, 32, 1576, 1705, 1749,
     1585, 1749, 1608, 1749, 46]"

(* app.ts line 558: form.theoreticalFramework  |- ???????? ???????? ?? ???????????? ????? (Theoretical Framework) ?...| *)
definition fragment_theoreticalFramework :: jsstring where
  "fragment_theoreticalFramework = [45, 32, 1576, 1575, 1576, 1749, 1578, 1749, 1705, 1749, 32,
     1576, 1576, 1749, 1587, 1578, 1749, 1608, 1749, 32, 1576, 1749, 32, 1670, 1608, 1575, 1585,
     1670, 1742, 1608, 1749, 1740, 1749, 1705, 1740, 32, 1578, 1740, 1734, 1585, 1740]
     @ js '' (Theoretical Framework) '' @ [1606, 1575, 1587, 1585, 1575, 1608, 32, 1608, 32,
     1602, 1608, 1608, 1717, 32, 1604, 1749, 1608, 32, 1576, 1608, 1575, 1585, 1749, 1583, 1575,
     46]"

(* app.ts line 559: form.globalPerspective  |- ?????? ?? ?????????? ?????? ? ?????????????? (Global Perspective)...| *)
definition fragment_globalPerspective :: jsstring where
  "fragment_globalPerspective = [45, 32, 1705, 1742, 1588, 1749, 1705, 1749, 32, 1604, 1749, 32,
     1685, 1608, 1575, 1606, 1711, 1749, 1740, 1749, 1705, 1740, 32, 1580, 1740, 1607, 1575,
     1606, 1740, 32, 1608, 32, 1606, 1742, 1608, 1583, 1749, 1608, 1717, 1749, 1578, 1740, 1740,
     1749, 1608, 1749] @ js '' (Global Perspective) '' @ [1588, 1740, 32, 1576, 1705, 1749,
     1585, 1749, 1608, 1749, 1548, 32, 1606, 1749, 1705, 32, 1578, 1749, 1606, 1607, 1575, 32,
     1606, 1575, 1608, 1582, 1734, 1740, 1740, 46]"

(* app.ts line 560: form.historicalContext  |- ?????? ? ??????? ??????? (Historical Context) ???????? ?? ????? ?...| *)
definition fragment_historicalContext :: jsstring where
  "fragment_historicalContext = [45, 32, 1662, 1742, 1588, 1740, 1606, 1749, 32, 1608, 32, 1662,
     1575, 1588, 1582, 1575, 1606, 1740, 32, 1605, 1742, 1688, 1608, 1608, 1740, 1740]
     @ js '' (Historical Context) '' @ [1576, 1575, 1576, 1749, 1578, 1749, 1705, 1749, 32,
     1576, 1749, 32, 1602, 1608, 1608, 1717, 1740, 32, 1685, 1608, 1608, 1606, 32, 1576, 1705,
     1749, 1585, 1749, 1608, 1749, 32, 1576, 1734, 32, 1578, 1742, 1711, 1749, 1740, 1588, 1578,
     1606, 1740, 32, 1685, 1749, 1711, 32, 1608, 32, 1685, 1740, 1588, 1749, 1740, 32, 1705,
     1742, 1588, 1749, 1705, 1749, 46]"

(* app.ts line 561: form.ethicalConsiderations  |- ?????? ?????? ? ????????????? (Ethical Considerations) ??????? ??...| *)
definition fragment_ethicalConsiderations :: jsstring where
  "fragment_ethicalConsiderations = [45, 32, 1604, 1575, 1740, 1749, 1606, 1749, 32, 1574, 1575,
     1705, 1575, 1585, 1740, 32, 1608, 32, 1574, 1749, 1582, 1604, 1575, 1602, 1740, 1740, 1749,
     1705, 1575, 1606, 1740] @ js '' (Ethical Considerations) '' @ [1662, 1749, 1740, 1608,
     1749, 1587, 1578, 32, 1576, 1749, 1605, 32, 1576, 1575, 1576, 1749, 1578, 1749, 32, 1576,
     1749, 1608, 1585, 1583, 1740, 32, 1578, 1575, 1608, 1578, 1608, 1742, 32, 1576, 1705, 1749,
     46]"

(* app.ts line 562: form.futureImplications  |- ????????????? ? ???????????? ?? ??????? (Future Implications) ?? ...| *)
definition fragment_futureImplications :: jsstring where
  "fragment_futureImplications = [45, 32, 1583, 1749, 1585, 1574, 1749, 1606, 1580, 1575, 1605,
     1749, 1705, 1575, 1606, 32, 1608, 32, 1662, 1742, 1588, 1576, 1740, 1606, 1740, 1740, 1749,
     1705, 1575, 1606, 32, 1576, 1734, 32, 1583, 1575, 1607, 1575, 1578, 1608, 1608]
     @ js '' (Future Implications) '' @ [1576, 1749, 32, 1662, 1588, 1578, 1576, 1749, 1587,
     1578, 1606, 32, 1576, 1749, 32, 1583, 1575, 1578, 1575, 1740, 32, 1574, 1742, 1587, 1578,
     1575, 32, 1576, 1582, 1749, 1685, 1608, 1608, 46]"

(* app.ts line 563: form.harvardClassicTone  |- ???? ?????????? ?? ??????? ? ??? ????? ??????? ???? ??????????? ?...| *)
definition fragment_harvardClassicTone :: jsstring where
  "fragment_harvardClassicTone = [45, 32, 1578, 1734, 1606, 1740, 32, 1606, 1608, 1608, 1587,
     1740, 1606, 1749, 1705, 1749, 1578, 32, 1576, 1575, 32, 1705, 1604, 1575, 1587, 1740, 1705,
     1740, 32, 1608, 32, 1586, 1734, 1585, 32, 1602, 1608, 1585, 1587, 1740, 32, 1607, 1575,
     1585, 1700, 1575, 1585, 1583, 32, 1576, 1742, 1578, 1548, 32, 1576, 1749, 1705, 1575, 1585,
     1607, 1742, 1606, 1575, 1606, 1740, 32, 1608, 1588, 1749, 1587, 1575, 1586, 1740, 32, 1574,
     1575, 1717, 1734, 1586, 1548, 32, 1601, 1749, 1604, 1587, 1749, 1601, 1740, 1548, 32, 1608,
     32, 1685, 1587, 1578, 1749, 1740, 32, 1583, 1585, 1742, 1688, 1740, 32, 1574, 1749, 1705,
     1575, 1583, 1740, 1605, 1740, 46]"

(* app.ts line 564: form.quantitativeAnalysis  |- ???????????? ?? ?????? ????????? (Quantitative) ? ??? ?????? ?? ?...| *)
definition fragment_quantitativeAnalysis :: jsstring where
  "fragment_quantitativeAnalysis = [45, 32, 1588, 1740, 1705, 1575, 1585, 1740, 1740, 1749,
     1705, 1575, 1606, 1578, 32, 1576, 1749, 32, 1588, 1742, 1608, 1575, 1586, 1740, 32, 1670,
     1749, 1606, 1583, 1575, 1740, 1749, 1578, 1740] @ js '' (Quantitative) '' @ [1608, 32,
     1662, 1588, 1578, 32, 1576, 1749, 1587, 1578, 1608, 1608, 32, 1576, 1749, 32, 1583, 1575,
     1578, 1575, 1740, 32, 1688, 1605, 1575, 1585, 1749, 1740, 1740, 32, 1608, 32, 1574, 1575,
     1605, 1575, 1585, 1740, 32, 1576, 1740, 1585, 1705, 1575, 1585, 1740, 32, 1576, 1705, 1749,
     46]"

(* app.ts line 565: form.qualitativeAnalysis  |- ???????????? ?? ?????? ???????? (Qualitative) ? ??????????? ?? ??...| *)
definition fragment_qualitativeAnalysis :: jsstring where
  "fragment_qualitativeAnalysis = [45, 32, 1588, 1740, 1705, 1575, 1585, 1740, 1740, 1749, 1705,
     1575, 1606, 1578, 32, 1576, 1749, 32, 1588, 1742, 1608, 1575, 1586, 1740, 32, 1670, 1734,
     1606, 1575, 1740, 1749, 1578, 1740] @ js '' (Qualitative) '' @ [1608, 32, 1602, 1608, 1608,
     1717, 1576, 1608, 1608, 1606, 1749, 1608, 1749, 32, 1604, 1749, 32, 1605, 1575, 1606, 1575,
     1705, 1575, 1606, 1548, 32, 1607, 1734, 1705, 1575, 1585, 1749, 1705, 1575, 1606, 1548, 32,
     1608, 32, 1662, 1575, 1717, 1606, 1749, 1585, 1749, 1705, 1575, 1606, 32, 1576, 1705, 1749,
     46]"

(* app.ts line 565-568  |/      /      ????????????? ???????? (Mega Expansion):/      | *)
definition autoWrite_text_9 :: jsstring where
  "autoWrite_text_9 = [10] @ js ''      '' @ [10] @ js ''      '' @ [1578, 1575, 1740, 1576,
     1749, 1578, 1605, 1749, 1606, 1583, 1740, 1740, 1749, 32, 1606, 1608, 1742, 1740, 1749,
     1705, 1575, 1606] @ js '' (Mega Expansion):'' @ [10] @ js ''      ''"

(* app.ts line 568: form.mixedMethods  |- ??????????? ?????? ????? (Mixed Methods) ?? ?????????? ????.| *)
definition fragment_mixedMethods :: jsstring where
  "fragment_mixedMethods = [45, 32, 1576, 1749, 1705, 1575, 1585, 1607, 1742, 1606, 1575, 1606,
     1740, 32, 1685, 1742, 1576, 1575, 1586, 1740, 32, 1578, 1742, 1705, 1749, 1717]
     @ js '' (Mixed Methods) '' @ [1576, 1734, 32, 1588, 1740, 1705, 1585, 1583, 1606, 1749,
     1608, 1749, 1740, 32, 1583, 1575, 1578, 1575, 46]"

(* app.ts line 569: form.longitudinalAnalysis  |- ?????????? ?????? ????????? (Longitudinal Analysis) ?? ???????? ?...| *)
definition fragment_longitudinalAnalysis :: jsstring where
  "fragment_longitudinalAnalysis = [45, 32, 1574, 1749, 1606, 1580, 1575, 1605, 1583, 1575,
     1606, 1740, 32, 1588, 1740, 1705, 1575, 1585, 1740, 32, 1583, 1585, 1742, 1688, 1582, 1575,
     1740, 1749, 1606] @ js '' (Longitudinal Analysis) '' @ [1576, 1734, 32, 1583, 1749, 1585,
     1582, 1587, 1578, 1606, 1740, 32, 1711, 1734, 1685, 1575, 1606, 1705, 1575, 1585, 1740,
     1740, 1749, 1705, 1575, 1606, 32, 1576, 1749, 1662, 1742, 1740, 32, 1705, 1575, 1578, 46]"

(* app.ts line 570: form.crossSectional  |- ?????? ??????????? (Cross-Sectional) ?? ????? ?????? ????????????.| *)
definition fragment_crossSectional :: jsstring where
  "fragment_crossSectional = [45, 32, 1588, 1740, 1705, 1575, 1585, 1740, 32, 1576, 1749, 1585,
     1575, 1608, 1585, 1583, 1705, 1575, 1585, 1740] @ js '' (Cross-Sectional) '' @ [1604, 1749,
     32, 1606, 1742, 1608, 1575, 1606, 32, 1711, 1585, 1608, 1608, 1662, 1749, 32, 1580, 1740,
     1575, 1608, 1575, 1586, 1749, 1705, 1575, 1606, 1583, 1575, 46]"

(* app.ts line 571: form.phenomenology  |- ??????????? ?????? ?????????? (Phenomenology) ?? ???????? ?? ????...| *)
definition fragment_phenomenology :: jsstring where
  "fragment_phenomenology = [45, 32, 1576, 1749, 1705, 1575, 1585, 1607, 1742, 1606, 1575, 1606,
     1740, 32, 1685, 1742, 1576, 1575, 1586, 1740, 32, 1583, 1740, 1575, 1585, 1583, 1749, 1606,
     1575, 1587, 1740] @ js '' (Phenomenology) '' @ [1576, 1734, 32, 1578, 1742, 1711, 1749,
     1740, 1588, 1578, 1606, 32, 1604, 1749, 32, 1574, 1749, 1586, 1605, 1608, 1608, 1606, 1740,
     32, 1586, 1740, 1606, 1583, 1608, 1608, 46]"

(* app.ts line 572: form.groundedTheory  |- ??????????? ????? ???????? (Grounded Theory) ?? ????????? ????? ?...| *)
definition fragment_groundedTheory :: jsstring where
  "fragment_groundedTheory = [45, 32, 1576, 1749, 1705, 1575, 1585, 1607, 1742, 1606, 1575,
     1606, 1740, 32, 1578, 1740, 1734, 1585, 1740, 32, 1576, 1606, 1670, 1740, 1606, 1749, 1740,
     1740] @ js '' (Grounded Theory) '' @ [1576, 1734, 32, 1583, 1749, 1585, 1726, 1742, 1606,
     1575, 1606, 1740, 32, 1578, 1740, 1734, 1585, 1740, 32, 1604, 1749, 32, 1583, 1575, 1578,
     1575, 1705, 1575, 1606, 1749, 1608, 1749, 46]"

(* app.ts line 573: form.deductiveReasoning  |- ??????????? ?????? ??????? (Deductive Reasoning) ?? ???????? ?? ?...| *)
definition fragment_deductiveReasoning :: jsstring where
  "fragment_deductiveReasoning = [45, 32, 1576, 1749, 1705, 1575, 1585, 1607, 1742, 1606, 1575,
     1606, 1740, 32, 1604, 1734, 1688, 1740, 1705, 1740, 32, 1583, 1575, 1576, 1749, 1586, 1740,
     1606] @ js '' (Deductive Reasoning) '' @ [1604, 1749, 32, 1711, 1588, 1578, 1740, 1740,
     1749, 1608, 1749, 32, 1576, 1734, 32, 1578, 1575, 1740, 1576, 1749, 1578, 46]"

(* app.ts line 574: form.inductiveReasoning  |- ??????????? ?????? ??????? (Inductive Reasoning) ?? ????????? ?? ...| *)
definition fragment_inductiveReasoning :: jsstring where
  "fragment_inductiveReasoning = [45, 32, 1576, 1749, 1705, 1575, 1585, 1607, 1742, 1606, 1575,
     1606, 1740, 32, 1604, 1734, 1688, 1740, 1705, 1740, 32, 1607, 1749, 1717, 1705, 1588, 1575,
     1606] @ js '' (Inductive Reasoning) '' @ [1604, 1749, 32, 1578, 1575, 1740, 1576, 1749,
     1578, 1749, 1608, 1749, 32, 1576, 1734, 32, 1711, 1588, 1578, 1740, 46]"

(* app.ts line 575: form.statisticalSignificance  |- ??????????? ????? ????? ?????? (Statistical Significance) ? ?????...| *)
definition fragment_statisticalSignificance :: jsstring where
  "fragment_statisticalSignificance = [45, 32, 1580, 1749, 1582, 1578, 1705, 1585, 1583, 1606,
     1749, 1608, 1749, 32, 1604, 1749, 1587, 1749, 1585, 32, 1608, 1575, 1578, 1575, 1740, 32,
     1574, 1575, 1605, 1575, 1585, 1740] @ js '' (Statistical Significance) '' @ [1608, 32,
     1576, 1749, 1607, 1575, 1740] @ js '' P-value.''"

(* app.ts line 576: form.confidenceIntervals  |- ?????????? ?????? ?????? (Confidence Intervals) ?? ????? ????????...| *)
definition fragment_confidenceIntervals :: jsstring where
  "fragment_confidenceIntervals = [45, 32, 1583, 1740, 1575, 1585, 1740, 1705, 1585, 1583, 1606,
     1740, 32, 1605, 1749, 1608, 1583, 1575, 1740, 32, 1605, 1578, 1605, 1575, 1606, 1749]
     @ js '' (Confidence Intervals) '' @ [1576, 1734, 32, 1607, 1749, 1605, 1608, 1608, 32,
     1582, 1749, 1605, 1717, 1575, 1606, 1583, 1606, 1749, 1705, 1575, 1606, 46]"

(* app.ts line 577: form.effectSize  |- ??????????? ??????? ???????? (Effect Size) ?? ????????? ???? ????...| *)
definition fragment_effectSize :: jsstring where
  "fragment_effectSize = [45, 32, 1685, 1575, 1662, 1734, 1585, 1578, 1705, 1585, 1583, 1606,
     1740, 32, 1602, 1749, 1576, 1575, 1585, 1749, 1740, 32, 1705, 1575, 1585, 1740, 1711, 1749,
     1585, 1740] @ js '' (Effect Size) '' @ [1576, 1734, 32, 1606, 1740, 1588, 1575, 1606, 1583,
     1575, 1606, 1740, 32, 1607, 1742, 1586, 1740, 32, 1662, 1749, 1740, 1608, 1749, 1606, 1583,
     1740, 1740, 1749, 1705, 1575, 1606, 46]"

(* app.ts line 578: form.triangulation  |- ??????????? ?????????? (Triangulation) ?? ??????????????? ???? ??...| *)
definition fragment_triangulation :: jsstring where
  "fragment_triangulation = [45, 32, 1576, 1749, 1705, 1575, 1585, 1607, 1742, 1606, 1575, 1606,
     1740, 32, 1587, 1742, 1711, 1734, 1588, 1749, 1705, 1585, 1583, 1606]
     @ js '' (Triangulation) '' @ [1576, 1734, 32, 1662, 1588, 1578, 1685, 1575, 1587, 1578,
     1705, 1585, 1583, 1606, 1749, 1608, 1749, 1740, 32, 1583, 1575, 1578, 1575, 32, 1604, 1749,
     32, 1670, 1749, 1606, 1583, 32, 1587, 1749, 1585, 1670, 1575, 1608, 1749, 1740, 1749, 1705,
     1749, 1608, 1749, 46]"

(* app.ts line 579: form.biasDetection  |- ????????????? ? ??????????? ????????? (Bias Detection & Mitigation).| *)
definition fragment_biasDetection :: jsstring where
  "fragment_biasDetection = [45, 32, 1583, 1749, 1587, 1578, 1606, 1740, 1588, 1575, 1606, 1705,
     1585, 1583, 1606, 32, 1608, 32, 1705, 1749, 1605, 1705, 1585, 1583, 1606, 1749, 1608, 1749,
     1740, 32, 1604, 1575, 1740, 1749, 1606, 1711, 1740, 1585, 1740]
     @ js '' (Bias Detection & Mitigation).''"

(* app.ts line 580: form.rhetoricalPrecision  |- ??????????? ??????? ????????? (Rhetorical Precision) ?? ?????????...| *)
definition fragment_rhetoricalPrecision :: jsstring where
  "fragment_rhetoricalPrecision = [45, 32, 1576, 1749, 1705, 1575, 1585, 1607, 1742, 1606, 1575,
     1606, 1740, 32, 1608, 1585, 1583, 1576, 1740, 1606, 1740, 32, 1685, 1749, 1608, 1575, 1606,
     1576, 1742, 1688, 1740] @ js '' (Rhetorical Precision) '' @ [1604, 1749, 32, 1607, 1749,
     1717, 1576, 1688, 1575, 1585, 1583, 1606, 1740, 32, 1608, 1588, 1749, 1705, 1575, 1606,
     1583, 1575, 46]"

(* app.ts line 581: form.semanticDensity  |- ???? ?????? (Semantic Density) ???? ???? ???? ??????? ??? ?? ????...| *)
definition fragment_semanticDensity :: jsstring where
  "fragment_semanticDensity = [45, 32, 1670, 1685, 1740, 1740, 32, 1608, 1575, 1578, 1575, 1740,
     1740] @ js '' (Semantic Density) '' @ [1576, 1749, 1585, 1586, 32, 1576, 1742, 1578, 1548,
     32, 1608, 1575, 1578, 1749, 32, 1586, 1575, 1606, 1740, 1575, 1585, 1740, 32, 1586, 1734,
     1585, 32, 1604, 1749, 32, 1608, 1588, 1749, 1740, 32, 1705, 1749, 1605, 1583, 1575, 46]"

(* app.ts line 582: form.syntacticComplexity  |- ?????? ???????? (Syntactic Complexity) ?? ????????? ?????????? ??...| *)
definition fragment_syntacticComplexity :: jsstring where
  "fragment_syntacticComplexity = [45, 32, 1574, 1575, 1717, 1734, 1586, 1740, 32, 1685, 1587,
     1578, 1749, 1587, 1575, 1586, 1740] @ js '' (Syntactic Complexity) '' @ [1576, 1734, 32,
     1606, 1740, 1588, 1575, 1606, 1583, 1575, 1606, 1740, 32, 1662, 1749, 1740, 1608, 1749,
     1606, 1583, 1740, 1740, 1749, 32, 1574, 1575, 1717, 1734, 1586, 1749, 1705, 1575, 1606, 46]"

(* app.ts line 583: form.academicHedging  |- ??????????? ?????? ???????? (Hedging) ?? ???????????? ?? ????????...| *)
definition fragment_academicHedging :: jsstring where
  "fragment_academicHedging = [45, 32, 1576, 1749, 1705, 1575, 1585, 1607, 1742, 1606, 1575,
     1606, 1740, 32, 1608, 1585, 1740, 1575, 1740, 1740, 32, 1574, 1749, 1705, 1575, 1583, 1740,
     1605, 1740] @ js '' (Hedging) '' @ [1576, 1734, 32, 1583, 1608, 1608, 1585, 1705, 1749,
     1608, 1578, 1606, 1749, 1608, 1749, 32, 1604, 1749, 32, 1711, 1588, 1578, 1575, 1606, 1583,
     1606, 1740, 32, 1606, 1575, 1685, 1575, 1587, 1578, 46]"

(* app.ts line 584: form.signposting  |- ??????????? ??????????? (Signposting) ?? ???????????? ?????? ????...| *)
definition fragment_signposting :: jsstring where
  "fragment_signposting = [45, 32, 1576, 1749, 1705, 1575, 1585, 1607, 1742, 1606, 1575, 1606,
     1740, 32, 1606, 1740, 1588, 1575, 1606, 1749, 1583, 1575, 1606, 1575, 1606]
     @ js '' (Signposting) '' @ [1576, 1734, 32, 1685, 1742, 1606, 1605, 1575, 1740, 1740, 1705,
     1585, 1583, 1606, 1740, 32, 1582, 1608, 1742, 1606, 1749, 1585, 32, 1604, 1749, 1606, 1575,
     1608, 32, 1583, 1749, 1602, 1749, 1705, 1749, 1583, 1575, 46]"

(* app.ts line 585: form.footnoteDensity  |- ??????????? ???????? ??? (High Footnote Density) ?? ???????????? ...| *)
definition fragment_footnoteDensity :: jsstring where
  "fragment_footnoteDensity = [45, 32, 1576, 1749, 1705, 1575, 1585, 1607, 1742, 1606, 1575,
     1606, 1740, 32, 1662, 1749, 1585, 1575, 1608, 1742, 1586, 1740, 32, 1586, 1734, 1585]
     @ js '' (High Footnote Density) '' @ [1576, 1734, 32, 1685, 1608, 1608, 1606, 1705, 1585,
     1583, 1606, 1749, 1608, 1749, 1740, 32, 1586, 1740, 1575, 1583, 1749, 46]"

(* app.ts line 586: form.glossaryCreation  |- ??????????? ????????? (Glossary) ?? ?????? ????????????.| *)
definition fragment_glossaryCreation :: jsstring where
  "fragment_glossaryCreation = [45, 32, 1574, 1575, 1605, 1575, 1583, 1749, 1705, 1585, 1583,
     1606, 1740, 32, 1601, 1749, 1585, 1607, 1749, 1606, 1711, 1734, 1705] @ js '' (Glossary) ''
     @ [1576, 1734, 32, 1586, 1575, 1585, 1575, 1608, 1749, 32, 1578, 1749, 1705, 1606, 1740,
     1705, 1740, 1740, 1749, 1705, 1575, 1606, 46]"

(* app.ts line 587: form.appendixStructuring  |- ???????? ???????? (Appendix Structuring) ?? ????? ?????.| *)
definition fragment_appendixStructuring :: jsstring where
  "fragment_appendixStructuring = [45, 32, 1685, 1742, 1705, 1582, 1587, 1578, 1606, 1740, 32,
     1662, 1575, 1588, 1705, 1734, 1705, 1575, 1606] @ js '' (Appendix Structuring) '' @ [1576,
     1734, 32, 1583, 1575, 1578, 1575, 1740, 32, 1586, 1740, 1575, 1583, 1749, 46]"

(* app.ts line 587-590  |/      /      ????????????? ???????? (Super Mega Expansion):/      | *)
definition autoWrite_text_10 :: jsstring where
  "autoWrite_text_10 = [10] @ js ''      '' @ [10] @ js ''      '' @ [1578, 1575, 1740, 1576,
     1749, 1578, 1605, 1749, 1606, 1583, 1740, 1740, 1749, 32, 1606, 1608, 1742, 1740, 1749,
     1705, 1575, 1606] @ js '' (Super Mega Expansion):'' @ [10] @ js ''      ''"

(* app.ts line 590: form.etymology  |- ??????????? ??????????? (Etymology) ?? ?????????? ??????.| *)
definition fragment_etymology :: jsstring where
  "fragment_etymology = [45, 32, 1576, 1749, 1705, 1575, 1585, 1607, 1742, 1606, 1575, 1606,
     1740, 32, 1685, 1749, 1670, 1749, 1717, 1749, 1705, 1606, 1575, 1587, 1740]
     @ js '' (Etymology) '' @ [1576, 1734, 32, 1588, 1740, 1705, 1585, 1583, 1606, 1749, 1608,
     1749, 1740, 32, 1608, 1588, 1749, 1705, 1575, 1606, 46]"

(* app.ts line 591: form.philology  |- ??????????? ???????? (Philology) ?? ?????????? ???? ???????.| *)
definition fragment_philology :: jsstring where
  "fragment_philology = [45, 32, 1576, 1749, 1705, 1575, 1585, 1607, 1742, 1606, 1575, 1606,
     1740, 32, 1601, 1740, 1604, 1734, 1604, 1734, 1580, 1740] @ js '' (Philology) '' @ [1576,
     1734, 32, 1582, 1608, 1742, 1606, 1583, 1606, 1749, 1608, 1749, 1740, 32, 1583, 1749, 1602,
     1749, 32, 1705, 1734, 1606, 1749, 1705, 1575, 1606, 46]"

(* app.ts line 592: form.sociolinguistics  |- ?????????? ????????? ?????????? (Sociolinguistics).| *)
definition fragment_sociolinguistics :: jsstring where
  "fragment_sociolinguistics = [45, 32, 1588, 1740, 1705, 1585, 1583, 1606, 1749, 1608, 1749,
     1740, 32, 1586, 1605, 1575, 1606, 1749, 1608, 1575, 1606, 1740, 32, 1705, 1734, 1605, 1749,
     1717, 1575, 1740, 1749, 1578, 1740] @ js '' (Sociolinguistics).''"

(* app.ts line 593: form.psycholinguistics  |- ?????????? ????????? ??????? (Psycholinguistics).| *)
definition fragment_psycholinguistics :: jsstring where
  "fragment_psycholinguistics = [45, 32, 1588, 1740, 1705, 1585, 1583, 1606, 1749, 1608, 1749,
     1740, 32, 1586, 1605, 1575, 1606, 1749, 1608, 1575, 1606, 1740, 32, 1583, 1749, 1585, 1608,
     1608, 1606, 1740] @ js '' (Psycholinguistics).''"

(* app.ts line 594: form.discourseAnalysis  |- ?????? ????? (Discourse Analysis) ?? ???????? ?? ???.| *)
definition fragment_discourseAnalysis :: jsstring where
  "fragment_discourseAnalysis = [45, 32, 1588, 1740, 1705, 1575, 1585, 1740, 32, 1711, 1608,
     1578, 1575, 1585] @ js '' (Discourse Analysis) '' @ [1576, 1734, 32, 1578, 1742, 1711,
     1749, 1740, 1588, 1578, 1606, 32, 1604, 1749, 32, 1583, 1749, 1602, 46]"

(* app.ts line 595: form.utilitarianism  |- ??????????? ???????? ?????????? (Utilitarianism).| *)
definition fragment_utilitarianism :: jsstring where
  "fragment_utilitarianism = [45, 32, 1576, 1749, 1705, 1575, 1585, 1607, 1742, 1606, 1575,
     1606, 1740, 32, 1601, 1749, 1604, 1587, 1749, 1601, 1749, 1740, 32, 1587, 1608, 1608, 1583,
     1711, 1749, 1585, 1575, 1740, 1740] @ js '' (Utilitarianism).''"

(* app.ts line 596: form.deontology  |- ??????????? ???????? ?????????? (Deontology).| *)
definition fragment_deontology :: jsstring where
  "fragment_deontology = [45, 32, 1576, 1749, 1705, 1575, 1585, 1607, 1742, 1606, 1575, 1606,
     1740, 32, 1601, 1749, 1604, 1587, 1749, 1601, 1749, 1740, 32, 1574, 1749, 1585, 1705, 1711,
     1749, 1585, 1575, 1740, 1740] @ js '' (Deontology).''"

(* app.ts line 597: form.existentialism  |- ??????????? ???????? ????????????? (Existentialism).| *)
definition fragment_existentialism :: jsstring where
  "fragment_existentialism = [45, 32, 1576, 1749, 1705, 1575, 1585, 1607, 1742, 1606, 1575,
     1606, 1740, 32, 1601, 1749, 1604, 1587, 1749, 1601, 1749, 1740, 32, 1576, 1608, 1608, 1606,
     1740, 1749, 1578, 1711, 1749, 1585, 1575, 1740, 1740] @ js '' (Existentialism).''"

(* app.ts line 598: form.stoicism  |- ??????????? ???????? ???????? (Stoicism).| *)
definition fragment_stoicism :: jsstring where
  "fragment_stoicism = [45, 32, 1576, 1749, 1705, 1575, 1585, 1607, 1742, 1606, 1575, 1606,
     1740, 32, 1601, 1749, 1604, 1587, 1749, 1601, 1749, 1740, 32, 1587, 1578, 1734, 1740, 1587,
     1740, 1586, 1605] @ js '' (Stoicism).''"

(* app.ts line 599: form.postModernism  |- ??????????? ???????? ????-????????? (Post-Modernism).| *)
definition fragment_postModernism :: jsstring where
  "fragment_postModernism = [45, 32, 1576, 1749, 1705, 1575, 1585, 1607, 1742, 1606, 1575, 1606,
     1740, 32, 1601, 1749, 1604, 1587, 1749, 1601, 1749, 1740, 32, 1662, 1734, 1587, 1578, 45,
     1605, 1734, 1583, 1742, 1585, 1606, 1740, 1586, 1605] @ js '' (Post-Modernism).''"

(* app.ts line 600: form.bigData  |- ??????????? ????? ????? (Big Data) ?? ?????????????.| *)
definition fragment_bigData :: jsstring where
  "fragment_bigData = [45, 32, 1576, 1749, 1705, 1575, 1585, 1607, 1742, 1606, 1575, 1606, 1740,
     32, 1583, 1575, 1578, 1575, 1740, 32, 1711, 1749, 1608, 1585, 1749] @ js '' (Big Data) ''
     @ [1604, 1749, 32, 1588, 1740, 1705, 1575, 1585, 1740, 1740, 1749, 1705, 1575, 1606, 1583,
     1575, 46]"

(* app.ts line 601: form.predictiveModeling  |- ??????????? ?????? ?????????? (Predictive Modeling).| *)
definition fragment_predictiveModeling :: jsstring where
  "fragment_predictiveModeling = [45, 32, 1576, 1749, 1705, 1575, 1585, 1607, 1742, 1606, 1575,
     1606, 1740, 32, 1605, 1734, 1583, 1742, 1604, 1740, 32, 1662, 1742, 1588, 1576, 1740, 1606,
     1740, 1705, 1749, 1585] @ js '' (Predictive Modeling).''"

(* app.ts line 602: form.networkAnalysis  |- ?????? ??? (Network Analysis) ?? ?????????????.| *)
definition fragment_networkAnalysis :: jsstring where
  "fragment_networkAnalysis = [45, 32, 1588, 1740, 1705, 1575, 1585, 1740, 32, 1578, 1734, 1685]
     @ js '' (Network Analysis) '' @ [1576, 1734, 32, 1662, 1749, 1740, 1608, 1749, 1606, 1583,
     1740, 1740, 1749, 1705, 1575, 1606, 46]"

(* app.ts line 603: form.geospatialAnalysis  |- ?????? ????-??? (Geospatial Analysis).| *)
definition fragment_geospatialAnalysis :: jsstring where
  "fragment_geospatialAnalysis = [45, 32, 1588, 1740, 1705, 1575, 1585, 1740, 32, 1588, 1608,
     1742, 1606, 45, 1603, 1575, 1578] @ js '' (Geospatial Analysis).''"

(* app.ts line 604: form.sentimentAnalysis  |- ?????? ???? (Sentiment Analysis) ?? ???????.| *)
definition fragment_sentimentAnalysis :: jsstring where
  "fragment_sentimentAnalysis = [45, 32, 1588, 1740, 1705, 1575, 1585, 1740, 32, 1607, 1749,
     1587, 1578] @ js '' (Sentiment Analysis) '' @ [1576, 1734, 32, 1583, 1749, 1602, 1749,
     1705, 1575, 1606, 46]"

(* app.ts line 605: form.marxism  |- ??????????? ????? ???????? (Marxism) ?? ?????????.| *)
definition fragment_marxism :: jsstring where
  "fragment_marxism = [45, 32, 1576, 1749, 1705, 1575, 1585, 1607, 1742, 1606, 1575, 1606, 1740,
     32, 1578, 1740, 1734, 1585, 1740, 32, 1605, 1575, 1585, 1705, 1587, 1740, 1586, 1605]
     @ js '' (Marxism) '' @ [1576, 1734, 32, 1588, 1740, 1705, 1585, 1583, 1606, 1749, 1608,
     1749, 46]"

(* app.ts line 606: form.feminism  |- ??????????? ????? ???????? (Feminism) ?? ?????????.| *)
definition fragment_feminism :: jsstring where
  "fragment_feminism = [45, 32, 1576, 1749, 1705, 1575, 1585, 1607, 1742, 1606, 1575, 1606,
     1740, 32, 1578, 1740, 1734, 1585, 1740, 32, 1601, 1742, 1605, 1740, 1606, 1740, 1586, 1605]
     @ js '' (Feminism) '' @ [1576, 1734, 32, 1588, 1740, 1705, 1585, 1583, 1606, 1749, 1608,
     1749, 46]"

(* app.ts line 607: form.postColonialism  |- ??????????? ????? ????-??????????? (Post-Colonialism).| *)
definition fragment_postColonialism :: jsstring where
  "fragment_postColonialism = [45, 32, 1576, 1749, 1705, 1575, 1585, 1607, 1742, 1606, 1575,
     1606, 1740, 32, 1578, 1740, 1734, 1585, 1740, 32, 1662, 1734, 1587, 1578, 45, 1705, 1734,
     1604, 1734, 1606, 1740, 1575, 1604, 1740, 1586, 1605] @ js '' (Post-Colonialism).''"

(* app.ts line 608: form.structuralism  |- ??????????? ????? ?????????? (Structuralism).| *)
definition fragment_structuralism :: jsstring where
  "fragment_structuralism = [45, 32, 1576, 1749, 1705, 1575, 1585, 1607, 1742, 1606, 1575, 1606,
     1740, 32, 1578, 1740, 1734, 1585, 1740, 32, 1576, 1608, 1606, 1740, 1575, 1583, 1711, 1749,
     1585, 1740] @ js '' (Structuralism).''"

(* app.ts line 609: form.deconstruction  |- ??????????? ????? ????????????? (Deconstruction).| *)
definition fragment_deconstruction :: jsstring where
  "fragment_deconstruction = [45, 32, 1576, 1749, 1705, 1575, 1585, 1607, 1742, 1606, 1575,
     1606, 1740, 32, 1578, 1740, 1734, 1585, 1740, 32, 1607, 1749, 1717, 1608, 1749, 1588, 1575,
     1606, 1583, 1606, 1749, 1608, 1749] @ js '' (Deconstruction).''"

(* app.ts line 610: form.reproducibilityCheck  |- ???????????? ?? ??????????????? ?????????? (Reproducibility Check).| *)
definition fragment_reproducibilityCheck :: jsstring where
  "fragment_reproducibilityCheck = [45, 32, 1583, 1717, 1606, 1740, 1575, 1576, 1608, 1608,
     1606, 1749, 1608, 1749, 32, 1604, 1749, 32, 1583, 1608, 1608, 1576, 1575, 1585, 1749, 1705,
     1585, 1575, 1606, 1749, 1608, 1749, 1740, 32, 1574, 1749, 1606, 1580, 1575, 1605, 1749,
     1705, 1575, 1606] @ js '' (Reproducibility Check).''"

(* app.ts line 611: form.falsifiability  |- ???????????? ?? ?????????????? ?????????? (Falsifiability).| *)
definition fragment_falsifiability :: jsstring where
  "fragment_falsifiability = [45, 32, 1583, 1717, 1606, 1740, 1575, 1576, 1608, 1608, 1606,
     1749, 1608, 1749, 32, 1604, 1749, 32, 1607, 1749, 1717, 1608, 1749, 1588, 1742, 1606, 1749,
     1585, 1749, 1608, 1749, 1740, 32, 1711, 1585, 1740, 1605, 1575, 1606, 1749, 1705, 1575,
     1606] @ js '' (Falsifiability).''"

(* app.ts line 612: form.controlVariables  |- ?????????? ?????? ??????????????? (Control Variables).| *)
definition fragment_controlVariables :: jsstring where
  "fragment_controlVariables = [45, 32, 1583, 1740, 1575, 1585, 1740, 1705, 1585, 1583, 1606,
     1740, 32, 1711, 1734, 1685, 1575, 1608, 1749, 32, 1705, 1734, 1606, 1578, 1585, 1734, 1717,
     1705, 1585, 1575, 1608, 1749, 1705, 1575, 1606] @ js '' (Control Variables).''"

(* app.ts line 613: form.doubleBlindProtocol  |- ??????????? ????????? ??????? (Double-Blind Protocol).| *)
definition fragment_doubleBlindProtocol :: jsstring where
  "fragment_doubleBlindProtocol = [45, 32, 1576, 1749, 1705, 1575, 1585, 1607, 1742, 1606, 1575,
     1606, 1740, 32, 1662, 1685, 1734, 1578, 1734, 1705, 1734, 1604, 1740, 32, 1705, 1608, 1742,
     1585, 1575, 1606, 1749] @ js '' (Double-Blind Protocol).''"

(* app.ts line 614: form.peerDebriefing  |- ??????????? ??????? ??????? (Peer Debriefing).| *)
definition fragment_peerDebriefing :: jsstring where
  "fragment_peerDebriefing = [45, 32, 1576, 1749, 1705, 1575, 1585, 1607, 1742, 1606, 1575,
     1606, 1740, 32, 1711, 1601, 1578, 1608, 1711, 1734, 1740, 32, 1607, 1575, 1608, 1749, 1717,
     1575, 1606] @ js '' (Peer Debriefing).''"

(* app.ts line 615: form.gameTheory  |- ??????????? ????? ???? (Game Theory).| *)
definition fragment_gameTheory :: jsstring where
  "fragment_gameTheory = [45, 32, 1576, 1749, 1705, 1575, 1585, 1607, 1742, 1606, 1575, 1606,
     1740, 32, 1578, 1740, 1734, 1585, 1740, 32, 1740, 1575, 1585, 1740]
     @ js '' (Game Theory).''"

(* app.ts line 616: form.behavioralEconomics  |- ??????????? ??????? ??????? (Behavioral Economics).| *)
definition fragment_behavioralEconomics :: jsstring where
  "fragment_behavioralEconomics = [45, 32, 1576, 1749, 1705, 1575, 1585, 1607, 1742, 1606, 1575,
     1606, 1740, 32, 1574, 1575, 1576, 1608, 1608, 1585, 1740, 32, 1685, 1749, 1601, 1578, 1575,
     1585, 1740] @ js '' (Behavioral Economics).''"

(* app.ts line 617: form.macroEconomicTrends  |- ?????????? ?????? ???????? (Macro-Economic Trends).| *)
definition fragment_macroEconomicTrends :: jsstring where
  "fragment_macroEconomicTrends = [45, 32, 1588, 1740, 1705, 1585, 1583, 1606, 1749, 1608, 1749,
     1740, 32, 1578, 1585, 1742, 1606, 1583, 1749, 32, 1605, 1575, 1705, 1585, 1734, 1705, 1575,
     1606] @ js '' (Macro-Economic Trends).''"

(* app.ts line 618: form.costBenefitAnalysis  |- ?????? ?????-???? (Cost-Benefit Analysis).| *)
definition fragment_costBenefitAnalysis :: jsstring where
  "fragment_costBenefitAnalysis = [45, 32, 1588, 1740, 1705, 1575, 1585, 1740, 32, 1578, 1742,
     1670, 1608, 1608, 45, 1587, 1608, 1608, 1583] @ js '' (Cost-Benefit Analysis).''"

(* app.ts line 619: form.supplyChainAnalysis  |- ?????? ??????? ????????? (Supply Chain Analysis).| *)
definition fragment_supplyChainAnalysis :: jsstring where
  "fragment_supplyChainAnalysis = [45, 32, 1588, 1740, 1705, 1575, 1585, 1740, 32, 1586, 1606,
     1580, 1740, 1585, 1749, 1740, 32, 1583, 1575, 1576, 1740, 1606, 1705, 1585, 1583, 1606]
     @ js '' (Supply Chain Analysis).''"

(* app.ts line 620: form.cognitiveBehavioral  |- ??????????? ????????? ??????? ??????? (CBT).| *)
definition fragment_cognitiveBehavioral :: jsstring where
  "fragment_cognitiveBehavioral = [45, 32, 1576, 1749, 1705, 1575, 1585, 1607, 1742, 1606, 1575,
     1606, 1740, 32, 1670, 1608, 1575, 1585, 1670, 1742, 1608, 1749, 1740, 32, 1605, 1749, 1593,
     1585, 1740, 1601, 1740, 32, 1685, 1749, 1601, 1578, 1575, 1585, 1740] @ js '' (CBT).''"

(* app.ts line 621: form.psychoanalysis  |- ??????????? ?????? ??????? (Psychoanalysis).| *)
definition fragment_psychoanalysis :: jsstring where
  "fragment_psychoanalysis = [45, 32, 1576, 1749, 1705, 1575, 1585, 1607, 1742, 1606, 1575,
     1606, 1740, 32, 1588, 1740, 1705, 1575, 1585, 1740, 32, 1583, 1749, 1585, 1608, 1608, 1606,
     1740] @ js '' (Psychoanalysis).''"

(* app.ts line 622: form.humanisticPsychology  |- ??????????? ?????????? ????? (Humanistic Psychology).| *)
definition fragment_humanisticPsychology :: jsstring where
  "fragment_humanisticPsychology = [45, 32, 1576, 1749, 1705, 1575, 1585, 1607, 1742, 1606,
     1575, 1606, 1740, 32, 1583, 1749, 1585, 1608, 1608, 1606, 1606, 1575, 1587, 1740, 32, 1605,
     1585, 1734, 1740, 1740] @ js '' (Humanistic Psychology).''"

(* app.ts line 623: form.socialPsychology  |- ??????????? ?????????? ?????????? (Social Psychology).| *)
definition fragment_socialPsychology :: jsstring where
  "fragment_socialPsychology = [45, 32, 1576, 1749, 1705, 1575, 1585, 1607, 1742, 1606, 1575,
     1606, 1740, 32, 1583, 1749, 1585, 1608, 1608, 1606, 1606, 1575, 1587, 1740, 32, 1705, 1734,
     1605, 1749, 1717, 1575, 1740, 1749, 1578, 1740] @ js '' (Social Psychology).''"

(* app.ts line 624: form.neuropsychology  |- ??????????? ?????????? ????? (Neuropsychology).| *)
definition fragment_neuropsychology :: jsstring where
  "fragment_neuropsychology = [45, 32, 1576, 1749, 1705, 1575, 1585, 1607, 1742, 1606, 1575,
     1606, 1740, 32, 1583, 1749, 1585, 1608, 1608, 1606, 1606, 1575, 1587, 1740, 32, 1583, 1749,
     1605, 1575, 1585] @ js '' (Neuropsychology).''"

(* app.ts line 625: form.internationalLaw  |- ??????????? ????? ?????????? (International Law).| *)
definition fragment_internationalLaw :: jsstring where
  "fragment_internationalLaw = [45, 32, 1576, 1749, 1705, 1575, 1585, 1607, 1742, 1606, 1575,
     1606, 1740, 32, 1740, 1575, 1587, 1575, 1740, 32, 1606, 1742, 1608, 1583, 1749, 1608, 1717,
     1749, 1578, 1740] @ js '' (International Law).''"

(* app.ts line 626: form.humanRights  |- ??????????? ????? ???? ???? (Human Rights).| *)
definition fragment_humanRights :: jsstring where
  "fragment_humanRights = [45, 32, 1580, 1749, 1582, 1578, 1705, 1585, 1583, 1606, 1749, 1608,
     1749, 32, 1604, 1749, 1587, 1749, 1585, 32, 1605, 1575, 1601, 1740, 32, 1605, 1585, 1734,
     1700] @ js '' (Human Rights).''"

(* app.ts line 627: form.intellectualProperty  |- ???????? ???????? ???? (Intellectual Property).| *)
definition fragment_intellectualProperty :: jsstring where
  "fragment_intellectualProperty = [45, 32, 1662, 1575, 1585, 1575, 1587, 1578, 1606, 1740, 32,
     1605, 1608, 1717, 1705, 1740, 1749, 1578, 1740, 32, 1607, 1586, 1585, 1740]
     @ js '' (Intellectual Property).''"

(* app.ts line 628: form.bioethics  |- ?????????? ?????? ????? (Bioethics).| *)
definition fragment_bioethics :: jsstring where
  "fragment_bioethics = [45, 32, 1685, 1749, 1670, 1575, 1608, 1705, 1585, 1583, 1606, 1740, 32,
     1574, 1575, 1705, 1575, 1585, 1740, 32, 1688, 1740, 1575, 1606, 1740]
     @ js '' (Bioethics).''"

(* app.ts line 629: form.corporateGovernance  |- ?????????? ???????? ???????? (Corporate Governance).| *)
definition fragment_corporateGovernance :: jsstring where
  "fragment_corporateGovernance = [45, 32, 1588, 1740, 1705, 1585, 1583, 1606, 1749, 1608, 1749,
     1740, 32, 1581, 1608, 1705, 1605, 1685, 1575, 1606, 1740, 32, 1705, 1734, 1605, 1662, 1575,
     1606, 1740, 1575] @ js '' (Corporate Governance).''"

(* app.ts line 630-633  |/      /      ????? ????? ????? ??? ???? ?????? ?? ?????????? ? ???...| *)
definition autoWrite_text_11 :: jsstring where
  "autoWrite_text_11 = [10] @ js ''      '' @ [10] @ js ''      '' @ [1574, 1742, 1587, 1578,
     1575, 32, 1578, 1705, 1575, 1740, 1749, 32, 1578, 1749, 1606, 1607, 1575, 32, 1574, 1749,
     1605, 32, 1576, 1749, 1588, 1749, 32, 1576, 1606, 1608, 1608, 1587, 1749, 32, 1576, 1749,
     32, 1578, 1742, 1585, 1608, 1578, 1749, 1587, 1749, 1604, 1740, 32, 1608, 32, 1574, 1575,
     1587, 1578, 1742, 1705, 1740, 32, 1576, 1575, 1717, 1575, 1740, 32, 1574, 1749, 1705, 1575,
     1583, 1740, 1605, 1740, 32, 1607, 1575, 1585, 1700, 1575, 1585, 1583, 58, 10]
     @ js ''      '' @ [1606, 1575, 1608, 1606, 1740, 1588, 1575, 1606, 1740, 32, 1576, 1749,
     1588, 58, 32]"

(* app.ts line 633-635  |/      /      | *)
definition autoWrite_text_12 :: jsstring where
  "autoWrite_text_12 = [10] @ js ''      '' @ [10] @ js ''      ''"

(* app.ts line 635  |?????? ???? ????? ?? ????????? ????????: | *)
definition previousContext_label :: jsstring where
  "previousContext_label = [1662, 1608, 1582, 1578, 1749, 1740, 32, 1576, 1749, 1588, 1740, 32,
     1662, 1742, 1588, 1608, 1608, 32, 1576, 1734, 32, 1576, 1749, 1587, 1578, 1606, 1749, 1608,
     1749, 1740, 32, 1586, 1606, 1580, 1740, 1585, 1749, 1740, 1740, 58, 32]"

text \<open>The names of the check boxes of the form, in the order of lines 105--218.\<close>

definition checkbox_names :: "string list" where
  "checkbox_names =
     [''superRole'', ''dialectic'', ''thesisCover'', ''includeReferences'', ''dataFocus'',
      ''enableDataViz'', ''doiLinking'', ''crossRefCheck'', ''plagiarismCheck'',
      ''useCustomOutline'', ''useCustomSources'', ''counterArgument'',
      ''theoreticalFramework'', ''globalPerspective'', ''historicalContext'',
      ''ethicalConsiderations'', ''futureImplications'', ''harvardClassicTone'',
      ''quantitativeAnalysis'', ''qualitativeAnalysis'', ''blindPeerReview'', ''mixedMethods'',
      ''longitudinalAnalysis'', ''crossSectional'', ''phenomenology'', ''groundedTheory'',
      ''deductiveReasoning'', ''inductiveReasoning'', ''statisticalSignificance'',
      ''confidenceIntervals'', ''effectSize'', ''triangulation'', ''biasDetection'',
      ''rhetoricalPrecision'', ''semanticDensity'', ''syntacticComplexity'',
      ''academicHedging'', ''signposting'', ''footnoteDensity'', ''glossaryCreation'',
      ''appendixStructuring'', ''etymology'', ''philology'', ''sociolinguistics'',
      ''psycholinguistics'', ''discourseAnalysis'', ''utilitarianism'', ''deontology'',
      ''existentialism'', ''stoicism'', ''postModernism'', ''bigData'', ''predictiveModeling'',
      ''networkAnalysis'', ''geospatialAnalysis'', ''sentimentAnalysis'', ''marxism'',
      ''feminism'', ''postColonialism'', ''structuralism'', ''deconstruction'',
      ''reproducibilityCheck'', ''falsifiability'', ''controlVariables'',
      ''doubleBlindProtocol'', ''peerDebriefing'', ''gameTheory'', ''behavioralEconomics'',
      ''macroEconomicTrends'', ''costBenefitAnalysis'', ''supplyChainAnalysis'',
      ''cognitiveBehavioral'', ''psychoanalysis'', ''humanisticPsychology'',
      ''socialPsychology'', ''neuropsychology'', ''internationalLaw'', ''humanRights'',
      ''intellectualProperty'', ''bioethics'', ''corporateGovernance'']"

text \<open>\<open>featureGroups\<close> (lines 76--89): the groups of check boxes that can be selected automatically.\<close>

definition featureGroups :: "(string \<times> string list) list" where
  "featureGroups =
     [(''vip'', [''counterArgument'', ''theoreticalFramework'', ''globalPerspective'',
        ''historicalContext'', ''ethicalConsiderations'', ''futureImplications'',
        ''harvardClassicTone'', ''quantitativeAnalysis'', ''qualitativeAnalysis'',
        ''blindPeerReview'']),
      (''methodology'', [''mixedMethods'', ''longitudinalAnalysis'', ''crossSectional'',
        ''phenomenology'', ''groundedTheory'']),
      (''logic'', [''deductiveReasoning'', ''inductiveReasoning'', ''statisticalSignificance'',
        ''confidenceIntervals'', ''effectSize'']),
      (''precision'', [''triangulation'', ''biasDetection'', ''rhetoricalPrecision'',
        ''semanticDensity'', ''syntacticComplexity'', ''academicHedging'', ''signposting'',
        ''footnoteDensity'', ''glossaryCreation'', ''appendixStructuring'']),
      (''linguistics'', [''etymology'', ''philology'', ''sociolinguistics'',
        ''psycholinguistics'', ''discourseAnalysis'']),
      (''philosophy'', [''utilitarianism'', ''deontology'', ''existentialism'', ''stoicism'',
        ''postModernism'']),
      (''dataScience'', [''bigData'', ''predictiveModeling'', ''networkAnalysis'',
        ''geospatialAnalysis'', ''sentimentAnalysis'']),
      (''criticalTheory'', [''marxism'', ''feminism'', ''postColonialism'', ''structuralism'',
        ''deconstruction'']),
      (''scientificRigor'', [''reproducibilityCheck'', ''falsifiability'', ''controlVariables'',
        ''doubleBlindProtocol'', ''peerDebriefing'']),
      (''economics'', [''gameTheory'', ''behavioralEconomics'', ''macroEconomicTrends'',
        ''costBenefitAnalysis'', ''supplyChainAnalysis'']),
      (''psychology'', [''cognitiveBehavioral'', ''psychoanalysis'', ''humanisticPsychology'',
        ''socialPsychology'', ''neuropsychology'']),
      (''legal'', [''internationalLaw'', ''humanRights'', ''intellectualProperty'',
        ''bioethics'', ''corporateGovernance''])]"

section \<open>Prompt assembly\<close>

text \<open>
  The prompt of \<open>autoWrite\<close> (lines 528--636) is one template literal. It is kept as
  the list of its parts, in the order of the source: literal text, and the holes
  \<open>${form.x}\<close>, \<open>${form.k ? 'text' : ''}\<close>, \<open>${form.k ? `pre${form.x}post` : ''}\<close>,
  \<open>${sourcesInstruction}\<close>, \<open>${section.title}\<close> and
  \<open>${previousContext ? `label${previousContext}` : ''}\<close>.
\<close>

datatype part =
    Lit jsstring
  | Field "AdvancedForm \<Rightarrow> jsstring"
  | Flag string jsstring
  | FlagField string jsstring "AdvancedForm \<Rightarrow> jsstring" jsstring
  | SourcesInstruction
  | SectionTitle
  | PreviousContext jsstring

text \<open>
  \<open>sourcesInstruction\<close> of \<open>autoWrite\<close> (lines 511--513): the instruction and the
  user's sources when \<open>useCustomSources\<close> is set and \<open>customSources\<close> is not blank,
  otherwise the empty string.
\<close>

definition sourcesInstruction_autoWrite :: "AdvancedForm \<Rightarrow> jsstring" where
  "sourcesInstruction_autoWrite form =
     (if flag form ''useCustomSources'' \<and> trim (customSources form) \<noteq> []
      then sources_autoWrite_text_1 @ customSources form @ sources_autoWrite_text_2
      else [])"

fun render_part :: "AdvancedForm \<Rightarrow> jsstring \<Rightarrow> jsstring \<Rightarrow> part \<Rightarrow> jsstring" where
  "render_part form sectionTitle previousContext (Lit s) = s"
| "render_part form sectionTitle previousContext (Field f) = f form"
| "render_part form sectionTitle previousContext (Flag k fragment) =
     (if flag form k then fragment else [])"
| "render_part form sectionTitle previousContext (FlagField k pre f post) =
     (if flag form k then pre @ f form @ post else [])"
| "render_part form sectionTitle previousContext SourcesInstruction =
     sourcesInstruction_autoWrite form"
| "render_part form sectionTitle previousContext SectionTitle = sectionTitle"
| "render_part form sectionTitle previousContext (PreviousContext label) =
     (if previousContext \<noteq> [] then label @ previousContext else [])"

definition autoWrite_template :: "part list" where
  "autoWrite_template =
     [Lit autoWrite_text_1, Field form_title, Lit autoWrite_text_2, Field topic,
      Lit autoWrite_text_3, Field writing_type, Lit autoWrite_text_4, Field level,
      Lit autoWrite_text_5, Field (\<lambda>form. Number_toString (temperature form)),
      Lit autoWrite_text_6, Flag ''superRole'' fragment_superRole, Lit autoWrite_text_7,
      Flag ''dialectic'' fragment_dialectic, Lit line_break,
      FlagField ''includeReferences'' fragment_includeReferences_citationStyle_pre citationStyle fragment_includeReferences_citationStyle_post,
      Lit line_break,
      FlagField ''includeReferences'' fragment_includeReferences_referenceType_pre referenceType fragment_includeReferences_referenceType_post,
      Lit line_break, Flag ''dataFocus'' fragment_dataFocus, Lit line_break,
      Flag ''doiLinking'' fragment_doiLinking, Lit autoWrite_text_8,
      Flag ''counterArgument'' fragment_counterArgument, Lit line_break,
      Flag ''theoreticalFramework'' fragment_theoreticalFramework, Lit line_break,
      Flag ''globalPerspective'' fragment_globalPerspective, Lit line_break,
      Flag ''historicalContext'' fragment_historicalContext, Lit line_break,
      Flag ''ethicalConsiderations'' fragment_ethicalConsiderations, Lit line_break,
      Flag ''futureImplications'' fragment_futureImplications, Lit line_break,
      Flag ''harvardClassicTone'' fragment_harvardClassicTone, Lit line_break,
      Flag ''quantitativeAnalysis'' fragment_quantitativeAnalysis, Lit line_break,
      Flag ''qualitativeAnalysis'' fragment_qualitativeAnalysis, Lit autoWrite_text_9,
      Flag ''mixedMethods'' fragment_mixedMethods, Lit line_break,
      Flag ''longitudinalAnalysis'' fragment_longitudinalAnalysis, Lit line_break,
      Flag ''crossSectional'' fragment_crossSectional, Lit line_break,
      Flag ''phenomenology'' fragment_phenomenology, Lit line_break,
      Flag ''groundedTheory'' fragment_groundedTheory, Lit line_break,
      Flag ''deductiveReasoning'' fragment_deductiveReasoning, Lit line_break,
      Flag ''inductiveReasoning'' fragment_inductiveReasoning, Lit line_break,
      Flag ''statisticalSignificance'' fragment_statisticalSignificance, Lit line_break,
      Flag ''confidenceIntervals'' fragment_confidenceIntervals, Lit line_break,
      Flag ''effectSize'' fragment_effectSize, Lit line_break,
      Flag ''triangulation'' fragment_triangulation, Lit line_break,
      Flag ''biasDetection'' fragment_biasDetection, Lit line_break,
      Flag ''rhetoricalPrecision'' fragment_rhetoricalPrecision, Lit line_break,
      Flag ''semanticDensity'' fragment_semanticDensity, Lit line_break,
      Flag ''syntacticComplexity'' fragment_syntacticComplexity, Lit line_break,
      Flag ''academicHedging'' fragment_academicHedging, Lit line_break,
      Flag ''signposting'' fragment_signposting, Lit line_break,
      Flag ''footnoteDensity'' fragment_footnoteDensity, Lit line_break,
      Flag ''glossaryCreation'' fragment_glossaryCreation, Lit line_break,
      Flag ''appendixStructuring'' fragment_appendixStructuring, Lit autoWrite_text_10,
      Flag ''etymology'' fragment_etymology, Lit line_break,
      Flag ''philology'' fragment_philology, Lit line_break,
      Flag ''sociolinguistics'' fragment_sociolinguistics, Lit line_break,
      Flag ''psycholinguistics'' fragment_psycholinguistics, Lit line_break,
      Flag ''discourseAnalysis'' fragment_discourseAnalysis, Lit line_break,
      Flag ''utilitarianism'' fragment_utilitarianism, Lit line_break,
      Flag ''deontology'' fragment_deontology, Lit line_break,
      Flag ''existentialism'' fragment_existentialism, Lit line_break,
      Flag ''stoicism'' fragment_stoicism, Lit line_break,
      Flag ''postModernism'' fragment_postModernism, Lit line_break,
      Flag ''bigData'' fragment_bigData, Lit line_break,
      Flag ''predictiveModeling'' fragment_predictiveModeling, Lit line_break,
      Flag ''networkAnalysis'' fragment_networkAnalysis, Lit line_break,
      Flag ''geospatialAnalysis'' fragment_geospatialAnalysis, Lit line_break,
      Flag ''sentimentAnalysis'' fragment_sentimentAnalysis, Lit line_break,
      Flag ''marxism'' fragment_marxism, Lit line_break, Flag ''feminism'' fragment_feminism,
      Lit line_break, Flag ''postColonialism'' fragment_postColonialism, Lit line_break,
      Flag ''structuralism'' fragment_structuralism, Lit line_break,
      Flag ''deconstruction'' fragment_deconstruction, Lit line_break,
      Flag ''reproducibilityCheck'' fragment_reproducibilityCheck, Lit line_break,
      Flag ''falsifiability'' fragment_falsifiability, Lit line_break,
      Flag ''controlVariables'' fragment_controlVariables, Lit line_break,
      Flag ''doubleBlindProtocol'' fragment_doubleBlindProtocol, Lit line_break,
      Flag ''peerDebriefing'' fragment_peerDebriefing, Lit line_break,
      Flag ''gameTheory'' fragment_gameTheory, Lit line_break,
      Flag ''behavioralEconomics'' fragment_behavioralEconomics, Lit line_break,
      Flag ''macroEconomicTrends'' fragment_macroEconomicTrends, Lit line_break,
      Flag ''costBenefitAnalysis'' fragment_costBenefitAnalysis, Lit line_break,
      Flag ''supplyChainAnalysis'' fragment_supplyChainAnalysis, Lit line_break,
      Flag ''cognitiveBehavioral'' fragment_cognitiveBehavioral, Lit line_break,
      Flag ''psychoanalysis'' fragment_psychoanalysis, Lit line_break,
      Flag ''humanisticPsychology'' fragment_humanisticPsychology, Lit line_break,
      Flag ''socialPsychology'' fragment_socialPsychology, Lit line_break,
      Flag ''neuropsychology'' fragment_neuropsychology, Lit line_break,
      Flag ''internationalLaw'' fragment_internationalLaw, Lit line_break,
      Flag ''humanRights'' fragment_humanRights, Lit line_break,
      Flag ''intellectualProperty'' fragment_intellectualProperty, Lit line_break,
      Flag ''bioethics'' fragment_bioethics, Lit line_break,
      Flag ''corporateGovernance'' fragment_corporateGovernance, Lit line_break,
      SourcesInstruction, Lit autoWrite_text_11, SectionTitle, Lit autoWrite_text_12,
      PreviousContext previousContext_label, Lit line_break]"

definition autoWrite_prompt :: "AdvancedForm \<Rightarrow> jsstring \<Rightarrow> jsstring \<Rightarrow> jsstring" where
  "autoWrite_prompt form sectionTitle previousContext =
     concat (map (render_part form sectionTitle previousContext) autoWrite_template)"


text \<open>The prompt of \<open>sendToWindow2\<close> (lines 417--427).\<close>

definition outline_prompt :: "AdvancedForm \<Rightarrow> jsstring" where
  "outline_prompt form =
     outline_text_1 @ form_title form @ outline_text_2 @ topic form @ outline_text_3 @
     writing_type form @ outline_text_4 @ level form @ outline_text_5 @
     Number_toString (pages form) @ outline_text_6"

text \<open>The prompt of \<open>autoHumanize\<close> (lines 690--692 and 705--712).\<close>

definition sourcesInstruction_autoHumanize :: "AdvancedForm \<Rightarrow> jsstring" where
  "sourcesInstruction_autoHumanize form =
     (if flag form ''useCustomSources'' \<and> trim (customSources form) \<noteq> []
      then sources_autoHumanize_text_1 @ customSources form @ sources_autoHumanize_text_2
      else [])"

definition autoHumanize_prompt :: "AdvancedForm \<Rightarrow> jsstring \<Rightarrow> jsstring" where
  "autoHumanize_prompt form sectionContent =
     autoHumanize_text_1 @ sourcesInstruction_autoHumanize form @ autoHumanize_text_2 @
     sectionContent @ autoHumanize_text_3"

text \<open>The prompt of \<open>academicReview\<close> (lines 764--780).\<close>

definition sourcesInstruction_review :: "AdvancedForm \<Rightarrow> jsstring" where
  "sourcesInstruction_review form =
     (if flag form ''useCustomSources'' \<and> trim (customSources form) \<noteq> []
      then sources_review_text_1 @ customSources form @ sources_review_text_2
      else [])"

definition review_prompt :: "AdvancedForm \<Rightarrow> jsstring \<Rightarrow> jsstring" where
  "review_prompt form sectionContent =
     review_text_1 @ (if flag form ''blindPeerReview'' then fragment_blindPeerReview else []) @
     review_text_2 @ citationStyle form @ review_text_3 @ sourcesInstruction_review form @
     review_text_4 @ sectionContent @ review_text_5"

text \<open>
  The prompt of \<open>autoSelectFeatures\<close> (lines 249--256); \<open>groupKeys\<close> are names of
  check boxes.
\<close>

definition autoSelect_prompt :: "AdvancedForm \<Rightarrow> string list \<Rightarrow> jsstring" where
  "autoSelect_prompt form groupKeys =
     autoSelect_text_1 @ level form @ autoSelect_text_2 @ writing_type form @
     autoSelect_text_3 @ form_title form @ autoSelect_text_4 @
     join (js '', '') (map js groupKeys) @ autoSelect_text_5"



section \<open>Editing the section list\<close>

text \<open>
  \<open>addNewSection\<close> (lines 467--471): the new identifier is one more than the largest
  identifier of the list, or \<open>1\<close> for the empty list.
\<close>

definition newId :: "BookSection list \<Rightarrow> int" where
  "newId current = (if length current > 0 then Max (set (map sid current)) + 1 else 1)"

definition addNewSection :: "App \<Rightarrow> App" where
  "addNewSection st =
     st\<lparr>sections := sections st @
        [\<lparr>sid = newId (sections st), title = new_section_title, content = [],
          status = Pending\<rparr>]\<rparr>"

text \<open>
  \<open>removeSection\<close> (lines 473--481); \<open>confirmed\<close> is the user's answer to the
  confirmation dialog. \<open>this.sections()[0]?.id || null\<close> is \<open>null\<close> for the empty list
  and for a first section whose identifier is \<open>0\<close>.
\<close>

definition first_id_or_null :: "BookSection list \<Rightarrow> int option" where
  "first_id_or_null secs =
     (case secs of [] \<Rightarrow> None | s # _ \<Rightarrow> if sid s = 0 then None else Some (sid s))"

definition removeSection :: "int \<Rightarrow> bool \<Rightarrow> App \<Rightarrow> App" where
  "removeSection i confirmed st =
     (if confirmed then
        let st1 = st\<lparr>sections := filter (\<lambda>sec. sid sec \<noteq> i) (sections st)\<rparr>
        in if activeSectionId st1 = Some i
           then st1\<lparr>activeSectionId := first_id_or_null (sections st1)\<rparr>
           else st1
      else st)"

text \<open>\<open>updateSectionTitle\<close> (lines 483--486).\<close>

definition updateSectionTitle :: "int \<Rightarrow> jsstring \<Rightarrow> App \<Rightarrow> App" where
  "updateSectionTitle i newTitle st =
     st\<lparr>sections := map (\<lambda>sec. if sid sec = i then sec\<lparr>title := newTitle\<rparr> else sec)
                        (sections st)\<rparr>"

definition viewSection :: "int \<Rightarrow> App \<Rightarrow> App" where
  "viewSection i st = st\<lparr>activeSectionId := Some i\<rparr>"

text \<open>\<open>clearSections\<close> (lines 289--293) also removes the item of the local cache.\<close>

definition clearSections :: "App \<Rightarrow> App" where
  "clearSections st = st\<lparr>sections := [], activeSectionId := None, localStorage := None\<rparr>"

section \<open>The local cache\<close>

text \<open>
  The effect registered in the constructor (lines 221--231) runs after a change of the
  \<open>sections\<close> signal: it writes the snapshot of the sections and the form, unless the
  list is empty.
\<close>

definition autosave_effect :: "App \<Rightarrow> App" where
  "autosave_effect st =
     (if length (sections st) > 0
      then st\<lparr>localStorage := Some (Snapshot (sections st) (advancedForm st))\<rparr>
      else st)"

text \<open>
  \<open>ngOnInit\<close> (lines 295--322): the view is \<open>landing\<close>; a stored draft with at least
  one section replaces the sections, the form (when the item carries one), the active
  section, and opens the second writing window.
\<close>

definition ngOnInit :: "App \<Rightarrow> App" where
  "ngOnInit st =
     (let st1 = st\<lparr>currentView := Landing\<rparr>
      in case localStorage st1 of
           None \<Rightarrow> st1
         | Some saved \<Rightarrow>
             (let savedSections = (case saved of Snapshot secs form \<Rightarrow> secs
                                               | SectionArray secs \<Rightarrow> secs);
                  savedForm = (case saved of Snapshot secs form \<Rightarrow> Some form
                                           | SectionArray secs \<Rightarrow> None)
              in case savedSections of
                   [] \<Rightarrow> st1
                 | s # _ \<Rightarrow>
                     st1\<lparr>sections := savedSections,
                         advancedForm := (case savedForm of None \<Rightarrow> advancedForm st1
                                                          | Some form \<Rightarrow> form),
                         activeSectionId := Some (sid s),
                         writingWindow := 2,
                         currentView := Writing\<rparr>))"

section \<open>The initial state\<close>

text \<open>
  The form as the constructor builds it (lines 99--219): every check box is off but
  \<open>includeReferences\<close> and \<open>doiLinking\<close>.
\<close>

definition default_form :: AdvancedForm where
  "default_form =
     \<lparr>form_title = [], topic = default_topic, writing_type = default_type,
      level = default_level, pages = 10, styleText = [], compareText1 = [],
      compareText2 = [], compareBasis = [], temperature = 7 / 10, thinkingTokens = 4000,
      writingTokens = 8000, citationStyle = default_citationStyle,
      referenceType = default_referenceType, customOutline = [], customSources = [],
      flag = (\<lambda>k. k = ''includeReferences'' \<or> k = ''doiLinking'')\<rparr>"

text \<open>
  The component as it is created (lines 58--74), with the local cache \<open>cache\<close> it
  finds and no request sent yet.
\<close>

definition initial_app :: "autosave option \<Rightarrow> App" where
  "initial_app cache =
     \<lparr>currentView = Landing, writingWindow = 1, advancedForm = default_form,
      sections = [], activeSectionId = None, isGeneratingGlobal = False, globalError = [],
      isAutoSelecting = None, savedDocuments = [], isLoadingDocs = False,
      localStorage = cache, requests = []\<rparr>"

section \<open>The generation driver\<close>

text \<open>
  \<open>newSecs[i].status = s\<close> and \<open>newSecs[i].content = c\<close> inside
  \<open>this.sections.update\<close>. Every caller has \<open>i\<close> below the length of the list.
\<close>

definition set_status :: "nat \<Rightarrow> Status \<Rightarrow> BookSection list \<Rightarrow> BookSection list" where
  "set_status i s secs = secs[i := (secs ! i)\<lparr>status := s\<rparr>]"

definition set_content :: "nat \<Rightarrow> jsstring \<Rightarrow> BookSection list \<Rightarrow> BookSection list" where
  "set_content i c secs = secs[i := (secs ! i)\<lparr>content := c\<rparr>]"

text \<open>
  The loop \<open>for await (const chunk of response)\<close> (lines 649--657): each chunk is
  appended to \<open>fullContent\<close>, which then replaces the content of section \<open>i\<close>. The
  result is the final \<open>fullContent\<close> and the section list.
\<close>

fun stream_chunks ::
  "nat \<Rightarrow> jsstring list \<Rightarrow> jsstring \<Rightarrow> BookSection list \<Rightarrow> jsstring \<times> BookSection list" where
  "stream_chunks i [] fullContent secs = (fullContent, secs)"
| "stream_chunks i (chunk # chunks) fullContent secs =
     stream_chunks i chunks (fullContent @ chunk) (set_content i (fullContent @ chunk) secs)"

lemma length_set_status [simp]: "length (set_status i s secs) = length secs"
  by (simp add: set_status_def)

lemma length_set_content [simp]: "length (set_content i c secs) = length secs"
  by (simp add: set_content_def)

lemma length_stream_chunks [simp]:
  "length (snd (stream_chunks i chunks full secs)) = length secs"
  by (induction chunks arbitrary: full secs) simp_all

text \<open>
  The loop of \<open>autoWrite\<close> (lines 517--678) from index \<open>i\<close> on. \<open>gen i prompt\<close> is
  the answer of the generative endpoint to the call made for section \<open>i\<close>. A failure
  (the \<open>catch\<close> of lines 669--677) records the message, sets the section's status to
  \<open>pending\<close> and leaves the loop.
\<close>

function autoWrite_loop ::
  "(nat \<Rightarrow> jsstring \<Rightarrow> stream_reply) \<Rightarrow> AdvancedForm \<Rightarrow> nat \<Rightarrow> jsstring \<Rightarrow> App \<Rightarrow> App" where
  "autoWrite_loop gen form i previousContext st =
     (if i < length (sections st) then
        (let section = sections st ! i;
             st1 = st\<lparr>sections := set_status i Generating (sections st),
                       activeSectionId := Some (sid section)\<rparr>;
             prompt = autoWrite_prompt form (title section) previousContext;
             st2 = st1\<lparr>requests := requests st1 @ [Generate prompt]\<rparr>
         in case gen i prompt of
              Completed chunks \<Rightarrow>
                (let streamed = stream_chunks i chunks [] (sections st2);
                     st3 = st2\<lparr>sections := set_status i Done (snd streamed)\<rparr>
                 in autoWrite_loop gen form (i + 1) (slice_last 500 (fst streamed)) st3)
            | Failed chunks \<Rightarrow>
                (let streamed = stream_chunks i chunks [] (sections st2)
                 in st2\<lparr>globalError := msg_autoWrite_error_1 @ title section,
                        sections := set_status i Pending (snd streamed)\<rparr>))
      else st)"
  by pat_completeness auto
termination
  by (relation "measure (\<lambda>(gen, form, i, previousContext, st). length (sections st) - i)")
     auto

declare autoWrite_loop.simps [simp del]

text \<open>\<open>autoWrite\<close> (lines 503--681).\<close>

definition autoWrite :: "(nat \<Rightarrow> jsstring \<Rightarrow> stream_reply) \<Rightarrow> App \<Rightarrow> App" where
  "autoWrite gen st =
     (if isGeneratingGlobal st then st
      else
        let st0 = st\<lparr>isGeneratingGlobal := True, globalError := []\<rparr>
        in (autoWrite_loop gen (advancedForm st0) 0 [] st0)\<lparr>isGeneratingGlobal := False\<rparr>)"

text \<open>
  The loop of \<open>autoHumanize\<close> (lines 694--741): a section with empty content is passed
  over; a failure records the message and leaves the loop.
\<close>

function autoHumanize_loop ::
  "(nat \<Rightarrow> jsstring \<Rightarrow> stream_reply) \<Rightarrow> AdvancedForm \<Rightarrow> nat \<Rightarrow> App \<Rightarrow> App" where
  "autoHumanize_loop gen form i st =
     (if i < length (sections st) then
        (let section = sections st ! i
         in if content section = [] then autoHumanize_loop gen form (i + 1) st
            else
              (let st1 = st\<lparr>sections := set_status i Humanizing (sections st),
                             activeSectionId := Some (sid section)\<rparr>;
                   prompt = autoHumanize_prompt form (content section);
                   st2 = st1\<lparr>requests := requests st1 @ [Generate prompt]\<rparr>
               in case gen i prompt of
                    Completed chunks \<Rightarrow>
                      (let streamed = stream_chunks i chunks [] (sections st2);
                           st3 = st2\<lparr>sections := set_status i Done (snd streamed)\<rparr>
                       in autoHumanize_loop gen form (i + 1) st3)
                  | Failed chunks \<Rightarrow>
                      (let streamed = stream_chunks i chunks [] (sections st2)
                       in st2\<lparr>globalError := msg_autoHumanize_error_1 @ title section,
                              sections := snd streamed\<rparr>)))
      else st)"
  by pat_completeness auto
termination
  by (relation "measure (\<lambda>(gen, form, i, st). length (sections st) - i)") auto

declare autoHumanize_loop.simps [simp del]

text \<open>\<open>autoHumanize\<close> (lines 684--744).\<close>

definition autoHumanize :: "(nat \<Rightarrow> jsstring \<Rightarrow> stream_reply) \<Rightarrow> App \<Rightarrow> App" where
  "autoHumanize gen st =
     (if isGeneratingGlobal st then st
      else
        let st0 = st\<lparr>isGeneratingGlobal := True\<rparr>
        in (autoHumanize_loop gen (advancedForm st0) 0 st0)\<lparr>isGeneratingGlobal := False\<rparr>)"

text \<open>\<open>this.sections().findIndex(s => s.id === id)\<close>; \<open>None\<close> stands for \<open>-1\<close>.\<close>

fun findIndex :: "('a \<Rightarrow> bool) \<Rightarrow> 'a list \<Rightarrow> nat option" where
  "findIndex P [] = None"
| "findIndex P (x # xs) =
     (if P x then Some 0 else (case findIndex P xs of None \<Rightarrow> None | Some k \<Rightarrow> Some (Suc k)))"

text \<open>\<open>academicReview\<close> (lines 747--808), on the active section.\<close>

definition academicReview :: "(nat \<Rightarrow> jsstring \<Rightarrow> stream_reply) \<Rightarrow> App \<Rightarrow> App" where
  "academicReview gen st =
     (if isGeneratingGlobal st then st
      else
        case findIndex (\<lambda>s. Some (sid s) = activeSectionId st) (sections st) of
          None \<Rightarrow> st
        | Some sectionIndex \<Rightarrow>
            if content (sections st ! sectionIndex) = [] then st
            else
              (let st1 = st\<lparr>isGeneratingGlobal := True, globalError := [],
                             sections := set_status sectionIndex Humanizing (sections st)\<rparr>;
                   prompt = review_prompt (advancedForm st1)
                              (content (sections st1 ! sectionIndex));
                   st2 = st1\<lparr>requests := requests st1 @ [Generate prompt]\<rparr>
               in case gen sectionIndex prompt of
                    Completed chunks \<Rightarrow>
                      (let streamed = stream_chunks sectionIndex chunks [] (sections st2)
                       in st2\<lparr>sections := set_status sectionIndex Done (snd streamed),
                              isGeneratingGlobal := False\<rparr>)
                  | Failed chunks \<Rightarrow>
                      (let streamed = stream_chunks sectionIndex chunks [] (sections st2)
                       in st2\<lparr>sections := snd streamed,
                              globalError := msg_review_error,
                              isGeneratingGlobal := False\<rparr>)))"

text \<open>
  The calls of one run of \<open>autoWrite\<close> over the sections \<open>secs\<close>, as long as every
  earlier call completed: \<open>autoWrite_context \<dots> j\<close> is the value of \<open>previousContext\<close>
  when the loop reaches section \<open>j\<close> (the last 500 code units of the text generated for
  section \<open>j - 1\<close>, line 667), and \<open>autoWrite_reply \<dots> j\<close> is the answer to the call made
  for section \<open>j\<close>.
\<close>

fun autoWrite_context ::
  "(nat \<Rightarrow> jsstring \<Rightarrow> stream_reply) \<Rightarrow> AdvancedForm \<Rightarrow> BookSection list \<Rightarrow> nat \<Rightarrow> jsstring" where
  "autoWrite_context gen form secs 0 = []"
| "autoWrite_context gen form secs (Suc j) =
     (case gen j (autoWrite_prompt form (title (secs ! j)) (autoWrite_context gen form secs j)) of
        Completed chunks \<Rightarrow> slice_last 500 (concat chunks)
      | Failed chunks \<Rightarrow> [])"

definition autoWrite_reply ::
  "(nat \<Rightarrow> jsstring \<Rightarrow> stream_reply) \<Rightarrow> AdvancedForm \<Rightarrow> BookSection list \<Rightarrow> nat \<Rightarrow> stream_reply" where
  "autoWrite_reply gen form secs j =
     gen j (autoWrite_prompt form (title (secs ! j)) (autoWrite_context gen form secs j))"

text \<open>
  The calls \<open>autoHumanize\<close> makes over the sections \<open>secs\<close> when none of them fails:
  one for each section whose content is not empty, in the order of the list.
\<close>

definition humanize_calls :: "AdvancedForm \<Rightarrow> BookSection list \<Rightarrow> request list" where
  "humanize_calls form secs =
     map (\<lambda>s. Generate (autoHumanize_prompt form (content s)))
         (filter (\<lambda>s. content s \<noteq> []) secs)"

section \<open>Export\<close>

text \<open>
  What an export hands to the browser: the name of the file, its media type, and the text
  of the blob (a byte order mark followed by the document).
\<close>

record download =
  file_name :: jsstring
  media_type :: jsstring
  file_text :: jsstring

text \<open>\<open>form.title || 'document'\<close>.\<close>

definition title_or_document :: "AdvancedForm \<Rightarrow> jsstring" where
  "title_or_document form = (if form_title form \<noteq> [] then form_title form else js ''document'')"

text \<open>
  The LaTeX source of \<open>exportLatex\<close> (lines 813--818): the preamble with the title of
  the form, then the loop over the sections, each appending its section line and
  its content, then the closing line.
\<close>

definition latex_source :: "AdvancedForm \<Rightarrow> BookSection list \<Rightarrow> jsstring" where
  "latex_source form secs =
     foldl (\<lambda>latex section.
              latex @ latex_section_1 @ title section @ latex_section_2 @ content section @
              latex_section_3)
           (latex_head_1 @ form_title form @ latex_head_2) secs
     @ latex_end_1"

definition exportLatex :: "App \<Rightarrow> download" where
  "exportLatex st =
     \<lparr>file_name = title_or_document (advancedForm st) @ js ''.tex'',
      media_type = js ''application/x-tex'',
      file_text = 65279 # latex_source (advancedForm st) (sections st)\<rparr>"

text \<open>
  The document of \<open>saveAll\<close> (lines 833--843): the heading with the title of the form,
  then the loop over the sections, each appending its \<open>h2\<close> heading and its content;
  the result is the body of the HTML page.
\<close>

definition doc_body :: "AdvancedForm \<Rightarrow> BookSection list \<Rightarrow> jsstring" where
  "doc_body form secs =
     foldl (\<lambda>content' section.
              content' @ doc_section_1 @ title section @ doc_section_2 @ content section @
              doc_section_3)
           (doc_head_1 @ form_title form @ doc_head_2) secs"

definition doc_source :: "AdvancedForm \<Rightarrow> BookSection list \<Rightarrow> jsstring" where
  "doc_source form secs =
     doc_html_1 @ form_title form @ doc_html_2 @ doc_body form secs @ doc_html_3"

definition saveAll :: "App \<Rightarrow> download" where
  "saveAll st =
     \<lparr>file_name = title_or_document (advancedForm st) @ js ''.doc'',
      media_type = js ''application/msword'',
      file_text = 65279 # doc_source (advancedForm st) (sections st)\<rparr>"

section \<open>From the form to the outline\<close>

text \<open>
  \<open>this.advancedForm.invalid\<close>, from the validators of lines 99--113: the title, topic,
  type and level are required, \<open>pages\<close> is at least \<open>1\<close>, and \<open>temperature\<close> lies
  between \<open>0\<close> and \<open>1\<close>.
\<close>

definition form_invalid :: "AdvancedForm \<Rightarrow> bool" where
  "form_invalid form \<longleftrightarrow>
     form_title form = [] \<or> topic form = [] \<or> writing_type form = [] \<or> level form = [] \<or>
     pages form < 1 \<or> temperature form < 0 \<or> temperature form > 1"

text \<open>
  \<open>lines.map((title, index) => ({id: index + 1, title, content: '', status: 'pending'}))\<close>
  (lines 400--405 and 438--443), with the function that makes the title from the line.
\<close>

definition outline_sections :: "(jsstring \<Rightarrow> jsstring) \<Rightarrow> jsstring list \<Rightarrow> BookSection list" where
  "outline_sections mk lines =
     map (\<lambda>(index, line). \<lparr>sid = int index + 1, title = mk line, content = [],
                            status = Pending\<rparr>)
         (enumerate 0 lines)"

text \<open>
  The fallback of lines 446--450: sections \<open>1\<close> to \<open>Math.max(3, Math.ceil(pages / 5))\<close>,
  each titled with the placeholder text and its number.
\<close>

definition fallback_count :: "rat \<Rightarrow> int" where
  "fallback_count p = max 3 \<lceil>p / 5\<rceil>"

definition fallback_section :: "int \<Rightarrow> BookSection" where
  "fallback_section i =
     \<lparr>sid = i, title = placeholder_text_1 @ nat_digits (nat i), content = [],
      status = Pending\<rparr>"

definition fallback_sections :: "rat \<Rightarrow> BookSection list" where
  "fallback_sections p = map fallback_section [1..fallback_count p]"

text \<open>
  \<open>sendToWindow2\<close> (lines 384--461). \<open>generateContent prompt\<close> is the answer of the
  generative endpoint. Reading \<open>newSections[0].id\<close> of an empty list throws, after the
  sections have been set; the \<open>catch\<close> then records the message.
\<close>

definition sendToWindow2 :: "(jsstring \<Rightarrow> content_reply) \<Rightarrow> App \<Rightarrow> App" where
  "sendToWindow2 generateContent st =
     (if form_invalid (advancedForm st) then st\<lparr>globalError := msg_form_invalid\<rparr>
      else
        let st1 = st\<lparr>globalError := [], isGeneratingGlobal := True\<rparr>;
            form = advancedForm st1;
            customSections =
              outline_sections (\<lambda>l. l)
                (filter (\<lambda>l. length l > 0) (map trim (js_split 10 (customOutline form))))
        in if flag form ''useCustomOutline'' \<and> trim (customOutline form) \<noteq> [] \<and>
              length customSections > 0
           then st1\<lparr>sections := customSections,
                    activeSectionId := Some (sid (hd customSections)),
                    writingWindow := 2,
                    isGeneratingGlobal := False\<rparr>
           else
             let prompt = outline_prompt form;
                 st2 = st1\<lparr>requests := requests st1 @ [Generate prompt]\<rparr>
             in case generateContent prompt of
                  Rejected \<Rightarrow>
                    st2\<lparr>globalError := msg_outline_error, isGeneratingGlobal := False\<rparr>
                | Response text \<Rightarrow>
                    (let outlineText = (case text of None \<Rightarrow> [] | Some t \<Rightarrow> t);
                         lines = filter (\<lambda>l. length (trim l) > 0) (js_split 10 outlineText);
                         parsed = outline_sections (\<lambda>l. trim (strip_numbering l)) lines;
                         newSections =
                           (if length parsed = 0 then fallback_sections (pages form)
                            else parsed)
                     in case newSections of
                          [] \<Rightarrow>
                            st2\<lparr>sections := newSections, globalError := msg_outline_error,
                                isGeneratingGlobal := False\<rparr>
                        | s # _ \<Rightarrow>
                            st2\<lparr>sections := newSections,
                                activeSectionId := Some (sid s),
                                writingWindow := 2,
                                isGeneratingGlobal := False\<rparr>))"

section \<open>JSON\<close>

text \<open>
  The values \<open>JSON.parse\<close> returns and \<open>JSON.stringify\<close> takes, with the numbers
  restricted to integers (the identifiers of sections are the only numbers that are
  stored). An object is the list of its properties in their order.
\<close>

datatype json =
    JNull
  | JBool bool
  | JNumber int
  | JString jsstring
  | JArray "json list"
  | JObject "(jsstring \<times> json) list"

text \<open>
  \<open>JSON.stringify\<close> (ECMAScript, SerializeJSONProperty and QuoteJSONString). In a string
  the quote, the backslash and the control characters are escaped, the named escapes
  first and \<open>\uXXXX\<close> with lower-case digits otherwise; a surrogate that is not half of a
  pair is escaped too, a pair is copied.
\<close>

definition hex_digit :: "nat \<Rightarrow> nat" where
  "hex_digit d = (if d < 10 then 48 + d else 87 + d)"

definition unicode_escape :: "nat \<Rightarrow> jsstring" where
  "unicode_escape c =
     [92, 117, hex_digit (c div 4096 mod 16), hex_digit (c div 256 mod 16),
      hex_digit (c div 16 mod 16), hex_digit (c mod 16)]"

definition is_high_surrogate :: "nat \<Rightarrow> bool" where
  "is_high_surrogate c \<longleftrightarrow> 55296 \<le> c \<and> c \<le> 56319"

definition is_low_surrogate :: "nat \<Rightarrow> bool" where
  "is_low_surrogate c \<longleftrightarrow> 56320 \<le> c \<and> c \<le> 57343"

definition quote_unit :: "nat \<Rightarrow> jsstring" where
  "quote_unit c =
     (if c = 8 then [92, 98]
      else if c = 9 then [92, 116]
      else if c = 10 then [92, 110]
      else if c = 12 then [92, 102]
      else if c = 13 then [92, 114]
      else if c = 34 then [92, 34]
      else if c = 92 then [92, 92]
      else if c < 32 \<or> is_high_surrogate c \<or> is_low_surrogate c then unicode_escape c
      else [c])"

fun quote_units :: "jsstring \<Rightarrow> jsstring" where
  "quote_units [] = []"
| "quote_units [c] = quote_unit c"
| "quote_units (c # d # cs) =
     (if is_high_surrogate c \<and> is_low_surrogate d then c # d # quote_units cs
      else quote_unit c @ quote_units (d # cs))"

definition QuoteJSONString :: "jsstring \<Rightarrow> jsstring" where
  "QuoteJSONString s = 34 # quote_units s @ [34]"

definition int_text :: "int \<Rightarrow> jsstring" where
  "int_text i = (if i < 0 then 45 # nat_digits (nat (- i)) else nat_digits (nat i))"

fun JSON_stringify :: "json \<Rightarrow> jsstring"
and stringify_elements :: "json list \<Rightarrow> jsstring"
and stringify_members :: "(jsstring \<times> json) list \<Rightarrow> jsstring" where
  "JSON_stringify JNull = js ''null''"
| "JSON_stringify (JBool b) = (if b then js ''true'' else js ''false'')"
| "JSON_stringify (JNumber i) = int_text i"
| "JSON_stringify (JString s) = QuoteJSONString s"
| "JSON_stringify (JArray xs) = 91 # stringify_elements xs @ [93]"
| "JSON_stringify (JObject kvs) = 123 # stringify_members kvs @ [125]"
| "stringify_elements [] = []"
| "stringify_elements [x] = JSON_stringify x"
| "stringify_elements (x # y # ys) = JSON_stringify x @ 44 # stringify_elements (y # ys)"
| "stringify_members [] = []"
| "stringify_members [(k, v)] = QuoteJSONString k @ 58 # JSON_stringify v"
| "stringify_members ((k, v) # m # ms) =
     QuoteJSONString k @ 58 # JSON_stringify v @ 44 # stringify_members (m # ms)"

text \<open>
  \<open>JSON.parse\<close> (ECMAScript, the JSON grammar): white space between tokens, strings
  with their escapes, integers, the three literals, arrays and objects. A number with a
  fraction or an exponent is outside \<open>json\<close>, and parsing it gives \<open>None\<close>, as a
  syntax error does.
\<close>

definition is_json_space :: "nat \<Rightarrow> bool" where
  "is_json_space c \<longleftrightarrow> c = 9 \<or> c = 10 \<or> c = 13 \<or> c = 32"

definition skip_ws :: "jsstring \<Rightarrow> jsstring" where
  "skip_ws s = dropWhile is_json_space s"

definition hex_value :: "nat \<Rightarrow> nat option" where
  "hex_value c =
     (if 48 \<le> c \<and> c \<le> 57 then Some (c - 48)
      else if 97 \<le> c \<and> c \<le> 102 then Some (c - 87)
      else if 65 \<le> c \<and> c \<le> 70 then Some (c - 55)
      else None)"

definition unescape :: "nat \<Rightarrow> nat option" where
  "unescape e =
     (if e = 34 then Some 34
      else if e = 92 then Some 92
      else if e = 47 then Some 47
      else if e = 98 then Some 8
      else if e = 102 then Some 12
      else if e = 110 then Some 10
      else if e = 114 then Some 13
      else if e = 116 then Some 9
      else None)"

fun parse_chars :: "jsstring \<Rightarrow> jsstring \<Rightarrow> (jsstring \<times> jsstring) option" where
  "parse_chars [] acc = None"
| "parse_chars (c # cs) acc =
     (if c = 34 then Some (acc, cs)
      else if c = 92 then
        (case cs of
           [] \<Rightarrow> None
         | e # rest \<Rightarrow>
             if e = 117 then
               (case rest of
                  h1 # h2 # h3 # h4 # rest' \<Rightarrow>
                    (case (hex_value h1, hex_value h2, hex_value h3, hex_value h4) of
                       (Some a, Some b, Some c', Some d) \<Rightarrow>
                         parse_chars rest' (acc @ [4096 * a + 256 * b + 16 * c' + d])
                     | _ \<Rightarrow> None)
                | _ \<Rightarrow> None)
             else
               (case unescape e of
                  None \<Rightarrow> None
                | Some u \<Rightarrow> parse_chars rest (acc @ [u])))
      else if c < 32 then None
      else parse_chars cs (acc @ [c]))"

definition digits_value :: "jsstring \<Rightarrow> nat" where
  "digits_value ds = foldl (\<lambda>a d. 10 * a + (d - 48)) 0 ds"

definition parse_number :: "jsstring \<Rightarrow> (int \<times> jsstring) option" where
  "parse_number s =
     (let negative = (s \<noteq> [] \<and> hd s = 45);
          s1 = (if negative then tl s else s);
          ds = takeWhile is_digit s1;
          rest = dropWhile is_digit s1
      in if ds = [] then None
         else if length ds > 1 \<and> hd ds = 48 then None
         else if rest \<noteq> [] \<and> (hd rest = 46 \<or> hd rest = 101 \<or> hd rest = 69) then None
         else Some (if negative then - int (digits_value ds) else int (digits_value ds), rest))"

definition parse_literal :: "jsstring \<Rightarrow> json \<Rightarrow> jsstring \<Rightarrow> (json \<times> jsstring) option" where
  "parse_literal word v s =
     (if take (length word) s = word then Some (v, drop (length word) s) else None)"

text \<open>The elements of an array after its first bracket, up to the closing bracket.\<close>

primrec parse_elements ::
  "(jsstring \<Rightarrow> (json \<times> jsstring) option) \<Rightarrow> nat \<Rightarrow> jsstring \<Rightarrow> json list \<Rightarrow>
   (json list \<times> jsstring) option" where
  "parse_elements pv 0 s acc = None"
| "parse_elements pv (Suc n) s acc =
     (case pv s of
        None \<Rightarrow> None
      | Some (v, rest) \<Rightarrow>
          (case skip_ws rest of
             [] \<Rightarrow> None
           | c # rest' \<Rightarrow>
               if c = 44 then parse_elements pv n rest' (acc @ [v])
               else if c = 93 then Some (acc @ [v], rest')
               else None))"

text \<open>The properties of an object after its first brace, up to the closing brace.\<close>

primrec parse_members ::
  "(jsstring \<Rightarrow> (json \<times> jsstring) option) \<Rightarrow> nat \<Rightarrow> jsstring \<Rightarrow> (jsstring \<times> json) list \<Rightarrow>
   ((jsstring \<times> json) list \<times> jsstring) option" where
  "parse_members pv 0 s acc = None"
| "parse_members pv (Suc n) s acc =
     (case skip_ws s of
        [] \<Rightarrow> None
      | q # cs \<Rightarrow>
          if q \<noteq> 34 then None
          else
            (case parse_chars cs [] of
               None \<Rightarrow> None
             | Some (k, rest) \<Rightarrow>
                 (case skip_ws rest of
                    [] \<Rightarrow> None
                  | colon # rest1 \<Rightarrow>
                      if colon \<noteq> 58 then None
                      else
                        (case pv rest1 of
                           None \<Rightarrow> None
                         | Some (v, rest2) \<Rightarrow>
                             (case skip_ws rest2 of
                                [] \<Rightarrow> None
                              | c # rest3 \<Rightarrow>
                                  if c = 44 then parse_members pv n rest3 (acc @ [(k, v)])
                                  else if c = 125 then Some (acc @ [(k, v)], rest3)
                                  else None)))))"

text \<open>
  A value. The first argument bounds the depth of nesting and the number of elements of
  an array or object; \<open>JSON_parse\<close> starts with more than the length of the text, which
  no text can use up.
\<close>

primrec parse_value :: "nat \<Rightarrow> jsstring \<Rightarrow> (json \<times> jsstring) option" where
  "parse_value 0 s = None"
| "parse_value (Suc n) s =
     (case skip_ws s of
        [] \<Rightarrow> None
      | c # cs \<Rightarrow>
          if c = 34 then
            (case parse_chars cs [] of
               None \<Rightarrow> None
             | Some (str, rest) \<Rightarrow> Some (JString str, rest))
          else if c = 91 then
            (if skip_ws cs \<noteq> [] \<and> hd (skip_ws cs) = 93 then Some (JArray [], tl (skip_ws cs))
             else (case parse_elements (parse_value n) n cs [] of
                     None \<Rightarrow> None
                   | Some (xs, rest) \<Rightarrow> Some (JArray xs, rest)))
          else if c = 123 then
            (if skip_ws cs \<noteq> [] \<and> hd (skip_ws cs) = 125 then Some (JObject [], tl (skip_ws cs))
             else (case parse_members (parse_value n) n cs [] of
                     None \<Rightarrow> None
                   | Some (kvs, rest) \<Rightarrow> Some (JObject kvs, rest)))
          else if c = 110 then parse_literal (js ''null'') JNull (c # cs)
          else if c = 116 then parse_literal (js ''true'') (JBool True) (c # cs)
          else if c = 102 then parse_literal (js ''false'') (JBool False) (c # cs)
          else if c = 45 \<or> is_digit c then
            (case parse_number (c # cs) of
               None \<Rightarrow> None
             | Some (i, rest) \<Rightarrow> Some (JNumber i, rest))
          else None)"

definition JSON_parse :: "jsstring \<Rightarrow> json option" where
  "JSON_parse s =
     (case parse_value (Suc (length s)) s of
        None \<Rightarrow> None
      | Some (v, rest) \<Rightarrow> if skip_ws rest = [] then Some v else None)"

text \<open>
  For the proof that parsing undoes serialising: the text after a serialised value starts
  with a comma or a closing bracket or brace, or is empty; a serialised value starts with
  none of these and with no white space; and the bound a value needs to be parsed.
\<close>

definition delimited :: "jsstring \<Rightarrow> bool" where
  "delimited rest \<longleftrightarrow> rest = [] \<or> hd rest = 44 \<or> hd rest = 93 \<or> hd rest = 125"

definition starts_value :: "nat \<Rightarrow> bool" where
  "starts_value c \<longleftrightarrow>
     c = 34 \<or> c = 91 \<or> c = 123 \<or> c = 110 \<or> c = 116 \<or> c = 102 \<or> c = 45 \<or> is_digit c"

fun weight :: "json \<Rightarrow> nat" where
  "weight (JArray xs) = Suc (sum_list (map weight xs))"
| "weight (JObject kvs) = Suc (sum_list (map (\<lambda>kv. weight (snd kv)) kvs))"
| "weight v = 1"

section \<open>Persistence\<close>

text \<open>
  A section list as the JSON value it is: an array of objects with the properties
  \<open>id\<close>, \<open>title\<close>, \<open>content\<close> and \<open>status\<close>, in the order in which the application
  writes them (lines 400--405, 438--443, 448 and 470).
\<close>

definition status_text :: "Status \<Rightarrow> jsstring" where
  "status_text s =
     (case s of Pending \<Rightarrow> js ''pending'' | Generating \<Rightarrow> js ''generating''
              | Done \<Rightarrow> js ''done'' | Humanizing \<Rightarrow> js ''humanizing'')"

definition json_of_section :: "BookSection \<Rightarrow> json" where
  "json_of_section s =
     JObject [(js ''id'', JNumber (sid s)), (js ''title'', JString (title s)),
              (js ''content'', JString (content s)),
              (js ''status'', JString (status_text (status s)))]"

definition json_of_sections :: "BookSection list \<Rightarrow> json" where
  "json_of_sections secs = JArray (map json_of_section secs)"

text \<open>
  Reading a JSON value as a section list. TypeScript does not check the cast of
  \<open>JSON.parse(doc.content)\<close> to a section list; the model has typed sections, so a value
  that is not an array of objects with an integer \<open>id\<close>, strings \<open>title\<close> and
  \<open>content\<close> and one of the four statuses has no reading. A property that occurs twice
  has its last value, and other properties are dropped.
\<close>

definition status_of_text :: "jsstring \<Rightarrow> Status option" where
  "status_of_text t =
     (if t = js ''pending'' then Some Pending
      else if t = js ''generating'' then Some Generating
      else if t = js ''done'' then Some Done
      else if t = js ''humanizing'' then Some Humanizing
      else None)"

definition property :: "jsstring \<Rightarrow> (jsstring \<times> json) list \<Rightarrow> json option" where
  "property k kvs = map_of (rev kvs) k"

definition section_of_json :: "json \<Rightarrow> BookSection option" where
  "section_of_json v =
     (case v of
        JObject kvs \<Rightarrow>
          (case (property (js ''id'') kvs, property (js ''title'') kvs,
                 property (js ''content'') kvs, property (js ''status'') kvs) of
             (Some (JNumber i), Some (JString t), Some (JString c), Some (JString s)) \<Rightarrow>
               (case status_of_text s of
                  None \<Rightarrow> None
                | Some st \<Rightarrow> Some \<lparr>sid = i, title = t, content = c, status = st\<rparr>)
           | _ \<Rightarrow> None)
      | _ \<Rightarrow> None)"

definition sections_of_json :: "json \<Rightarrow> BookSection list option" where
  "sections_of_json v =
     (case v of JArray xs \<Rightarrow> those (map section_of_json xs) | _ \<Rightarrow> None)"

text \<open>
  The answers of the record store: to an insert, success or an error (with its message
  when the error is an \<open>Error\<close>); to a select, the rows (which may be \<open>null\<close>) or an
  error; to a delete, success or an error. A call that throws is an error as well.
\<close>

datatype insert_reply = Inserted | InsertFailed "jsstring option"

datatype select_reply = Selected "SavedDocument list option" | SelectFailed

datatype delete_reply = Deleted | DeleteFailed

text \<open>
  \<open>loadDocuments\<close> (lines 333--346). \<open>getDocuments\<close> is the answer of the record store
  to \<open>this.supabaseService.getDocuments()\<close>, the select of all rows.
\<close>

definition loadDocuments :: "select_reply \<Rightarrow> App \<Rightarrow> App" where
  "loadDocuments getDocuments st =
     (let st1 = st\<lparr>isLoadingDocs := True, globalError := []\<rparr>;
          st2 = st1\<lparr>requests := requests st1 @ [Select]\<rparr>
      in case getDocuments of
           Selected data \<Rightarrow>
             st2\<lparr>savedDocuments := (case data of None \<Rightarrow> [] | Some rows \<Rightarrow> rows),
                 isLoadingDocs := False\<rparr>
         | SelectFailed \<Rightarrow>
             st2\<lparr>globalError := msg_loadDocuments_error, isLoadingDocs := False\<rparr>)"

text \<open>\<open>setView\<close> (lines 324--331).\<close>

definition setView :: "AppView \<Rightarrow> select_reply \<Rightarrow> App \<Rightarrow> App" where
  "setView view' getDocuments st =
     (let st1 = st\<lparr>currentView := view'\<rparr>
      in if view' = Writing then st1\<lparr>writingWindow := 1\<rparr>
         else if view' = Library then loadDocuments getDocuments st1
         else st1)"

text \<open>
  \<open>documentData\<close> of \<open>saveToSupabase\<close> (lines 862--870); \<open>now\<close> is
  \<open>new Date().toISOString()\<close>.
\<close>

definition documentData :: "App \<Rightarrow> jsstring \<Rightarrow> DocumentData" where
  "documentData st now =
     \<lparr>doc_title = form_title (advancedForm st), doc_topic = topic (advancedForm st),
      doc_type = writing_type (advancedForm st), doc_level = level (advancedForm st),
      doc_content = JSON_stringify (json_of_sections (sections st)),
      created_at = now\<rparr>"

text \<open>
  \<open>saveToSupabase\<close> (lines 856--892). After a successful insert made from the library
  view the documents are loaded again; that call is not awaited, and its effects are
  placed here before the \<open>finally\<close>, which touches another field.
\<close>

definition saveToSupabase ::
  "(DocumentData \<Rightarrow> insert_reply) \<Rightarrow> select_reply \<Rightarrow> jsstring \<Rightarrow> App \<Rightarrow> App" where
  "saveToSupabase insert' getDocuments now st =
     (if isGeneratingGlobal st then st
      else
        let st1 = st\<lparr>isGeneratingGlobal := True, globalError := []\<rparr>;
            st2 = st1\<lparr>requests := requests st1 @ [Insert (documentData st1 now)]\<rparr>
        in case insert' (documentData st1 now) of
             Inserted \<Rightarrow>
               (if currentView st2 = Library then loadDocuments getDocuments st2 else st2)
                 \<lparr>isGeneratingGlobal := False\<rparr>
           | InsertFailed message \<Rightarrow>
               st2\<lparr>globalError := msg_save_error @
                                    (case message of None \<Rightarrow> msg_save_unknown | Some m \<Rightarrow> m),
                   isGeneratingGlobal := False\<rparr>)"

text \<open>
  \<open>readDocument\<close> (lines 348--364): the stored content is parsed and becomes the section
  list, the four stored fields are patched into the form, the first section becomes the
  active one, and \<open>setView('writing')\<close> shows the first writing window. Content that does
  not parse, or that has no reading as a section list, gives the error message.
\<close>

definition readDocument :: "SavedDocument \<Rightarrow> App \<Rightarrow> App" where
  "readDocument doc st =
     (case JSON_parse (doc_content doc) of
        None \<Rightarrow> st\<lparr>globalError := msg_readDocument_error\<rparr>
      | Some v \<Rightarrow>
          (case sections_of_json v of
             None \<Rightarrow> st\<lparr>globalError := msg_readDocument_error\<rparr>
           | Some parsedSections \<Rightarrow>
               st\<lparr>sections := parsedSections,
                   advancedForm := (advancedForm st)
                     \<lparr>form_title := doc_title doc, topic := doc_topic doc,
                      writing_type := doc_type doc, level := doc_level doc\<rparr>,
                   activeSectionId := first_id_or_null parsedSections,
                   currentView := Writing,
                   writingWindow := 1\<rparr>))"

text \<open>
  \<open>deleteDocument\<close> (lines 366--381); \<open>confirmed\<close> is the user's answer to the
  confirmation dialog.
\<close>

definition deleteDocument :: "int \<Rightarrow> bool \<Rightarrow> delete_reply \<Rightarrow> App \<Rightarrow> App" where
  "deleteDocument i confirmed reply st =
     (if \<not> confirmed then st
      else
        let st1 = st\<lparr>globalError := []\<rparr>;
            st2 = st1\<lparr>requests := requests st1 @ [Delete i]\<rparr>
        in case reply of
             Deleted \<Rightarrow>
               st2\<lparr>savedDocuments := filter (\<lambda>d. doc_id d \<noteq> i) (savedDocuments st2)\<rparr>
           | DeleteFailed \<Rightarrow> st2\<lparr>globalError := msg_deleteDocument_error\<rparr>)"

section \<open>Automatic selection of features\<close>

text \<open>
  The strings of a JSON array (what \<open>selectedKeys.forEach\<close> visits and can match with
  the name of a control); \<open>None\<close> for a value that is not an array, on which
  \<open>forEach\<close> throws.
\<close>

fun string_elements :: "json list \<Rightarrow> jsstring list" where
  "string_elements [] = []"
| "string_elements (JString s # xs) = s # string_elements xs"
| "string_elements (x # xs) = string_elements xs"

definition selected_keys :: "json \<Rightarrow> jsstring list option" where
  "selected_keys v = (case v of JArray xs \<Rightarrow> Some (string_elements xs) | _ \<Rightarrow> None)"

text \<open>
  \<open>autoSelectFeatures\<close> (lines 234--287). The check boxes of the group are cleared,
  then those the model names are set; a name that is not a check box of the form is
  passed over. The clearing happens before \<open>forEach\<close> can throw on a value that is not
  an array.
\<close>

definition autoSelectFeatures ::
  "string \<Rightarrow> string list \<Rightarrow> (jsstring \<Rightarrow> content_reply) \<Rightarrow> App \<Rightarrow> App" where
  "autoSelectFeatures groupName groupKeys generateContent st =
     (if form_title (advancedForm st) = [] then st\<lparr>globalError := msg_autoSelect_noTitle\<rparr>
      else
        let st1 = st\<lparr>isAutoSelecting := Some groupName, globalError := []\<rparr>;
            form = advancedForm st1;
            prompt = autoSelect_prompt form groupKeys;
            st2 = st1\<lparr>requests := requests st1 @ [Generate prompt]\<rparr>;
            failed = st2\<lparr>globalError := msg_autoSelect_error, isAutoSelecting := None\<rparr>
        in case generateContent prompt of
             Rejected \<Rightarrow> failed
           | Response text \<Rightarrow>
               (case JSON_parse (case text of None \<Rightarrow> js ''[]''
                                            | Some t \<Rightarrow> if t = [] then js ''[]'' else t) of
                  None \<Rightarrow> failed
                | Some v \<Rightarrow>
                    (let cleared = (\<lambda>k. if k \<in> set groupKeys \<and> k \<in> set checkbox_names
                                         then False else flag form k)
                     in case selected_keys v of
                          None \<Rightarrow> failed\<lparr>advancedForm := form\<lparr>flag := cleared\<rparr>\<rparr>
                        | Some selectedKeys \<Rightarrow>
                            st2\<lparr>advancedForm := form
                                  \<lparr>flag := (\<lambda>k. if js k \<in> set selectedKeys \<and>
                                                     k \<in> set checkbox_names
                                                  then True else cleared k)\<rparr>,
                                isAutoSelecting := None\<rparr>)))"

section \<open>The states of a session\<close>

text \<open>
  The states the application can reach: it starts with an empty cache or with the cache
  an earlier session left; the effect that saves the draft may run at any time; every
  operation may be applied with any argument and any answer of the endpoint or the record
  store. The documents that are read back are documents the application saved: the
  content of the row is the content \<open>saveToSupabase\<close> wrote from some state of a session.
\<close>

inductive reachable :: "App \<Rightarrow> bool" where
  startI: "reachable (ngOnInit (initial_app None))"
| restartI: "reachable st \<Longrightarrow> reachable (ngOnInit (initial_app (localStorage st)))"
| effectI: "reachable st \<Longrightarrow> reachable (autosave_effect st)"
| sendToWindow2I: "reachable st \<Longrightarrow> reachable (sendToWindow2 generateContent st)"
| addNewSectionI: "reachable st \<Longrightarrow> reachable (addNewSection st)"
| removeSectionI: "reachable st \<Longrightarrow> reachable (removeSection i confirmed st)"
| updateSectionTitleI: "reachable st \<Longrightarrow> reachable (updateSectionTitle i newTitle st)"
| viewSectionI: "reachable st \<Longrightarrow> reachable (viewSection i st)"
| clearSectionsI: "reachable st \<Longrightarrow> reachable (clearSections st)"
| autoWriteI: "reachable st \<Longrightarrow> reachable (autoWrite gen st)"
| autoHumanizeI: "reachable st \<Longrightarrow> reachable (autoHumanize gen st)"
| academicReviewI: "reachable st \<Longrightarrow> reachable (academicReview gen st)"
| autoSelectFeaturesI:
    "reachable st \<Longrightarrow> reachable (autoSelectFeatures groupName groupKeys generateContent st)"
| saveToSupabaseI: "reachable st \<Longrightarrow> reachable (saveToSupabase insert' getDocuments now st)"
| loadDocumentsI: "reachable st \<Longrightarrow> reachable (loadDocuments getDocuments st)"
| setViewI: "reachable st \<Longrightarrow> reachable (setView view' getDocuments st)"
| deleteDocumentI: "reachable st \<Longrightarrow> reachable (deleteDocument i confirmed reply st)"
| readDocumentI:
    "reachable st \<Longrightarrow> reachable st0 \<Longrightarrow>
     doc_content doc = doc_content (documentData st0 now) \<Longrightarrow>
     reachable (readDocument doc st)"

text \<open>The sections the local cache holds, and the invariant of a session.\<close>

fun cached_sections :: "autosave option \<Rightarrow> BookSection list" where
  "cached_sections None = []"
| "cached_sections (Some (Snapshot secs form)) = secs"
| "cached_sections (Some (SectionArray secs)) = secs"

definition ids_distinct :: "App \<Rightarrow> bool" where
  "ids_distinct st \<longleftrightarrow>
     distinct (map sid (sections st)) \<and> distinct (map sid (cached_sections (localStorage st)))"

section \<open>Example inputs\<close>

text \<open>A draft of three sections, and an endpoint that fails on the second of them.\<close>

definition example_sections :: "BookSection list" where
  "example_sections =
     [\<lparr>sid = 1, title = js ''Introduction'', content = [], status = Pending\<rparr>,
      \<lparr>sid = 2, title = js ''Method'', content = [], status = Pending\<rparr>,
      \<lparr>sid = 3, title = js ''Results'', content = js ''Old text'', status = Done\<rparr>]"

definition example_form :: AdvancedForm where
  "example_form = default_form\<lparr>form_title := js ''Water''\<rparr>"

definition example_app :: App where
  "example_app =
     (initial_app None)\<lparr>advancedForm := example_form, sections := example_sections,
                         activeSectionId := Some 1, writingWindow := 2,
                         currentView := Writing\<rparr>"

definition failing_gen :: "nat \<Rightarrow> jsstring \<Rightarrow> stream_reply" where
  "failing_gen i prompt =
     (if i = 1 then Failed [js ''Meth''] else Completed [js ''Hello'', js '' world''])"

text \<open>An endpoint that completes every call, in two chunks.\<close>

definition completing_gen :: "nat \<Rightarrow> jsstring \<Rightarrow> stream_reply" where
  "completing_gen i prompt = Completed [js ''Hello'', js '' world'']"

text \<open>
  The example draft after an edit of every section's content and status, with an error
  message left on the screen.
\<close>

definition edited_app :: App where
  "edited_app =
     example_app\<lparr>sections := map (\<lambda>s. s\<lparr>content := js ''Edited'', status := Humanizing\<rparr>)
                                  (sections example_app),
                 globalError := js ''Earlier error'',
                 activeSectionId := Some 3\<rparr>"

text \<open>An endpoint whose outline holds blank lines only.\<close>

definition blank_outline :: "jsstring \<Rightarrow> content_reply" where
  "blank_outline prompt = Response (Some ([32, 32, 10, 9, 10]))"

text \<open>The example draft with a form that asks for 27 pages.\<close>

definition long_app :: App where
  "long_app = example_app\<lparr>advancedForm := example_form\<lparr>pages := 27\<rparr>\<rparr>"

text \<open>
  A session: two sections are added, the first is removed, and a section is added again.
\<close>

definition session_app :: App where
  "session_app =
     addNewSection (removeSection 1 True
       (addNewSection (addNewSection (ngOnInit (initial_app None)))))"

text \<open>The example draft after the auto-save effect has run.\<close>

definition saved_app :: App where
  "saved_app = autosave_effect example_app"

text \<open>
  Two sessions of the same browser: the first starts with an empty cache and adds one
  section, the second starts from the cache that the first one left.
\<close>

definition first_session :: App where
  "first_session = autosave_effect (addNewSection (ngOnInit (initial_app None)))"

definition second_session :: App where
  "second_session = ngOnInit (initial_app (localStorage first_session))"


section \<open>Parsing undoes serialising\<close>

lemma hex_value_digit: "d < 16 \<Longrightarrow> hex_value (hex_digit d) = Some d"
  by (auto simp add: hex_value_def hex_digit_def)

lemma hex4:
  "c < 65536 \<Longrightarrow>
   4096 * (c div 4096 mod 16) + 256 * (c div 256 mod 16) + 16 * (c div 16 mod 16) + c mod 16
     = (c::nat)"
proof -
  assume c: "c < 65536"
  have a: "c mod 256 = 16 * (c div 16 mod 16) + c mod 16"
    using mod_mult2_eq [of c 16 16] by simp
  have b: "c mod 4096 = 256 * (c div 256 mod 16) + c mod 256"
    using mod_mult2_eq [of c 256 16] by simp
  have d: "c mod 65536 = 4096 * (c div 4096 mod 16) + c mod 4096"
    using mod_mult2_eq [of c 4096 16] by simp
  from a b d c show ?thesis by simp
qed

lemma parse_chars_unicode:
  assumes "c < 65536"
  shows "parse_chars (unicode_escape c @ s) acc = parse_chars s (acc @ [c])"
  using hex4 [OF assms] assms
  by (simp add: unicode_escape_def hex_value_digit)

lemma parse_chars_quote_unit:
  "parse_chars (quote_unit c @ s) acc = parse_chars s (acc @ [c])"
proof (cases "c < 32 \<or> is_high_surrogate c \<or> is_low_surrogate c")
  case True
  then have "c < 65536" by (auto simp add: is_high_surrogate_def is_low_surrogate_def)
  then have u: "parse_chars (unicode_escape c @ s) acc = parse_chars s (acc @ [c])"
    by (rule parse_chars_unicode)
  from True show ?thesis
    by (auto simp add: quote_unit_def u unescape_def is_high_surrogate_def is_low_surrogate_def)
next
  case False
  then show ?thesis
    by (auto simp add: quote_unit_def unescape_def)
qed

lemma parse_chars_quote_units:
  "parse_chars (quote_units s @ 34 # rest) acc = Some (acc @ s, rest)"
proof (induction s arbitrary: acc rule: quote_units.induct)
  case 1
  show ?case by simp
next
  case (2 c)
  show ?case using parse_chars_quote_unit [of c "34 # rest" acc] by simp
next
  case (3 c d cs)
  show ?case
  proof (cases "is_high_surrogate c \<and> is_low_surrogate d")
    case True
    then have c: "c \<noteq> 34" "c \<noteq> 92" "\<not> c < 32" and d: "d \<noteq> 34" "d \<noteq> 92" "\<not> d < 32"
      by (auto simp add: is_high_surrogate_def is_low_surrogate_def)
    have q: "quote_units (c # d # cs) = c # d # quote_units cs" using True by simp
    have "parse_chars (quote_units (c # d # cs) @ 34 # rest) acc =
          parse_chars (quote_units cs @ 34 # rest) ((acc @ [c]) @ [d])"
      unfolding q using c d by simp
    also have "\<dots> = Some (((acc @ [c]) @ [d]) @ cs, rest)"
      using "3.IH"(1) [OF True] .
    finally show ?thesis by simp
  next
    case False
    have q: "quote_units (c # d # cs) = quote_unit c @ quote_units (d # cs)"
      using False by auto
    have "parse_chars (quote_units (c # d # cs) @ 34 # rest) acc =
          parse_chars (quote_units (d # cs) @ 34 # rest) (acc @ [c])"
      unfolding q using parse_chars_quote_unit [of c "quote_units (d # cs) @ 34 # rest" acc]
      by (simp only: append_assoc)
    also have "\<dots> = Some ((acc @ [c]) @ d # cs, rest)"
      using "3.IH"(2) [OF False] .
    finally show ?thesis by simp
  qed
qed

lemma parse_chars_QuoteJSONString:
  "QuoteJSONString s @ rest = 34 # quote_units s @ 34 # rest"
  by (simp add: QuoteJSONString_def)


lemma nat_digits_all: "\<forall>c \<in> set (nat_digits n). is_digit c"
proof (induction n rule: nat_digits.induct)
  case (1 n)
  show ?case
  proof (cases "n < 10")
    case True
    then show ?thesis by (subst nat_digits.simps) (simp add: is_digit_def)
  next
    case False
    have "n mod 10 < 10" by simp
    then have "is_digit (48 + n mod 10)" unfolding is_digit_def by linarith
    with False "1.IH" show ?thesis by (subst nat_digits.simps) simp
  qed
qed

lemma nat_digits_ne: "nat_digits n \<noteq> []"
  by (subst nat_digits.simps) simp

lemma digits_value_snoc: "digits_value (ds @ [d]) = 10 * digits_value ds + (d - 48)"
  by (simp add: digits_value_def)

lemma digits_value_nat_digits: "digits_value (nat_digits n) = n"
proof (induction n rule: nat_digits.induct)
  case (1 n)
  show ?case
  proof (cases "n < 10")
    case True
    then show ?thesis by (subst nat_digits.simps) (simp add: digits_value_def)
  next
    case False
    with "1.IH" show ?thesis
      by (subst nat_digits.simps) (simp add: digits_value_snoc)
  qed
qed

lemma nat_digits_hd: "0 < n \<Longrightarrow> hd (nat_digits n) \<noteq> 48"
proof (induction n rule: nat_digits.induct)
  case (1 n)
  show ?case
  proof (cases "n < 10")
    case True
    with "1.prems" show ?thesis by (subst nat_digits.simps) simp
  next
    case False
    then have "0 < n div 10" by simp
    with False "1.IH" have "hd (nat_digits (n div 10)) \<noteq> 48" by simp
    with False show ?thesis
      by (subst nat_digits.simps) (simp add: nat_digits_ne)
  qed
qed

lemma nat_digits_zero: "nat_digits 0 = [48]"
  by (subst nat_digits.simps) simp

lemma nat_digits_leading:
  "\<not> (1 < length (nat_digits n) \<and> hd (nat_digits n) = 48)"
proof (cases "n = 0")
  case True
  then show ?thesis by (simp add: nat_digits_zero)
next
  case False
  then show ?thesis using nat_digits_hd [of n] by simp
qed

lemma digits_then_rest:
  assumes "delimited rest"
  shows "takeWhile is_digit (nat_digits n @ rest) = nat_digits n"
    and "dropWhile is_digit (nat_digits n @ rest) = rest"
proof -
  have r: "rest = [] \<or> \<not> is_digit (hd rest)"
    using assms by (auto simp add: delimited_def is_digit_def)
  have all: "\<forall>c \<in> set (nat_digits n). is_digit c" by (rule nat_digits_all)
  from r show "takeWhile is_digit (nat_digits n @ rest) = nat_digits n"
  proof
    assume "rest = []" then show ?thesis using all by simp
  next
    assume "\<not> is_digit (hd rest)"
    then show ?thesis using all
      by (cases rest) (simp_all add: takeWhile_append2)
  qed
  from r show "dropWhile is_digit (nat_digits n @ rest) = rest"
  proof
    assume "rest = []" then show ?thesis using all by simp
  next
    assume "\<not> is_digit (hd rest)"
    then show ?thesis using all
      by (cases rest) (simp_all add: dropWhile_append2)
  qed
qed

lemma nat_digits_not_minus: "hd (nat_digits n) \<noteq> 45"
  using nat_digits_all [of n] nat_digits_ne [of n]
  by (cases "nat_digits n") (auto simp add: is_digit_def)

lemma delimited_no_fraction:
  "delimited rest \<Longrightarrow> \<not> (rest \<noteq> [] \<and> (hd rest = 46 \<or> hd rest = 101 \<or> hd rest = 69))"
  by (auto simp add: delimited_def)

lemma parse_number_int_text:
  assumes "delimited rest"
  shows "parse_number (int_text i @ rest) = Some (i, rest)"
proof (cases "i < 0")
  case True
  have "parse_number (45 # nat_digits (nat (- i)) @ rest) = Some (i, rest)"
    using True delimited_no_fraction [OF assms] nat_digits_leading [of "nat (- i)"]
    by (simp add: parse_number_def Let_def digits_then_rest [OF assms] nat_digits_ne
                  digits_value_nat_digits)
  then show ?thesis using True by (simp add: int_text_def)
next
  case False
  have "nat_digits (nat i) @ rest \<noteq> []" by (simp add: nat_digits_ne)
  moreover have "hd (nat_digits (nat i) @ rest) \<noteq> 45"
    using nat_digits_not_minus [of "nat i"] by (simp add: nat_digits_ne)
  ultimately have "parse_number (nat_digits (nat i) @ rest) = Some (i, rest)"
    using False delimited_no_fraction [OF assms] nat_digits_leading [of "nat i"]
    by (simp add: parse_number_def Let_def digits_then_rest [OF assms] nat_digits_ne
                  digits_value_nat_digits)
  then show ?thesis using False by (simp add: int_text_def)
qed


lemma int_text_starts: "\<exists>c cs. int_text i = c # cs \<and> (c = 45 \<or> is_digit c)"
proof (cases "i < 0")
  case True
  then show ?thesis by (simp add: int_text_def)
next
  case False
  obtain c cs where d: "nat_digits (nat i) = c # cs"
    using nat_digits_ne [of "nat i"] by (cases "nat_digits (nat i)") auto
  then have "is_digit c" using nat_digits_all [of "nat i"] by simp
  with d False show ?thesis by (simp add: int_text_def)
qed

lemma stringify_starts: "\<exists>c cs. JSON_stringify v = c # cs \<and> starts_value c"
proof (cases v)
  case (JNumber i)
  then show ?thesis using int_text_starts [of i] by (auto simp add: starts_value_def)
qed (auto simp add: starts_value_def js_def QuoteJSONString_def)

lemma skip_ws_starts: "starts_value c \<Longrightarrow> skip_ws (c # cs) = c # cs"
  by (auto simp add: starts_value_def skip_ws_def is_json_space_def is_digit_def)

lemma skip_ws_stringify: "skip_ws (JSON_stringify v @ rest) = JSON_stringify v @ rest"
  using stringify_starts [of v] skip_ws_starts by fastforce

lemma skip_ws_delimiter [simp]:
  "skip_ws (44 # s) = 44 # s" "skip_ws (93 # s) = 93 # s" "skip_ws (125 # s) = 125 # s"
  "skip_ws (58 # s) = 58 # s" "skip_ws (34 # s) = 34 # s" "skip_ws (91 # s) = 91 # s"
  "skip_ws (123 # s) = 123 # s"
  by (simp_all add: skip_ws_def is_json_space_def)

lemma delimited_simps [simp]:
  "delimited []" "delimited (44 # s)" "delimited (93 # s)" "delimited (125 # s)"
  by (simp_all add: delimited_def)

lemma weight_pos: "0 < weight v"
  by (cases v) simp_all

lemma length_le_sum_weight: "length xs \<le> sum_list (map weight xs)"
proof (induction xs)
  case Nil
  show ?case by simp
next
  case (Cons x xs)
  then show ?case using weight_pos [of x] by simp
qed

lemma length_le_sum_weight_members:
  "length kvs \<le> sum_list (map (\<lambda>kv. weight (snd kv)) kvs)"
proof (induction kvs)
  case Nil
  show ?case by simp
next
  case (Cons kv kvs)
  then show ?case using weight_pos [of "snd kv"] by simp
qed

lemma parse_elements_stringify:
  assumes pv: "\<And>x rest. x \<in> set xs \<Longrightarrow> delimited rest \<Longrightarrow>
                 pv (JSON_stringify x @ rest) = Some (x, rest)"
      and "xs \<noteq> []" and "length xs \<le> m"
  shows "parse_elements pv m (stringify_elements xs @ 93 # rest) acc = Some (acc @ xs, rest)"
  using assms
proof (induction xs arbitrary: m acc)
  case Nil
  then show ?case by simp
next
  case (Cons x xs)
  note IH = Cons.IH and prems = Cons.prems
  from prems(3) obtain m' where m: "m = Suc m'" and m': "length xs \<le> m'"
    by (cases m) auto
  have pv_x: "pv (JSON_stringify x @ rest') = Some (x, rest')" if "delimited rest'" for rest'
    using prems(1) [of x rest'] that by simp
  have pv_xs: "pv (JSON_stringify y @ rest') = Some (y, rest')"
    if "y \<in> set xs" "delimited rest'" for y rest'
    using prems(1) [of y rest'] that by simp
  show ?case
  proof (cases xs)
    case Nil
    show ?thesis using Nil m pv_x [of "93 # rest"] by simp
  next
    case (Cons y ys)
    then have ne: "xs \<noteq> []" by simp
    have "parse_elements pv m' (stringify_elements xs @ 93 # rest) (acc @ [x]) =
            Some ((acc @ [x]) @ xs, rest)"
    proof (rule IH)
      fix y rest' assume "y \<in> set xs" "delimited rest'"
      then show "pv (JSON_stringify y @ rest') = Some (y, rest')" by (rule pv_xs)
    qed (use ne m' in simp_all)
    then show ?thesis
      using Cons m pv_x [of "44 # stringify_elements (y # ys) @ 93 # rest"] by simp
  qed
qed

lemma parse_members_stringify:
  assumes pv: "\<And>k x rest. (k, x) \<in> set kvs \<Longrightarrow> delimited rest \<Longrightarrow>
                 pv (JSON_stringify x @ rest) = Some (x, rest)"
      and "kvs \<noteq> []" and "length kvs \<le> m"
  shows "parse_members pv m (stringify_members kvs @ 125 # rest) acc = Some (acc @ kvs, rest)"
  using assms
proof (induction kvs arbitrary: m acc)
  case Nil
  then show ?case by simp
next
  case (Cons kv kvs)
  note IH = Cons.IH and prems = Cons.prems
  obtain k x where kv: "kv = (k, x)" by (cases kv)
  from prems(3) obtain m' where m: "m = Suc m'" and m': "length kvs \<le> m'"
    by (cases m) auto
  have pv_x: "pv (JSON_stringify x @ rest') = Some (x, rest')" if "delimited rest'" for rest'
    using prems(1) [of k x rest'] that kv by simp
  have pv_kvs: "pv (JSON_stringify y @ rest') = Some (y, rest')"
    if "(j, y) \<in> set kvs" "delimited rest'" for j y rest'
    using prems(1) [of j y rest'] that by simp
  show ?case
  proof (cases kvs)
    case Nil
    show ?thesis
      using Nil m kv pv_x [of "125 # rest"]
      by (simp add: QuoteJSONString_def parse_chars_quote_units)
  next
    case (Cons n ns)
    then have ne: "kvs \<noteq> []" by simp
    have "parse_members pv m' (stringify_members kvs @ 125 # rest) (acc @ [kv]) =
            Some ((acc @ [kv]) @ kvs, rest)"
    proof (rule IH)
      fix j y rest' assume "(j, y) \<in> set kvs" "delimited rest'"
      then show "pv (JSON_stringify y @ rest') = Some (y, rest')" by (rule pv_kvs)
    qed (use ne m' in simp_all)
    then show ?thesis
      using Cons m kv pv_x [of "44 # stringify_members (n # ns) @ 125 # rest"]
      by (simp add: QuoteJSONString_def parse_chars_quote_units)
  qed
qed

lemma stringify_elements_starts:
  "xs \<noteq> [] \<Longrightarrow> \<exists>c cs. stringify_elements xs = c # cs \<and> starts_value c"
proof (cases xs)
  case Nil
  then show "xs \<noteq> [] \<Longrightarrow> ?thesis" by simp
next
  case (Cons x ys)
  obtain c cs where "JSON_stringify x = c # cs" "starts_value c"
    using stringify_starts [of x] by blast
  then show ?thesis using Cons by (cases ys) auto
qed

lemma stringify_members_starts:
  "kvs \<noteq> [] \<Longrightarrow> \<exists>cs. stringify_members kvs = 34 # cs"
proof (cases kvs)
  case Nil
  then show "kvs \<noteq> [] \<Longrightarrow> ?thesis" by simp
next
  case (Cons kv ys)
  then show ?thesis by (cases kv; cases ys) (auto simp add: QuoteJSONString_def)
qed

lemma parse_value_stringify:
  "weight v \<le> n \<Longrightarrow> delimited rest \<Longrightarrow>
   parse_value n (JSON_stringify v @ rest) = Some (v, rest)"
proof (induction v arbitrary: n rest)
  case JNull
  then obtain m where "n = Suc m" by (cases n) auto
  then show ?case
    by (simp add: js_def skip_ws_def is_json_space_def parse_literal_def)
next
  case (JBool b)
  then obtain m where "n = Suc m" by (cases n) auto
  then show ?case
    by (simp add: js_def skip_ws_def is_json_space_def parse_literal_def)
next
  case (JNumber i)
  then obtain m where n: "n = Suc m" by (cases n) auto
  obtain c cs where t: "int_text i = c # cs" and c: "c = 45 \<or> is_digit c"
    using int_text_starts [of i] by blast
  have sk: "skip_ws (c # cs @ rest) = c # cs @ rest"
    using c by (intro skip_ws_starts) (auto simp add: starts_value_def)
  have num: "parse_number (c # cs @ rest) = Some (i, rest)"
    using parse_number_int_text [OF JNumber.prems(2), of i] t by simp
  from c have "c \<noteq> 34" "c \<noteq> 91" "c \<noteq> 123" "c \<noteq> 110" "c \<noteq> 116" "c \<noteq> 102"
    by (auto simp add: is_digit_def)
  then show ?case using n t sk num c by simp
next
  case (JString s)
  then obtain m where "n = Suc m" by (cases n) auto
  then show ?case
    by (simp add: QuoteJSONString_def parse_chars_quote_units)
next
  case (JArray xs)
  from JArray.prems obtain m where n: "n = Suc m" and m: "sum_list (map weight xs) \<le> m"
    by (cases n) auto
  show ?case
  proof (cases "xs = []")
    case True
    then show ?thesis using n by simp
  next
    case False
    obtain c cs where st: "stringify_elements xs = c # cs" and c: "starts_value c"
      using stringify_elements_starts [OF False] by blast
    have c93: "c \<noteq> 93" using c by (auto simp add: starts_value_def is_digit_def)
    have sk: "skip_ws (c # cs @ 93 # rest) = c # cs @ 93 # rest"
      using c by (rule skip_ws_starts)
    have pv: "parse_value m (JSON_stringify x @ rest') = Some (x, rest')"
      if "x \<in> set xs" "delimited rest'" for x rest'
    proof -
      have "weight x \<le> sum_list (map weight xs)"
        using that(1) by (simp add: member_le_sum_list)
      with m have "weight x \<le> m" by simp
      then show ?thesis using JArray.IH that by blast
    qed
    have len: "length xs \<le> m" using length_le_sum_weight [of xs] m by simp
    have "parse_elements (parse_value m) m (stringify_elements xs @ 93 # rest) [] =
            Some ([] @ xs, rest)"
      by (rule parse_elements_stringify [OF pv False len])
    then show ?thesis using n st sk c93 by simp
  qed
next
  case (JObject kvs)
  from JObject.prems obtain m where n: "n = Suc m"
    and m: "sum_list (map (\<lambda>kv. weight (snd kv)) kvs) \<le> m"
    by (cases n) auto
  show ?case
  proof (cases "kvs = []")
    case True
    then show ?thesis using n by simp
  next
    case False
    obtain cs where st: "stringify_members kvs = 34 # cs"
      using stringify_members_starts [OF False] by blast
    have pv: "parse_value m (JSON_stringify x @ rest') = Some (x, rest')"
      if "(k, x) \<in> set kvs" "delimited rest'" for k x rest'
    proof -
      have "weight x \<in> set (map (\<lambda>kv. weight (snd kv)) kvs)"
        using that(1) by force
      then have "weight x \<le> sum_list (map (\<lambda>kv. weight (snd kv)) kvs)"
        by (simp add: member_le_sum_list)
      with m have "weight x \<le> m" by simp
      moreover have "x \<in> Basic_BNFs.snds (k, x)" by simp
      ultimately show ?thesis using JObject.IH that by blast
    qed
    have len: "length kvs \<le> m" using length_le_sum_weight_members [of kvs] m by simp
    have "parse_members (parse_value m) m (stringify_members kvs @ 125 # rest) [] =
            Some ([] @ kvs, rest)"
    proof (rule parse_members_stringify)
      fix k x rest' assume "(k, x) \<in> set kvs" "delimited rest'"
      then show "parse_value m (JSON_stringify x @ rest') = Some (x, rest')" by (rule pv)
    qed (use False len in simp_all)
    then show ?thesis using n st by simp
  qed
qed


lemma weight_elements:
  "(\<And>x. x \<in> set xs \<Longrightarrow> weight x \<le> length (JSON_stringify x)) \<Longrightarrow>
   sum_list (map weight xs) \<le> length (stringify_elements xs)"
proof (induction xs)
  case Nil
  show ?case by simp
next
  case (Cons x xs)
  note IH = Cons.IH and prems = Cons.prems
  have x: "weight x \<le> length (JSON_stringify x)" using prems by simp
  have "sum_list (map weight xs) \<le> length (stringify_elements xs)"
    using IH prems by simp
  with x show ?case by (cases xs) simp_all
qed

lemma weight_members:
  "(\<And>k x. (k, x) \<in> set kvs \<Longrightarrow> weight x \<le> length (JSON_stringify x)) \<Longrightarrow>
   sum_list (map (\<lambda>kv. weight (snd kv)) kvs) \<le> length (stringify_members kvs)"
proof (induction kvs)
  case Nil
  show ?case by simp
next
  case (Cons kv kvs)
  note IH = Cons.IH and prems = Cons.prems
  obtain k x where kv: "kv = (k, x)" by (cases kv)
  have x: "weight x \<le> length (JSON_stringify x)" using prems [of k x] kv by simp
  have "sum_list (map (\<lambda>kv. weight (snd kv)) kvs) \<le> length (stringify_members kvs)"
  proof (rule IH)
    fix j y assume "(j, y) \<in> set kvs"
    then show "weight y \<le> length (JSON_stringify y)" using prems [of j y] by simp
  qed
  with x kv show ?case by (cases kvs) simp_all
qed

lemma weight_le_length: "weight v \<le> length (JSON_stringify v)"
proof (induction v)
  case JNull
  show ?case by (simp add: js_def)
next
  case (JBool b)
  show ?case by (simp add: js_def)
next
  case (JNumber i)
  obtain c cs where "int_text i = c # cs" using int_text_starts [of i] by blast
  then show ?case by simp
next
  case (JString s)
  show ?case by (simp add: QuoteJSONString_def)
next
  case (JArray xs)
  have "sum_list (map weight xs) \<le> length (stringify_elements xs)"
    by (rule weight_elements) (rule JArray.IH)
  then show ?case by simp
next
  case (JObject kvs)
  have "sum_list (map (\<lambda>kv. weight (snd kv)) kvs) \<le> length (stringify_members kvs)"
  proof (rule weight_members)
    fix k x assume "(k, x) \<in> set kvs"
    moreover have "x \<in> Basic_BNFs.snds (k, x)" by simp
    ultimately show "weight x \<le> length (JSON_stringify x)" using JObject.IH by blast
  qed
  then show ?case by simp
qed

lemma JSON_roundtrip: "JSON_parse (JSON_stringify v) = Some v"
proof -
  have "weight v \<le> Suc (length (JSON_stringify v))"
    using weight_le_length [of v] by simp
  then have "parse_value (Suc (length (JSON_stringify v))) (JSON_stringify v @ []) = Some (v, [])"
    by (rule parse_value_stringify) simp
  then show ?thesis by (simp add: JSON_parse_def skip_ws_def)
qed

section \<open>Properties of the generation driver\<close>

lemma fst_stream_chunks: "fst (stream_chunks i chunks full secs) = full @ concat chunks"
  by (induction chunks arbitrary: full secs) simp_all

lemma stream_chunks_other:
  "j \<noteq> i \<Longrightarrow> snd (stream_chunks i chunks full secs) ! j = secs ! j"
  by (induction chunks arbitrary: full secs) (simp_all add: set_content_def)

lemma stream_chunks_same:
  "i < length secs \<Longrightarrow>
   sid (snd (stream_chunks i chunks full secs) ! i) = sid (secs ! i) \<and>
   title (snd (stream_chunks i chunks full secs) ! i) = title (secs ! i) \<and>
   status (snd (stream_chunks i chunks full secs) ! i) = status (secs ! i)"
  by (induction chunks arbitrary: full secs) (simp_all add: set_content_def)

lemma set_status_other: "j \<noteq> i \<Longrightarrow> set_status i s secs ! j = secs ! j"
  by (simp add: set_status_def)

lemma set_status_same:
  "i < length secs \<Longrightarrow> set_status i s secs ! i = (secs ! i)\<lparr>status := s\<rparr>"
  by (simp add: set_status_def)

text \<open>One iteration of the loop of \<open>autoWrite\<close>, when the call completes and when it fails.\<close>

lemma autoWrite_loop_completed:
  assumes "i < length (sections st)"
      and "gen i (autoWrite_prompt form (title (sections st ! i)) ctx) = Completed chunks"
  shows "autoWrite_loop gen form i ctx st =
         autoWrite_loop gen form (Suc i) (slice_last 500 (concat chunks))
           (st\<lparr>activeSectionId := Some (sid (sections st ! i)),
               requests := requests st @
                  [Generate (autoWrite_prompt form (title (sections st ! i)) ctx)],
               sections := set_status i Done
                  (snd (stream_chunks i chunks [] (set_status i Generating (sections st))))\<rparr>)"
  using assms by (subst autoWrite_loop.simps) (simp add: Let_def fst_stream_chunks)

lemma autoWrite_loop_failed:
  assumes "i < length (sections st)"
      and "gen i (autoWrite_prompt form (title (sections st ! i)) ctx) = Failed chunks"
  shows "autoWrite_loop gen form i ctx st =
           st\<lparr>activeSectionId := Some (sid (sections st ! i)),
               requests := requests st @
                  [Generate (autoWrite_prompt form (title (sections st ! i)) ctx)],
               globalError := msg_autoWrite_error_1 @ title (sections st ! i),
               sections := set_status i Pending
                  (snd (stream_chunks i chunks [] (set_status i Generating (sections st))))\<rparr>"
  using assms by (subst autoWrite_loop.simps) (simp add: Let_def)

text \<open>
  While the calls complete, the loop reaches section \<open>k\<close> with the sections before \<open>k\<close>
  done, the sections from \<open>k\<close> on as they were, and one request sent per section.
\<close>

lemma autoWrite_loop_prefix:
  assumes "k \<le> length (sections st)"
      and "\<forall>j<k. \<exists>chunks. autoWrite_reply gen form (sections st) j = Completed chunks"
  shows "\<exists>st'. autoWrite_loop gen form 0 [] st =
               autoWrite_loop gen form k (autoWrite_context gen form (sections st) k) st' \<and>
              length (sections st') = length (sections st) \<and>
              (\<forall>j\<ge>k. sections st' ! j = sections st ! j) \<and>
              (\<forall>j<k. status (sections st' ! j) = Done) \<and>
              length (requests st') = length (requests st) + k \<and>
              isGeneratingGlobal st' = isGeneratingGlobal st"
  using assms
proof (induction k)
  case 0
  show ?case by (rule exI [of _ st]) simp
next
  case (Suc k)
  then obtain st' where run: "autoWrite_loop gen form 0 [] st =
        autoWrite_loop gen form k (autoWrite_context gen form (sections st) k) st'"
    and len: "length (sections st') = length (sections st)"
    and later: "\<forall>j\<ge>k. sections st' ! j = sections st ! j"
    and earlier: "\<forall>j<k. status (sections st' ! j) = Done"
    and reqs: "length (requests st') = length (requests st) + k"
    and busy: "isGeneratingGlobal st' = isGeneratingGlobal st"
    by auto
  from Suc.prems obtain chunks where
    "autoWrite_reply gen form (sections st) k = Completed chunks" by auto
  then have reply: "gen k (autoWrite_prompt form (title (sections st' ! k))
                      (autoWrite_context gen form (sections st) k)) = Completed chunks"
    using later by (simp add: autoWrite_reply_def)
  have k: "k < length (sections st')" using Suc.prems len by simp
  define st'' where "st'' = st'\<lparr>activeSectionId := Some (sid (sections st' ! k)),
               requests := requests st' @
                  [Generate (autoWrite_prompt form (title (sections st' ! k))
                     (autoWrite_context gen form (sections st) k))],
               sections := set_status k Done
                  (snd (stream_chunks k chunks [] (set_status k Generating (sections st'))))\<rparr>"
  have ctx: "autoWrite_context gen form (sections st) (Suc k) = slice_last 500 (concat chunks)"
    using reply later by simp
  have "autoWrite_loop gen form 0 [] st =
        autoWrite_loop gen form (Suc k) (autoWrite_context gen form (sections st) (Suc k)) st''"
    unfolding run ctx st''_def
    using autoWrite_loop_completed [of k st' gen form _ chunks, OF k reply] .
  moreover have "length (sections st'') = length (sections st)"
    by (simp add: st''_def len)
  moreover have "\<forall>j\<ge>Suc k. sections st'' ! j = sections st ! j"
    using later by (simp add: st''_def set_status_other stream_chunks_other)
  moreover have "\<forall>j<Suc k. status (sections st'' ! j) = Done"
  proof (intro allI impI)
    fix j assume "j < Suc k"
    show "status (sections st'' ! j) = Done"
    proof (cases "j = k")
      case True
      then show ?thesis using k by (simp add: st''_def set_status_same)
    next
      case False
      with \<open>j < Suc k\<close> have "j < k" by simp
      with earlier False show ?thesis
        by (simp add: st''_def set_status_other stream_chunks_other)
    qed
  qed
  moreover have "length (requests st'') = length (requests st) + Suc k"
    by (simp add: st''_def reqs)
  moreover have "isGeneratingGlobal st'' = isGeneratingGlobal st"
    by (simp add: st''_def busy)
  ultimately show ?case by blast
qed

text \<open>
  Claim C1. In a run of \<open>autoWrite\<close> in which the calls for the sections before \<open>k\<close>
  complete and the call for section \<open>k\<close> fails: section \<open>k\<close> ends with the status
  \<open>pending\<close> (its identifier and title as they were); the loop halts there, so that
  exactly \<open>k + 1\<close> requests were sent, the last of them the one for section \<open>k\<close>; every
  section after \<open>k\<close> is what it was before the run; and the sections before \<open>k\<close> keep
  the status \<open>done\<close>, so that section \<open>k\<close> is the only one set back. The message of the
  failure is recorded and the operation is no longer in flight.
\<close>

theorem autoWrite_failure_halts:
  assumes idle: "\<not> isGeneratingGlobal st"
      and k: "k < length (sections st)"
      and completed: "\<forall>j<k. \<exists>chunks.
             autoWrite_reply gen (advancedForm st) (sections st) j = Completed chunks"
      and failed: "autoWrite_reply gen (advancedForm st) (sections st) k = Failed chunks"
  shows "status (sections (autoWrite gen st) ! k) = Pending \<and>
         sid (sections (autoWrite gen st) ! k) = sid (sections st ! k) \<and>
         title (sections (autoWrite gen st) ! k) = title (sections st ! k) \<and>
         drop (Suc k) (sections (autoWrite gen st)) = drop (Suc k) (sections st) \<and>
         (\<forall>j<k. status (sections (autoWrite gen st) ! j) = Done) \<and>
         length (sections (autoWrite gen st)) = length (sections st) \<and>
         length (requests (autoWrite gen st)) = length (requests st) + k + 1 \<and>
         last (requests (autoWrite gen st)) =
           Generate (autoWrite_prompt (advancedForm st) (title (sections st ! k))
                       (autoWrite_context gen (advancedForm st) (sections st) k)) \<and>
         globalError (autoWrite gen st) = msg_autoWrite_error_1 @ title (sections st ! k) \<and>
         \<not> isGeneratingGlobal (autoWrite gen st)"
proof -
  define form where "form = advancedForm st"
  define st0 where "st0 = st\<lparr>isGeneratingGlobal := True, globalError := []\<rparr>"
  have secs0: "sections st0 = sections st" and reqs0: "requests st0 = requests st"
    by (simp_all add: st0_def)
  have auto: "autoWrite gen st = (autoWrite_loop gen form 0 [] st0)\<lparr>isGeneratingGlobal := False\<rparr>"
    using idle by (simp add: autoWrite_def Let_def st0_def form_def)
  from autoWrite_loop_prefix [of k st0 gen form] k completed
  obtain st' where run: "autoWrite_loop gen form 0 [] st0 =
        autoWrite_loop gen form k (autoWrite_context gen form (sections st) k) st'"
    and len: "length (sections st') = length (sections st)"
    and later: "\<forall>j\<ge>k. sections st' ! j = sections st ! j"
    and earlier: "\<forall>j<k. status (sections st' ! j) = Done"
    and reqs: "length (requests st') = length (requests st) + k"
    unfolding secs0 reqs0 form_def by auto
  have k': "k < length (sections st')" using k len by simp
  have same: "sections st' ! k = sections st ! k" using later by simp
  have reply: "gen k (autoWrite_prompt form (title (sections st' ! k))
                 (autoWrite_context gen form (sections st) k)) = Failed chunks"
    using failed same by (simp add: autoWrite_reply_def form_def)
  define final where "final = set_status k Pending
                  (snd (stream_chunks k chunks [] (set_status k Generating (sections st'))))"
  have loop: "autoWrite_loop gen form 0 [] st0 =
           st'\<lparr>activeSectionId := Some (sid (sections st' ! k)),
               requests := requests st' @
                  [Generate (autoWrite_prompt form (title (sections st' ! k))
                     (autoWrite_context gen form (sections st) k))],
               globalError := msg_autoWrite_error_1 @ title (sections st' ! k),
               sections := final\<rparr>"
    unfolding run final_def
    using autoWrite_loop_failed [of k st' gen form _ chunks, OF k' reply] .
  have secs: "sections (autoWrite gen st) = final"
    by (simp add: auto loop)
  have final_len: "length final = length (sections st)"
    by (simp add: final_def len)
  have final_k: "final ! k =
      (snd (stream_chunks k chunks [] (set_status k Generating (sections st'))) ! k)
        \<lparr>status := Pending\<rparr>"
    using k' by (simp add: final_def set_status_same)
  have inner: "sid (snd (stream_chunks k chunks [] (set_status k Generating (sections st'))) ! k)
                 = sid (sections st ! k) \<and>
               title (snd (stream_chunks k chunks [] (set_status k Generating (sections st'))) ! k)
                 = title (sections st ! k)"
    using stream_chunks_same [of k "set_status k Generating (sections st')" chunks "[]"] k' same
    by (simp add: set_status_same)
  have final_other: "final ! j = sections st' ! j" if "j \<noteq> k" for j
    using that by (simp add: final_def set_status_other stream_chunks_other)
  have c1: "status (sections (autoWrite gen st) ! k) = Pending"
    by (simp add: secs final_k)
  have c2: "sid (sections (autoWrite gen st) ! k) = sid (sections st ! k)"
    by (simp add: secs final_k inner)
  have c3: "title (sections (autoWrite gen st) ! k) = title (sections st ! k)"
    by (simp add: secs final_k inner)
  have c4: "drop (Suc k) (sections (autoWrite gen st)) = drop (Suc k) (sections st)"
    unfolding secs
  proof (rule nth_equalityI)
    show "length (drop (Suc k) final) = length (drop (Suc k) (sections st))"
      by (simp add: final_len)
  next
    fix i assume "i < length (drop (Suc k) final)"
    then have i: "Suc k + i < length final" by simp
    have "final ! (Suc k + i) = sections st ! (Suc k + i)"
      using final_other [of "Suc k + i"] later by simp
    then show "drop (Suc k) final ! i = drop (Suc k) (sections st) ! i"
      using i final_len by simp
  qed
  have c5: "\<forall>j<k. status (sections (autoWrite gen st) ! j) = Done"
    using earlier final_other by (simp add: secs)
  have c6: "length (sections (autoWrite gen st)) = length (sections st)"
    by (simp add: secs final_len)
  have c7: "length (requests (autoWrite gen st)) = length (requests st) + k + 1"
    by (simp add: auto loop reqs)
  have c8: "last (requests (autoWrite gen st)) =
           Generate (autoWrite_prompt (advancedForm st) (title (sections st ! k))
                       (autoWrite_context gen (advancedForm st) (sections st) k))"
    by (simp add: auto loop same, simp add: form_def)
  have c9: "globalError (autoWrite gen st) = msg_autoWrite_error_1 @ title (sections st ! k)"
    by (simp add: auto loop same)
  have c10: "\<not> isGeneratingGlobal (autoWrite gen st)"
    by (simp add: auto)
  from c1 c2 c3 c4 c5 c6 c7 c8 c9 c10 show ?thesis by blast
qed

text \<open>
  The theorem at the example draft, whose second call fails after one chunk.
\<close>

theorem autoWrite_failure_halts_witness:
  "status (sections (autoWrite failing_gen example_app) ! 1) = Pending \<and>
   drop 2 (sections (autoWrite failing_gen example_app)) =
     [\<lparr>sid = 3, title = js ''Results'', content = js ''Old text'', status = Done\<rparr>] \<and>
   status (sections (autoWrite failing_gen example_app) ! 0) = Done \<and>
   length (requests (autoWrite failing_gen example_app)) = 2"
proof -
  have idle: "\<not> isGeneratingGlobal example_app"
    by (simp add: example_app_def initial_app_def)
  have secs: "sections example_app = example_sections"
    by (simp add: example_app_def)
  have reqs: "requests example_app = []"
    by (simp add: example_app_def initial_app_def)
  have k: "1 < length (sections example_app)"
    by (simp add: secs example_sections_def)
  have completed: "\<forall>j<1. \<exists>chunks.
      autoWrite_reply failing_gen (advancedForm example_app) (sections example_app) j
        = Completed chunks"
    by (simp add: autoWrite_reply_def failing_gen_def)
  have failed: "autoWrite_reply failing_gen (advancedForm example_app) (sections example_app) 1
        = Failed [js ''Meth'']"
    by (simp add: autoWrite_reply_def failing_gen_def)
  from autoWrite_failure_halts [OF idle k completed failed]
  show ?thesis by (simp add: secs reqs example_sections_def numeral_2_eq_2)
qed

lemma autoHumanize_loop_end:
  "\<not> i < length (sections st) \<Longrightarrow> autoHumanize_loop gen form i st = st"
  by (subst autoHumanize_loop.simps) simp

lemma autoHumanize_loop_skip:
  "i < length (sections st) \<Longrightarrow> content (sections st ! i) = [] \<Longrightarrow>
   autoHumanize_loop gen form i st = autoHumanize_loop gen form (Suc i) st"
  by (subst autoHumanize_loop.simps) (simp add: Let_def)

lemma autoHumanize_loop_completed:
  assumes "i < length (sections st)" and "content (sections st ! i) \<noteq> []"
      and "gen i (autoHumanize_prompt form (content (sections st ! i))) = Completed chunks"
  shows "autoHumanize_loop gen form i st =
         autoHumanize_loop gen form (Suc i)
           (st\<lparr>activeSectionId := Some (sid (sections st ! i)),
               requests := requests st @
                  [Generate (autoHumanize_prompt form (content (sections st ! i)))],
               sections := set_status i Done
                  (snd (stream_chunks i chunks [] (set_status i Humanizing (sections st))))\<rparr>)"
  using assms by (subst autoHumanize_loop.simps) (simp add: Let_def)

lemma autoHumanize_loop_failed:
  assumes "i < length (sections st)" and "content (sections st ! i) \<noteq> []"
      and "gen i (autoHumanize_prompt form (content (sections st ! i))) = Failed chunks"
  shows "autoHumanize_loop gen form i st =
           st\<lparr>activeSectionId := Some (sid (sections st ! i)),
               requests := requests st @
                  [Generate (autoHumanize_prompt form (content (sections st ! i)))],
               globalError := msg_autoHumanize_error_1 @ title (sections st ! i),
               sections := snd (stream_chunks i chunks [] (set_status i Humanizing (sections st)))\<rparr>"
  using assms by (subst autoHumanize_loop.simps) (simp add: Let_def)

lemma drop_set_status: "drop (Suc i) (set_status i s secs) = drop (Suc i) secs"
  by (simp add: set_status_def)

lemma drop_stream_chunks:
  "drop (Suc i) (snd (stream_chunks i chunks full secs)) = drop (Suc i) secs"
  by (induction chunks arbitrary: full secs) (simp_all add: set_content_def)

lemma autoHumanize_loop_frame:
  "length (sections (autoHumanize_loop gen form i st)) = length (sections st) \<and>
   (\<forall>j. content (sections st ! j) = [] \<longrightarrow>
        sections (autoHumanize_loop gen form i st) ! j = sections st ! j) \<and>
   (\<exists>rs. requests (autoHumanize_loop gen form i st) = requests st @ rs \<and>
         prefix rs (humanize_calls form (drop i (sections st))))"
proof (induction "length (sections st) - i" arbitrary: i st)
  case 0
  then have "\<not> i < length (sections st)" by simp
  then show ?case by (simp add: autoHumanize_loop_end)
next
  case (Suc n)
  then have i: "i < length (sections st)" by simp
  have dropi: "drop i (sections st) = sections st ! i # drop (Suc i) (sections st)"
    using i by (simp add: Cons_nth_drop_Suc)
  show ?case
  proof (cases "content (sections st ! i) = []")
    case True
    have n: "n = length (sections st) - Suc i" using Suc.hyps(2) by simp
    from Suc.hyps(1) [OF n] show ?thesis
      using True i by (simp add: autoHumanize_loop_skip dropi humanize_calls_def)
  next
    case False
    show ?thesis
    proof (cases "gen i (autoHumanize_prompt form (content (sections st ! i)))")
      case (Completed chunks)
      define st' where "st' = st\<lparr>activeSectionId := Some (sid (sections st ! i)),
               requests := requests st @
                  [Generate (autoHumanize_prompt form (content (sections st ! i)))],
               sections := set_status i Done
                  (snd (stream_chunks i chunks [] (set_status i Humanizing (sections st))))\<rparr>"
      have step: "autoHumanize_loop gen form i st = autoHumanize_loop gen form (Suc i) st'"
        unfolding st'_def by (rule autoHumanize_loop_completed [where gen = gen, OF i False Completed])
      have len: "length (sections st') = length (sections st)" by (simp add: st'_def)
      have other: "sections st' ! j = sections st ! j" if "j \<noteq> i" for j
        using that by (simp add: st'_def set_status_other stream_chunks_other)
      have drops: "drop (Suc i) (sections st') = drop (Suc i) (sections st)"
        by (simp add: st'_def drop_set_status drop_stream_chunks)
      have n: "n = length (sections st') - Suc i" using Suc.hyps(2) len by simp
      from Suc.hyps(1) [OF n] obtain rs where
        l: "length (sections (autoHumanize_loop gen form (Suc i) st')) = length (sections st')"
        and f: "\<forall>j. content (sections st' ! j) = [] \<longrightarrow>
                  sections (autoHumanize_loop gen form (Suc i) st') ! j = sections st' ! j"
        and r: "requests (autoHumanize_loop gen form (Suc i) st') = requests st' @ rs"
        and p: "prefix rs (humanize_calls form (drop (Suc i) (sections st')))"
        by blast
      have "\<forall>j. content (sections st ! j) = [] \<longrightarrow>
              sections (autoHumanize_loop gen form i st) ! j = sections st ! j"
      proof (intro allI impI)
        fix j assume e: "content (sections st ! j) = []"
        then have "j \<noteq> i" using False by auto
        then show "sections (autoHumanize_loop gen form i st) ! j = sections st ! j"
          using f e other [of j] by (simp add: step)
      qed
      moreover have "requests (autoHumanize_loop gen form i st) = requests st @
          (Generate (autoHumanize_prompt form (content (sections st ! i))) # rs)"
      proof -
        have "requests st' = requests st @
            [Generate (autoHumanize_prompt form (content (sections st ! i)))]"
          by (simp add: st'_def)
        then show ?thesis by (simp add: step r)
      qed
      moreover have "prefix (Generate (autoHumanize_prompt form (content (sections st ! i))) # rs)
                       (humanize_calls form (drop i (sections st)))"
        using p False by (simp add: dropi drops humanize_calls_def)
      ultimately show ?thesis using l len step by auto
    next
      case (Failed chunks)
      have step: "autoHumanize_loop gen form i st =
           st\<lparr>activeSectionId := Some (sid (sections st ! i)),
               requests := requests st @
                  [Generate (autoHumanize_prompt form (content (sections st ! i)))],
               globalError := msg_autoHumanize_error_1 @ title (sections st ! i),
               sections := snd (stream_chunks i chunks [] (set_status i Humanizing (sections st)))\<rparr>"
        by (rule autoHumanize_loop_failed [where gen = gen, OF i False Failed])
      have "\<forall>j. content (sections st ! j) = [] \<longrightarrow>
              sections (autoHumanize_loop gen form i st) ! j = sections st ! j"
      proof (intro allI impI)
        fix j assume e: "content (sections st ! j) = []"
        then have "j \<noteq> i" using False by auto
        then show "sections (autoHumanize_loop gen form i st) ! j = sections st ! j"
          by (simp add: step set_status_other stream_chunks_other)
      qed
      moreover have "prefix [Generate (autoHumanize_prompt form (content (sections st ! i)))]
                       (humanize_calls form (drop i (sections st)))"
        using False by (simp add: dropi humanize_calls_def)
      ultimately show ?thesis by (auto simp add: step)
    qed
  qed
qed

text \<open>
  Claim C10. \<open>autoHumanize\<close> leaves every section whose content is empty exactly as it
  was (identifier, title, content and status), and makes no call for it: the requests it
  sends are, in order, calls for the sections whose content is not empty (all of them, or
  the first ones when a call fails). So only sections with content are rewritten.
\<close>

theorem autoHumanize_skips_empty:
  "(\<forall>j. j < length (sections st) \<and> content (sections st ! j) = [] \<longrightarrow>
        sections (autoHumanize gen st) ! j = sections st ! j) \<and>
   length (sections (autoHumanize gen st)) = length (sections st) \<and>
   (\<exists>rs. requests (autoHumanize gen st) = requests st @ rs \<and>
         prefix rs (humanize_calls (advancedForm st) (sections st)))"
proof (cases "isGeneratingGlobal st")
  case True
  then show ?thesis by (simp add: autoHumanize_def)
next
  case False
  define st0 where "st0 = st\<lparr>isGeneratingGlobal := True\<rparr>"
  have run: "autoHumanize gen st =
      (autoHumanize_loop gen (advancedForm st) 0 st0)\<lparr>isGeneratingGlobal := False\<rparr>"
    using False by (simp add: autoHumanize_def Let_def st0_def)
  from autoHumanize_loop_frame [of gen "advancedForm st" 0 st0]
  show ?thesis by (simp add: run st0_def)
qed

text \<open>
  The theorem at the example draft: its first section has no content and is untouched,
  and at most one call is made, since one section only has content.
\<close>

theorem autoHumanize_skips_empty_witness:
  "content (sections example_app ! 0) = [] \<and>
   sections (autoHumanize completing_gen example_app) ! 0 =
     \<lparr>sid = 1, title = js ''Introduction'', content = [], status = Pending\<rparr> \<and>
   length (requests (autoHumanize completing_gen example_app)) \<le> 1"
proof -
  have secs: "sections example_app = example_sections"
    by (simp add: example_app_def)
  have reqs: "requests example_app = []"
    by (simp add: example_app_def initial_app_def)
  have calls: "length (humanize_calls (advancedForm example_app) (sections example_app)) = 1"
    by (simp add: humanize_calls_def secs example_sections_def js_def)
  from autoHumanize_skips_empty [of example_app completing_gen]
  obtain rs where
    frame: "\<forall>j. j < length (sections example_app) \<and> content (sections example_app ! j) = [] \<longrightarrow>
        sections (autoHumanize completing_gen example_app) ! j = sections example_app ! j"
    and r: "requests (autoHumanize completing_gen example_app) = requests example_app @ rs"
    and p: "prefix rs (humanize_calls (advancedForm example_app) (sections example_app))"
    by blast
  have "length rs \<le> 1" using prefix_length_le [OF p] calls by simp
  moreover have "sections (autoHumanize completing_gen example_app) ! 0 = sections example_app ! 0"
    using frame by (simp add: secs example_sections_def)
  ultimately show ?thesis by (simp add: r reqs secs example_sections_def)
qed

section \<open>Properties of prompt assembly\<close>

lemma map_title_set_status [simp]: "map title (set_status i s secs) = map title secs"
  unfolding set_status_def
proof (rule nth_equalityI)
  fix j assume "j < length (map title (secs[i := (secs ! i)\<lparr>status := s\<rparr>]))"
  then show "map title (secs[i := (secs ! i)\<lparr>status := s\<rparr>]) ! j = map title secs ! j"
    by (cases "j = i") simp_all
qed simp

lemma map_title_set_content [simp]: "map title (set_content i c secs) = map title secs"
  unfolding set_content_def
proof (rule nth_equalityI)
  fix j assume "j < length (map title (secs[i := (secs ! i)\<lparr>content := c\<rparr>]))"
  then show "map title (secs[i := (secs ! i)\<lparr>content := c\<rparr>]) ! j = map title secs ! j"
    by (cases "j = i") simp_all
qed simp

lemma map_title_stream_chunks [simp]:
  "map title (snd (stream_chunks i chunks full secs)) = map title secs"
  by (induction chunks arbitrary: full secs) simp_all

lemma autoWrite_loop_requests_agree:
  assumes "map title (sections st1) = map title (sections st2)"
  shows "\<exists>rs. requests (autoWrite_loop gen form i ctx st1) = requests st1 @ rs \<and>
              requests (autoWrite_loop gen form i ctx st2) = requests st2 @ rs"
  using assms
proof (induction "length (sections st1) - i" arbitrary: i ctx st1 st2)
  case 0
  then have "length (sections st1) = length (sections st2)" by (metis length_map)
  with 0 have "\<not> i < length (sections st1)" "\<not> i < length (sections st2)" by simp_all
  then show ?case by (simp add: autoWrite_loop.simps [of gen form i ctx])
next
  case (Suc n)
  have len: "length (sections st1) = length (sections st2)"
    using Suc.prems by (metis length_map)
  have i1: "i < length (sections st1)" using Suc.hyps(2) by simp
  have i2: "i < length (sections st2)" using i1 len by simp
  have t: "title (sections st1 ! i) = title (sections st2 ! i)"
    using Suc.prems i1 i2 by (metis nth_map)
  define p where "p = autoWrite_prompt form (title (sections st1 ! i)) ctx"
  have p2: "autoWrite_prompt form (title (sections st2 ! i)) ctx = p" by (simp add: p_def t)
  show ?case
  proof (cases "gen i p")
    case (Completed chunks)
    define st1' where "st1' = st1\<lparr>activeSectionId := Some (sid (sections st1 ! i)),
               requests := requests st1 @ [Generate p],
               sections := set_status i Done
                  (snd (stream_chunks i chunks [] (set_status i Generating (sections st1))))\<rparr>"
    define st2' where "st2' = st2\<lparr>activeSectionId := Some (sid (sections st2 ! i)),
               requests := requests st2 @ [Generate p],
               sections := set_status i Done
                  (snd (stream_chunks i chunks [] (set_status i Generating (sections st2))))\<rparr>"
    have s1: "autoWrite_loop gen form i ctx st1 =
              autoWrite_loop gen form (Suc i) (slice_last 500 (concat chunks)) st1'"
      unfolding st1'_def p_def
      by (rule autoWrite_loop_completed [where gen = gen, OF i1 Completed [unfolded p_def]])
    have s2: "autoWrite_loop gen form i ctx st2 =
              autoWrite_loop gen form (Suc i) (slice_last 500 (concat chunks)) st2'"
      unfolding st2'_def p2 [symmetric]
      by (rule autoWrite_loop_completed [where gen = gen, OF i2 Completed [folded p2]])
    have titles: "map title (sections st1') = map title (sections st2')"
      using Suc.prems by (simp add: st1'_def st2'_def)
    have n: "n = length (sections st1') - Suc i" using Suc.hyps(2) by (simp add: st1'_def)
    from Suc.hyps(1) [OF n titles, of "slice_last 500 (concat chunks)"] obtain rs where
      "requests (autoWrite_loop gen form (Suc i) (slice_last 500 (concat chunks)) st1')
         = requests st1' @ rs"
      "requests (autoWrite_loop gen form (Suc i) (slice_last 500 (concat chunks)) st2')
         = requests st2' @ rs"
      by blast
    moreover have "requests st1' = requests st1 @ [Generate p]"
      "requests st2' = requests st2 @ [Generate p]"
      by (simp_all add: st1'_def st2'_def)
    ultimately show ?thesis by (simp add: s1 s2)
  next
    case (Failed chunks)
    have "requests (autoWrite_loop gen form i ctx st1) = requests st1 @ [Generate p]"
      using autoWrite_loop_failed [where gen = gen, OF i1 Failed [unfolded p_def]]
      by (simp add: p_def)
    moreover have "requests (autoWrite_loop gen form i ctx st2) = requests st2 @ [Generate p]"
      using autoWrite_loop_failed [where gen = gen, OF i2 Failed [folded p2]]
      by (simp add: p2)
    ultimately show ?thesis by blast
  qed
qed


text \<open>The request \<open>sendToWindow2\<close> sends, if it sends one.\<close>

lemma sendToWindow2_requests:
  "requests (sendToWindow2 generateContent st) =
     requests st @
     (if form_invalid (advancedForm st) then []
      else if flag (advancedForm st) ''useCustomOutline'' \<and>
              trim (customOutline (advancedForm st)) \<noteq> [] \<and>
              outline_sections (\<lambda>l. l)
                (filter (\<lambda>l. length l > 0)
                   (map trim (js_split 10 (customOutline (advancedForm st))))) \<noteq> []
           then []
           else [Generate (outline_prompt (advancedForm st))])"
  by (simp add: sendToWindow2_def Let_def split: content_reply.split list.split)

text \<open>
  Claim C5. Prompt assembly is deterministic: the prompts a run sends are determined by
  the form, the titles of the sections and the answers of the endpoint. Two runs of
  \<open>autoWrite\<close> from states with the same form and the same section titles (whatever
  their contents, statuses, identifiers, active section or error message) send the same
  prompts, and so do two runs of \<open>sendToWindow2\<close> from states with the same form.
\<close>

theorem prompt_assembly_deterministic:
  assumes "advancedForm st1 = advancedForm st2"
      and "map title (sections st1) = map title (sections st2)"
      and "isGeneratingGlobal st1 = isGeneratingGlobal st2"
  shows "drop (length (requests st1)) (requests (autoWrite gen st1)) =
         drop (length (requests st2)) (requests (autoWrite gen st2)) \<and>
         drop (length (requests st1)) (requests (sendToWindow2 generateContent st1)) =
         drop (length (requests st2)) (requests (sendToWindow2 generateContent st2))"
proof
  show "drop (length (requests st1)) (requests (autoWrite gen st1)) =
        drop (length (requests st2)) (requests (autoWrite gen st2))"
  proof (cases "isGeneratingGlobal st1")
    case True
    then show ?thesis using assms(3) by (simp add: autoWrite_def)
  next
    case False
    define a where "a = st1\<lparr>isGeneratingGlobal := True, globalError := []\<rparr>"
    define b where "b = st2\<lparr>isGeneratingGlobal := True, globalError := []\<rparr>"
    have "map title (sections a) = map title (sections b)"
      using assms(2) by (simp add: a_def b_def)
    from autoWrite_loop_requests_agree [OF this, of gen "advancedForm st1" 0 "[]"]
    obtain rs where
      "requests (autoWrite_loop gen (advancedForm st1) 0 [] a) = requests a @ rs"
      "requests (autoWrite_loop gen (advancedForm st1) 0 [] b) = requests b @ rs"
      by blast
    then show ?thesis
      using False assms(1,3) by (simp add: autoWrite_def Let_def a_def b_def)
  qed
next
  show "drop (length (requests st1)) (requests (sendToWindow2 generateContent st1)) =
        drop (length (requests st2)) (requests (sendToWindow2 generateContent st2))"
    using assms(1) by (simp add: sendToWindow2_requests)
qed

text \<open>
  The theorem at the example draft and at the same draft after its sections were edited.
\<close>

theorem prompt_assembly_deterministic_witness:
  "advancedForm example_app = advancedForm edited_app \<and>
   sections example_app \<noteq> sections edited_app \<and>
   requests (autoWrite completing_gen example_app) =
     requests (autoWrite completing_gen edited_app) \<and>
   requests (sendToWindow2 blank_outline example_app) =
     requests (sendToWindow2 blank_outline edited_app)"
proof -
  have form: "advancedForm example_app = advancedForm edited_app"
    by (simp add: edited_app_def)
  have titles: "map title (sections example_app) = map title (sections edited_app)"
    by (simp add: edited_app_def o_def)
  have busy: "isGeneratingGlobal example_app = isGeneratingGlobal edited_app"
    by (simp add: edited_app_def)
  have reqs: "requests example_app = []" "requests edited_app = []"
    by (simp_all add: edited_app_def example_app_def initial_app_def)
  have differ: "sections example_app \<noteq> sections edited_app"
    by (simp add: edited_app_def example_app_def example_sections_def)
  from prompt_assembly_deterministic [OF form titles busy, of completing_gen blank_outline]
  show ?thesis using form differ by (simp add: reqs)
qed

section \<open>Properties of the outline\<close>

lemma outline_sections_eq_Nil [simp]: "outline_sections mk ls = [] \<longleftrightarrow> ls = []"
  by (cases ls) (simp_all add: outline_sections_def)

lemma fallback_count_ge: "3 \<le> fallback_count p"
  by (simp add: fallback_count_def)

lemma fallback_sections_Cons:
  "fallback_sections p = fallback_section 1 # map fallback_section [2..fallback_count p]"
  using fallback_count_ge [of p] by (simp add: fallback_sections_def upto_rec1 [of 1])

text \<open>
  Claim C9. When the form is valid, no custom outline is in use, and the outline the
  model returns has no non-blank line, \<open>sendToWindow2\<close> creates exactly
  \<open>max(3, ceil(pages / 5))\<close> sections: their identifiers are \<open>1\<close> up to that number,
  in order, each has the placeholder title with its own number, empty content and the
  status \<open>pending\<close>, and the first of them becomes the active section.
\<close>

theorem sendToWindow2_fallback:
  assumes valid: "\<not> form_invalid (advancedForm st)"
      and no_custom: "\<not> (flag (advancedForm st) ''useCustomOutline'' \<and>
                          trim (customOutline (advancedForm st)) \<noteq> [])"
      and reply: "generateContent (outline_prompt (advancedForm st)) = Response text"
      and blank: "filter (\<lambda>l. length (trim l) > 0)
                    (js_split 10 (case text of None \<Rightarrow> [] | Some t \<Rightarrow> t)) = []"
  shows "sections (sendToWindow2 generateContent st) =
           map fallback_section [1..max 3 \<lceil>pages (advancedForm st) / 5\<rceil>] \<and>
         int (length (sections (sendToWindow2 generateContent st))) =
           max 3 \<lceil>pages (advancedForm st) / 5\<rceil> \<and>
         map sid (sections (sendToWindow2 generateContent st)) =
           [1..max 3 \<lceil>pages (advancedForm st) / 5\<rceil>] \<and>
         (\<forall>s \<in> set (sections (sendToWindow2 generateContent st)).
            title s = placeholder_text_1 @ nat_digits (nat (sid s)) \<and>
            content s = [] \<and> status s = Pending) \<and>
         activeSectionId (sendToWindow2 generateContent st) = Some 1"
proof -
  have secs: "sections (sendToWindow2 generateContent st) =
                fallback_sections (pages (advancedForm st))"
    using valid no_custom reply blank
    by (auto simp add: sendToWindow2_def Let_def fallback_sections_Cons)
  have act: "activeSectionId (sendToWindow2 generateContent st) = Some 1"
    using valid no_custom reply blank
    by (auto simp add: sendToWindow2_def Let_def fallback_sections_Cons fallback_section_def)
  have c: "3 \<le> max 3 \<lceil>pages (advancedForm st) / 5\<rceil>" by simp
  show ?thesis
    unfolding secs act
    using c by (auto simp add: fallback_sections_def fallback_count_def fallback_section_def o_def)
qed

text \<open>
  The theorem at a form of 27 pages, with an outline of blank lines: six sections.
\<close>

theorem sendToWindow2_fallback_witness:
  "\<not> form_invalid (advancedForm long_app) \<and>
   pages (advancedForm long_app) = 27 \<and>
   map sid (sections (sendToWindow2 blank_outline long_app)) = [1, 2, 3, 4, 5, 6] \<and>
   title (sections (sendToWindow2 blank_outline long_app) ! 5) = placeholder_text_1 @ js ''6'' \<and>
   activeSectionId (sendToWindow2 blank_outline long_app) = Some 1"
proof -
  have valid: "\<not> form_invalid (advancedForm long_app)"
    by (simp add: long_app_def example_form_def default_form_def form_invalid_def js_def
        default_topic_def default_type_def default_level_def)
  have no_custom: "\<not> (flag (advancedForm long_app) ''useCustomOutline'' \<and>
                        trim (customOutline (advancedForm long_app)) \<noteq> [])"
    by (simp add: long_app_def example_form_def default_form_def)
  have reply: "blank_outline (outline_prompt (advancedForm long_app)) =
                 Response (Some [32, 32, 10, 9, 10])"
    by (simp add: blank_outline_def)
  have blank: "filter (\<lambda>l. length (trim l) > 0)
                 (js_split 10 (case Some [32, 32, 10, 9, 10] of None \<Rightarrow> [] | Some t \<Rightarrow> t)) = []"
    by (simp add: trim_def is_js_space_def)
  have p: "pages (advancedForm long_app) = 27"
    by (simp add: long_app_def example_form_def default_form_def)
  have count: "max 3 \<lceil>pages (advancedForm long_app) / 5\<rceil> = 6"
    unfolding p by linarith
  have upto: "[1..6::int] = [1, 2, 3, 4, 5, 6]"
    by (simp add: upto_rec1)
  from sendToWindow2_fallback [where generateContent = blank_outline,
         OF valid no_custom reply blank]
  have secs: "sections (sendToWindow2 blank_outline long_app) = map fallback_section [1..6]"
    and act: "activeSectionId (sendToWindow2 blank_outline long_app) = Some 1"
    by (simp_all only: count)
  have d: "nat_digits 6 = js ''6''"
    by (simp add: nat_digits.simps [of 6] js_def)
  show ?thesis using valid p
    by (simp add: secs act upto fallback_section_def d)
qed

section \<open>Properties of the exports\<close>

lemma foldl_append_blocks:
  "foldl (\<lambda>text section. text @ block section) start secs = start @ concat (map block secs)"
  by (induction secs arbitrary: start) simp_all

text \<open>
  Claim C4. Each export writes one block per section, in the order of the list, between
  a fixed opening and a fixed closing, and a block holds the section's title once and its
  content once, the title first: \<open>\section{title}\<close>, a line break, the content and a
  blank line in the LaTeX source; \<open><h2>title</h2>\<close>, a line break, the content and a
  blank line in the Word-compatible document. No section is left out, repeated or moved.
\<close>

theorem export_sections_once_in_order:
  "file_text (exportLatex st) =
     65279 # latex_head_1 @ form_title (advancedForm st) @ latex_head_2 @
     concat (map (\<lambda>s. latex_section_1 @ title s @ latex_section_2 @ content s @ latex_section_3)
                 (sections st)) @
     latex_end_1 \<and>
   file_text (saveAll st) =
     65279 # doc_html_1 @ form_title (advancedForm st) @ doc_html_2 @
     doc_head_1 @ form_title (advancedForm st) @ doc_head_2 @
     concat (map (\<lambda>s. doc_section_1 @ title s @ doc_section_2 @ content s @ doc_section_3)
                 (sections st)) @
     doc_html_3"
proof -
  have "latex_source form secs =
          latex_head_1 @ form_title form @ latex_head_2 @
          concat (map (\<lambda>s. latex_section_1 @ title s @ latex_section_2 @ content s @
                           latex_section_3) secs) @ latex_end_1" for form secs
    unfolding latex_source_def
    using foldl_append_blocks
      [of "\<lambda>s. latex_section_1 @ title s @ latex_section_2 @ content s @ latex_section_3"
          "latex_head_1 @ form_title form @ latex_head_2" secs]
    by simp
  moreover have "doc_body form secs =
          doc_head_1 @ form_title form @ doc_head_2 @
          concat (map (\<lambda>s. doc_section_1 @ title s @ doc_section_2 @ content s @
                           doc_section_3) secs)" for form secs
    unfolding doc_body_def
    using foldl_append_blocks
      [of "\<lambda>s. doc_section_1 @ title s @ doc_section_2 @ content s @ doc_section_3"
          "doc_head_1 @ form_title form @ doc_head_2" secs]
    by simp
  ultimately show ?thesis
    by (simp add: exportLatex_def saveAll_def doc_source_def)
qed


















section \<open>Properties of persistence\<close>

lemma status_of_text_status_text: "status_of_text (status_text s) = Some s"
  by (cases s) (simp_all add: status_of_text_def status_text_def js_def)

lemma section_of_json_of_section: "section_of_json (json_of_section s) = Some s"
  by (simp add: section_of_json_def json_of_section_def property_def js_def
        status_of_text_status_text)

lemma those_sections: "those (map (section_of_json \<circ> json_of_section) secs) = Some secs"
  by (induction secs) (simp_all add: section_of_json_of_section)

lemma sections_of_json_of_sections: "sections_of_json (json_of_sections secs) = Some secs"
  by (simp add: sections_of_json_def json_of_sections_def those_sections)

lemma readDocument_sections:
  "doc_content doc = JSON_stringify (json_of_sections secs) \<Longrightarrow>
   sections (readDocument doc st) = secs \<and>
   activeSectionId (readDocument doc st) = first_id_or_null secs \<and>
   localStorage (readDocument doc st) = localStorage st"
  by (simp add: readDocument_def JSON_roundtrip sections_of_json_of_sections)

text \<open>
  Claim C2. What \<open>saveToSupabase\<close> stores as the content of a document is the JSON
  text of the section list; parsing that text gives back the same JSON value, the value
  reads as the same section list, and \<open>readDocument\<close> of a row with that content sets
  the sections to the list that was saved: the same identifiers, titles, contents and
  statuses, in the same order.
\<close>

theorem persisted_sections_roundtrip:
  "(isGeneratingGlobal st \<or>
      Insert (documentData st now) \<in> set (requests (saveToSupabase insert' getDocuments now st))) \<and>
   doc_content (documentData st now) = JSON_stringify (json_of_sections (sections st)) \<and>
   JSON_parse (JSON_stringify (json_of_sections (sections st))) =
     Some (json_of_sections (sections st)) \<and>
   sections_of_json (json_of_sections (sections st)) = Some (sections st) \<and>
   sections (readDocument
       \<lparr>doc_title = t, doc_topic = tp, doc_type = ty, doc_level = lv,
        doc_content = doc_content (documentData st now), created_at = c, doc_id = i\<rparr> st')
     = sections st"
proof -
  have "isGeneratingGlobal st \<or>
      Insert (documentData st now) \<in> set (requests (saveToSupabase insert' getDocuments now st))"
    by (auto simp add: saveToSupabase_def Let_def documentData_def loadDocuments_def
             split: insert_reply.split select_reply.split)
  moreover have "doc_content (documentData st now) = JSON_stringify (json_of_sections (sections st))"
    by (simp add: documentData_def)
  moreover have "sections (readDocument
       \<lparr>doc_title = t, doc_topic = tp, doc_type = ty, doc_level = lv,
        doc_content = doc_content (documentData st now), created_at = c, doc_id = i\<rparr> st')
     = sections st"
    using readDocument_sections [of _ "sections st" st'] by (simp add: documentData_def)
  ultimately show ?thesis
    by (simp add: JSON_roundtrip sections_of_json_of_sections)
qed

section \<open>Properties of the section identifiers\<close>

lemma map_sid_set_status [simp]: "map sid (set_status i s secs) = map sid secs"
  unfolding set_status_def
proof (rule nth_equalityI)
  fix j assume "j < length (map sid (secs[i := (secs ! i)\<lparr>status := s\<rparr>]))"
  then show "map sid (secs[i := (secs ! i)\<lparr>status := s\<rparr>]) ! j = map sid secs ! j"
    by (cases "j = i") simp_all
qed simp

lemma map_sid_set_content [simp]: "map sid (set_content i c secs) = map sid secs"
  unfolding set_content_def
proof (rule nth_equalityI)
  fix j assume "j < length (map sid (secs[i := (secs ! i)\<lparr>content := c\<rparr>]))"
  then show "map sid (secs[i := (secs ! i)\<lparr>content := c\<rparr>]) ! j = map sid secs ! j"
    by (cases "j = i") simp_all
qed simp

lemma map_sid_stream_chunks [simp]:
  "map sid (snd (stream_chunks i chunks full secs)) = map sid secs"
  by (induction chunks arbitrary: full secs) simp_all

lemma autoWrite_loop_end:
  "\<not> i < length (sections st) \<Longrightarrow> autoWrite_loop gen form i ctx st = st"
  by (subst autoWrite_loop.simps) simp

lemma autoWrite_loop_ids:
  "map sid (sections (autoWrite_loop gen form i ctx st)) = map sid (sections st) \<and>
   localStorage (autoWrite_loop gen form i ctx st) = localStorage st"
proof (induction "length (sections st) - i" arbitrary: i ctx st)
  case 0
  then show ?case by (simp add: autoWrite_loop_end)
next
  case (Suc n)
  then have i: "i < length (sections st)" by simp
  show ?case
  proof (cases "gen i (autoWrite_prompt form (title (sections st ! i)) ctx)")
    case (Completed chunks)
    define st' where "st' = st\<lparr>activeSectionId := Some (sid (sections st ! i)),
               requests := requests st @
                  [Generate (autoWrite_prompt form (title (sections st ! i)) ctx)],
               sections := set_status i Done
                  (snd (stream_chunks i chunks [] (set_status i Generating (sections st))))\<rparr>"
    have step: "autoWrite_loop gen form i ctx st =
                autoWrite_loop gen form (Suc i) (slice_last 500 (concat chunks)) st'"
      unfolding st'_def by (rule autoWrite_loop_completed [where gen = gen, OF i Completed])
    have n: "n = length (sections st') - Suc i" using Suc.hyps(2) by (simp add: st'_def)
    from Suc.hyps(1) [OF n, of "slice_last 500 (concat chunks)"]
    show ?thesis by (simp add: step) (simp add: st'_def)
  next
    case (Failed chunks)
    show ?thesis
      by (simp add: autoWrite_loop_failed [where gen = gen, OF i Failed])
  qed
qed

lemma autoHumanize_loop_ids:
  "map sid (sections (autoHumanize_loop gen form i st)) = map sid (sections st) \<and>
   localStorage (autoHumanize_loop gen form i st) = localStorage st"
proof (induction "length (sections st) - i" arbitrary: i st)
  case 0
  then show ?case by (simp add: autoHumanize_loop_end)
next
  case (Suc n)
  then have i: "i < length (sections st)" by simp
  show ?case
  proof (cases "content (sections st ! i) = []")
    case True
    have n: "n = length (sections st) - Suc i" using Suc.hyps(2) by simp
    from Suc.hyps(1) [OF n] show ?thesis
      by (simp add: autoHumanize_loop_skip [OF i True])
  next
    case False
    show ?thesis
    proof (cases "gen i (autoHumanize_prompt form (content (sections st ! i)))")
      case (Completed chunks)
      define st' where "st' = st\<lparr>activeSectionId := Some (sid (sections st ! i)),
               requests := requests st @
                  [Generate (autoHumanize_prompt form (content (sections st ! i)))],
               sections := set_status i Done
                  (snd (stream_chunks i chunks [] (set_status i Humanizing (sections st))))\<rparr>"
      have step: "autoHumanize_loop gen form i st = autoHumanize_loop gen form (Suc i) st'"
        unfolding st'_def
        by (rule autoHumanize_loop_completed [where gen = gen, OF i False Completed])
      have n: "n = length (sections st') - Suc i" using Suc.hyps(2) by (simp add: st'_def)
      from Suc.hyps(1) [OF n]
      show ?thesis by (simp add: step) (simp add: st'_def)
    next
      case (Failed chunks)
      show ?thesis
        by (simp add: autoHumanize_loop_failed [where gen = gen, OF i False Failed])
    qed
  qed
qed

lemma autoWrite_ids:
  "map sid (sections (autoWrite gen st)) = map sid (sections st) \<and>
   localStorage (autoWrite gen st) = localStorage st"
  using autoWrite_loop_ids [of gen "advancedForm st" 0 "[]"
          "st\<lparr>isGeneratingGlobal := True, globalError := []\<rparr>"]
  by (simp add: autoWrite_def Let_def)

lemma autoHumanize_ids:
  "map sid (sections (autoHumanize gen st)) = map sid (sections st) \<and>
   localStorage (autoHumanize gen st) = localStorage st"
  using autoHumanize_loop_ids [of gen "advancedForm st" 0 "st\<lparr>isGeneratingGlobal := True\<rparr>"]
  by (simp add: autoHumanize_def Let_def)

lemma academicReview_ids:
  "map sid (sections (academicReview gen st)) = map sid (sections st) \<and>
   localStorage (academicReview gen st) = localStorage st"
  by (simp add: academicReview_def Let_def split: option.split stream_reply.split)


lemma map_sid_outline_sections:
  "map sid (outline_sections mk ls) = map (\<lambda>k. int k + 1) [0..<length ls]"
proof -
  have "map sid (outline_sections mk ls) = map ((\<lambda>k. int k + 1) \<circ> fst) (enumerate 0 ls)"
    by (simp add: outline_sections_def case_prod_beta o_def)
  also have "\<dots> = map (\<lambda>k. int k + 1) (map fst (enumerate 0 ls))"
    by (simp only: map_map)
  also have "\<dots> = map (\<lambda>k. int k + 1) [0..<length ls]"
    by (simp only: map_fst_enumerate) simp
  finally show ?thesis .
qed

lemma distinct_outline_sections: "distinct (map sid (outline_sections mk ls))"
  unfolding map_sid_outline_sections
  by (simp add: distinct_map inj_on_def)

lemma map_sid_fallback_sections: "map sid (fallback_sections p) = [1..fallback_count p]"
  by (simp add: fallback_sections_def fallback_section_def o_def)

lemma distinct_fallback_sections: "distinct (map sid (fallback_sections p))"
  by (simp add: map_sid_fallback_sections)

lemma sendToWindow2_sections:
  "sections (sendToWindow2 generateContent st) =
     (if form_invalid (advancedForm st) then sections st
      else if flag (advancedForm st) ''useCustomOutline'' \<and>
              trim (customOutline (advancedForm st)) \<noteq> [] \<and>
              outline_sections (\<lambda>l. l)
                (filter (\<lambda>l. length l > 0)
                   (map trim (js_split 10 (customOutline (advancedForm st))))) \<noteq> []
      then outline_sections (\<lambda>l. l)
             (filter (\<lambda>l. length l > 0)
                (map trim (js_split 10 (customOutline (advancedForm st)))))
      else case generateContent (outline_prompt (advancedForm st)) of
             Rejected \<Rightarrow> sections st
           | Response text \<Rightarrow>
               if filter (\<lambda>l. length (trim l) > 0)
                    (js_split 10 (case text of None \<Rightarrow> [] | Some t \<Rightarrow> t)) = []
               then fallback_sections (pages (advancedForm st))
               else outline_sections (\<lambda>l. trim (strip_numbering l))
                      (filter (\<lambda>l. length (trim l) > 0)
                         (js_split 10 (case text of None \<Rightarrow> [] | Some t \<Rightarrow> t))))"
  by (simp add: sendToWindow2_def Let_def split: content_reply.split list.split)

lemma sendToWindow2_distinct:
  "distinct (map sid (sections st)) \<Longrightarrow>
   distinct (map sid (sections (sendToWindow2 generateContent st)))"
  by (simp add: sendToWindow2_sections distinct_outline_sections distinct_fallback_sections
           split: content_reply.split)

lemma sendToWindow2_localStorage:
  "localStorage (sendToWindow2 generateContent st) = localStorage st"
  by (simp add: sendToWindow2_def Let_def split: content_reply.split list.split)

lemma newId_fresh: "s \<in> set secs \<Longrightarrow> sid s < newId secs"
proof -
  assume s: "s \<in> set secs"
  then have "sid s \<le> Max (set (map sid secs))" by (intro Max_ge) auto
  moreover have "length secs > 0" using s by (cases secs) auto
  ultimately show ?thesis by (simp add: newId_def)
qed

lemma newId_not_used: "newId secs \<notin> set (map sid secs)"
  using newId_fresh [of _ secs] by force

lemma map_sid_retitle:
  "map (sid \<circ> (\<lambda>sec. if sid sec = i then sec\<lparr>title := newTitle\<rparr> else sec)) secs = map sid secs"
  by (induction secs) simp_all

lemma ngOnInit_initial:
  "sections (ngOnInit (initial_app cache)) = cached_sections cache \<and>
   localStorage (ngOnInit (initial_app cache)) = cache"
  by (cases cache rule: cached_sections.cases)
     (simp_all add: ngOnInit_def initial_app_def Let_def split: list.split)

lemma unchanged_by_persistence:
  "sections (saveToSupabase insert' getDocuments now st) = sections st"
  "localStorage (saveToSupabase insert' getDocuments now st) = localStorage st"
  "sections (loadDocuments getDocuments st) = sections st"
  "localStorage (loadDocuments getDocuments st) = localStorage st"
  "sections (setView view' getDocuments st) = sections st"
  "localStorage (setView view' getDocuments st) = localStorage st"
  "sections (deleteDocument i confirmed reply st) = sections st"
  "localStorage (deleteDocument i confirmed reply st) = localStorage st"
  "sections (autoSelectFeatures groupName groupKeys generateContent st) = sections st"
  "localStorage (autoSelectFeatures groupName groupKeys generateContent st) = localStorage st"
  by (simp_all add: saveToSupabase_def loadDocuments_def setView_def deleteDocument_def
        autoSelectFeatures_def Let_def
        split: insert_reply.split select_reply.split delete_reply.split content_reply.split
               option.split)

lemma reachable_ids_distinct: "reachable st \<Longrightarrow> ids_distinct st"
proof (induction rule: reachable.induct)
  case startI
  show ?case by (simp add: ids_distinct_def ngOnInit_initial)
next
  case (restartI st)
  then show ?case by (simp add: ids_distinct_def ngOnInit_initial)
next
  case (effectI st)
  then show ?case by (simp add: ids_distinct_def autosave_effect_def)
next
  case (sendToWindow2I st generateContent)
  then show ?case
    by (simp add: ids_distinct_def sendToWindow2_localStorage sendToWindow2_distinct)
next
  case (addNewSectionI st)
  then show ?case
    using newId_not_used [of "sections st"] by (simp add: ids_distinct_def addNewSection_def)
next
  case (removeSectionI st i confirmed)
  then show ?case
    by (simp add: ids_distinct_def removeSection_def Let_def distinct_map_filter)
next
  case (updateSectionTitleI st i newTitle)
  then show ?case
    by (simp add: ids_distinct_def updateSectionTitle_def map_sid_retitle)
next
  case (viewSectionI st i)
  then show ?case by (simp add: ids_distinct_def viewSection_def)
next
  case (clearSectionsI st)
  then show ?case by (simp add: ids_distinct_def clearSections_def)
next
  case (autoWriteI st gen)
  then show ?case by (simp add: ids_distinct_def autoWrite_ids)
next
  case (autoHumanizeI st gen)
  then show ?case by (simp add: ids_distinct_def autoHumanize_ids)
next
  case (academicReviewI st gen)
  then show ?case by (simp add: ids_distinct_def academicReview_ids)
next
  case (autoSelectFeaturesI st groupName groupKeys generateContent)
  then show ?case by (simp add: ids_distinct_def unchanged_by_persistence)
next
  case (saveToSupabaseI st insert' getDocuments now)
  then show ?case by (simp add: ids_distinct_def unchanged_by_persistence)
next
  case (loadDocumentsI st getDocuments)
  then show ?case by (simp add: ids_distinct_def unchanged_by_persistence)
next
  case (setViewI st view' getDocuments)
  then show ?case by (simp add: ids_distinct_def unchanged_by_persistence)
next
  case (deleteDocumentI st i confirmed reply)
  then show ?case by (simp add: ids_distinct_def unchanged_by_persistence)
next
  case (readDocumentI st st0 doc now)
  have "doc_content doc = JSON_stringify (json_of_sections (sections st0))"
    using readDocumentI.hyps(3) by (simp add: documentData_def)
  from readDocument_sections [OF this, of st] readDocumentI.IH
  show ?case by (simp add: ids_distinct_def)
qed


text \<open>
  Claim C3. In every state of a session the identifiers of the sections are pairwise
  distinct. \<open>addNewSection\<close> appends one section whose identifier is \<open>1\<close> for the empty
  list and the largest identifier plus one otherwise, which is larger than, and so
  distinct from, every identifier in the list; \<open>removeSection\<close> keeps the other sections
  as they are, and \<open>updateSectionTitle\<close> changes no identifier.
\<close>

theorem section_ids_unique_and_stable:
  "(reachable st \<longrightarrow> distinct (map sid (sections st))) \<and>
   newId secs \<notin> set (map sid secs) \<and>
   (\<forall>s \<in> set secs. sid s < newId secs) \<and>
   newId [] = 1 \<and>
   (secs \<noteq> [] \<longrightarrow> newId secs = Max (set (map sid secs)) + 1) \<and>
   sections (addNewSection st) =
     sections st @ [\<lparr>sid = newId (sections st), title = new_section_title, content = [],
                      status = Pending\<rparr>] \<and>
   sections (removeSection i confirmed st) =
     (if confirmed then filter (\<lambda>s. sid s \<noteq> i) (sections st) else sections st) \<and>
   map sid (sections (updateSectionTitle i newTitle st)) = map sid (sections st)"
proof -
  have "reachable st \<longrightarrow> distinct (map sid (sections st))"
    using reachable_ids_distinct [of st] by (simp add: ids_distinct_def)
  moreover have "newId secs \<notin> set (map sid secs)" by (rule newId_not_used)
  moreover have "\<forall>s \<in> set secs. sid s < newId secs" using newId_fresh by blast
  moreover have "newId [] = 1" by (simp add: newId_def)
  moreover have "secs \<noteq> [] \<longrightarrow> newId secs = Max (set (map sid secs)) + 1"
    by (simp add: newId_def)
  moreover have "sections (addNewSection st) =
     sections st @ [\<lparr>sid = newId (sections st), title = new_section_title, content = [],
                      status = Pending\<rparr>]"
    by (simp add: addNewSection_def)
  moreover have "sections (removeSection i confirmed st) =
     (if confirmed then filter (\<lambda>s. sid s \<noteq> i) (sections st) else sections st)"
    by (simp add: removeSection_def Let_def)
  moreover have "map sid (sections (updateSectionTitle i newTitle st)) = map sid (sections st)"
    by (simp add: updateSectionTitle_def map_sid_retitle)
  ultimately show ?thesis by blast
qed

text \<open>
  The theorem at the example session, which ends with the identifiers \<open>2\<close> and \<open>3\<close>.
\<close>

theorem section_ids_unique_and_stable_witness:
  "reachable session_app \<and>
   map sid (sections session_app) = [2, 3] \<and>
   distinct (map sid (sections session_app))"
proof -
  have r: "reachable session_app"
    unfolding session_app_def by (intro reachable.intros)
  have ids: "map sid (sections session_app) = [2, 3]"
    by (simp add: session_app_def addNewSection_def removeSection_def Let_def newId_def
          ngOnInit_def initial_app_def)
  from section_ids_unique_and_stable [of session_app] r
  have "distinct (map sid (sections session_app))" by blast
  with r ids show ?thesis by blast
qed

section \<open>Properties of the local cache\<close>

text \<open>
  Removing the only section of a draft empties the list, and the effect, which writes for
  a non-empty list only, leaves the snapshot of the draft before the removal in the cache.
\<close>

lemma autosave_after_last_removal:
  "sections st = [s] \<Longrightarrow>
   sections (autosave_effect (removeSection (sid s) True (autosave_effect st))) = [] \<and>
   localStorage (autosave_effect (removeSection (sid s) True (autosave_effect st))) =
     Some (Snapshot [s] (advancedForm st))"
  by (simp add: autosave_effect_def removeSection_def Let_def)

text \<open>
  Claim C7, as amended. After every change that leaves the section list non-empty, the
  local cache holds one snapshot, equal to the current sections together with the current
  form values, and the effect changes neither of them. \<open>clearSections\<close> empties the list
  and removes the snapshot from the cache, and the effect that follows writes nothing. At
  startup a stored snapshot with at least one section is read back: it restores the
  sections and the form values, makes the first section the active one, and stays in the
  cache.
\<close>

theorem autosave_snapshot:
  "(sections st \<noteq> [] \<longrightarrow>
      localStorage (autosave_effect st) = Some (Snapshot (sections st) (advancedForm st)) \<and>
      sections (autosave_effect st) = sections st \<and>
      advancedForm (autosave_effect st) = advancedForm st) \<and>
   sections (clearSections st) = [] \<and>
   localStorage (autosave_effect (clearSections st)) = None \<and>
   (secs \<noteq> [] \<longrightarrow>
      sections (ngOnInit (initial_app (Some (Snapshot secs form)))) = secs \<and>
      advancedForm (ngOnInit (initial_app (Some (Snapshot secs form)))) = form \<and>
      activeSectionId (ngOnInit (initial_app (Some (Snapshot secs form)))) = Some (sid (hd secs)) \<and>
      localStorage (ngOnInit (initial_app (Some (Snapshot secs form)))) =
        Some (Snapshot secs form))"
  by (cases secs)
     (simp_all add: autosave_effect_def clearSections_def ngOnInit_def initial_app_def Let_def)

text \<open>
  The theorem at the two example sessions: the second one starts with the section that the
  first one added.
\<close>

theorem autosave_snapshot_witness:
  "sections first_session =
     [\<lparr>sid = 1, title = new_section_title, content = [], status = Pending\<rparr>] \<and>
   localStorage first_session =
     Some (Snapshot [\<lparr>sid = 1, title = new_section_title, content = [], status = Pending\<rparr>]
              default_form) \<and>
   sections second_session =
     [\<lparr>sid = 1, title = new_section_title, content = [], status = Pending\<rparr>] \<and>
   advancedForm second_session = default_form \<and>
   activeSectionId second_session = Some 1"
proof -
  let ?s = "\<lparr>sid = 1, title = new_section_title, content = [], status = Pending\<rparr>"
  let ?st = "addNewSection (ngOnInit (initial_app None))"
  have secs: "sections ?st = [?s]"
    by (simp add: addNewSection_def ngOnInit_def initial_app_def newId_def)
  have form: "advancedForm ?st = default_form"
    by (simp add: addNewSection_def ngOnInit_def initial_app_def)
  from autosave_snapshot [of ?st "[?s]" default_form]
  have cache: "localStorage (autosave_effect ?st) = Some (Snapshot [?s] default_form)"
    and same: "sections (autosave_effect ?st) = [?s]"
    and start: "sections (ngOnInit (initial_app (Some (Snapshot [?s] default_form)))) = [?s]"
      "advancedForm (ngOnInit (initial_app (Some (Snapshot [?s] default_form)))) = default_form"
      "activeSectionId (ngOnInit (initial_app (Some (Snapshot [?s] default_form)))) = Some 1"
    by (simp_all add: secs form)
  show ?thesis
    unfolding second_session_def first_session_def cache
    using same start cache by simp
qed

text \<open>
  After \<open>clearSections\<close> on the saved example draft the section list is empty and the
  cache holds no snapshot, so the cache does not hold a snapshot of the current sections.
\<close>

theorem autosave_cleared_counterexample:
  "localStorage saved_app = Some (Snapshot example_sections example_form) \<and>
   sections (autosave_effect (clearSections saved_app)) = [] \<and>
   localStorage (autosave_effect (clearSections saved_app)) = None \<and>
   localStorage (autosave_effect (clearSections saved_app)) \<noteq>
     Some (Snapshot (sections (autosave_effect (clearSections saved_app)))
                    (advancedForm (autosave_effect (clearSections saved_app))))"
  by (simp add: saved_app_def autosave_effect_def clearSections_def example_app_def
        example_sections_def initial_app_def)

section \<open>Properties of the generation flag\<close>







end
